theory Spec2Isabelle
  imports Main "HOL-Library.Sublist"
begin

section \<open>JavaScript values used by the renderer\<close>

text \<open>
  Strings are modelled by \<^typ>\<open>string\<close>, read as the UTF-8 bytes of a well-formed
  JavaScript string. The renderer only concatenates strings, compares them, tests
  prefixes and suffixes and asks whether a length is zero, and all of these agree on the
  two representations. The one non-ASCII character the code names, the full-width colon
  U+FF1A, is the three bytes EF BC 9A.
\<close>

datatype error =
  NoRootBlock      \<comment> \<open>\<open>throw new Error(...)\<close> of \<open>parse\<close>\<close>
  | URIError       \<comment> \<open>thrown by \<open>decodeURIComponent\<close>\<close>
  | TypeError      \<comment> \<open>a method call on \<open>undefined\<close>\<close>
  | RangeError     \<comment> \<open>call stack exhausted: the recursion went deeper than the fuel\<close>

definition bind_res :: "error + 'a \<Rightarrow> ('a \<Rightarrow> error + 'b) \<Rightarrow> error + 'b" where
  "bind_res m f = (case m of Inl e \<Rightarrow> Inl e | Inr x \<Rightarrow> f x)"

text \<open>\<open>xs.forEach(f)\<close> where the body may throw: the first exception ends the loop.\<close>

fun forEach_res :: "('s \<Rightarrow> 'a \<Rightarrow> error + 's) \<Rightarrow> 's \<Rightarrow> 'a list \<Rightarrow> error + 's" where
  "forEach_res f s [] = Inr s"
| "forEach_res f s (x # xs) = (case f s x of Inl e \<Rightarrow> Inl e | Inr s' \<Rightarrow> forEach_res f s' xs)"

subsection \<open>Numbers in template strings\<close>

definition digit_char :: "nat \<Rightarrow> char" where
  "digit_char d = char_of (48 + d)"

fun show_nat :: "nat \<Rightarrow> string" where
  "show_nat n = (if n < 10 then [digit_char n] else show_nat (n div 10) @ [digit_char (n mod 10)])"

declare show_nat.simps [simp del]

definition show_int :: "int \<Rightarrow> string" where
  "show_int i = (if i < 0 then CHR ''-'' # show_nat (nat (- i)) else show_nat (nat i))"

subsection \<open>String methods\<close>

definition endsWith :: "string \<Rightarrow> string \<Rightarrow> bool" where
  "endsWith s suf = suffix suf s"

definition newline :: char where
  "newline = CHR 0x0A"

text \<open>
  The white space and line terminators that \<open>trim\<close>, \<open>trimStart\<close> and \<open>trimEnd\<close>
  remove, each as its UTF-8 bytes: TAB, LF, VT, FF, CR, SP, U+00A0, U+1680,
  U+2000..U+200A, U+2028, U+2029, U+202F, U+205F, U+3000, U+FEFF.
\<close>

definition js_whitespace :: "string list" where
  "js_whitespace =
     [[CHR 0x09], [CHR 0x0A], [CHR 0x0B], [CHR 0x0C], [CHR 0x0D], [CHR 0x20],
      [CHR 0xC2, CHR 0xA0],
      [CHR 0xE1, CHR 0x9A, CHR 0x80],
      [CHR 0xE2, CHR 0x80, CHR 0x80], [CHR 0xE2, CHR 0x80, CHR 0x81],
      [CHR 0xE2, CHR 0x80, CHR 0x82], [CHR 0xE2, CHR 0x80, CHR 0x83],
      [CHR 0xE2, CHR 0x80, CHR 0x84], [CHR 0xE2, CHR 0x80, CHR 0x85],
      [CHR 0xE2, CHR 0x80, CHR 0x86], [CHR 0xE2, CHR 0x80, CHR 0x87],
      [CHR 0xE2, CHR 0x80, CHR 0x88], [CHR 0xE2, CHR 0x80, CHR 0x89],
      [CHR 0xE2, CHR 0x80, CHR 0x8A],
      [CHR 0xE2, CHR 0x80, CHR 0xA8], [CHR 0xE2, CHR 0x80, CHR 0xA9],
      [CHR 0xE2, CHR 0x80, CHR 0xAF],
      [CHR 0xE2, CHR 0x81, CHR 0x9F],
      [CHR 0xE3, CHR 0x80, CHR 0x80],
      [CHR 0xEF, CHR 0xBB, CHR 0xBF]]"

text \<open>Removes, from the front, every leading occurrence of one of the given sequences.\<close>

function strip_leading :: "string list \<Rightarrow> string \<Rightarrow> string" where
  "strip_leading pats s =
     (case List.find (\<lambda>p. p \<noteq> [] \<and> prefix p s) pats of
        None \<Rightarrow> s
      | Some p \<Rightarrow> strip_leading pats (drop (length p) s))"
  by pat_completeness auto
termination
proof (relation "measure (\<lambda>(pats, s). length s)")
  show "wf (measure (\<lambda>(pats, s). length s))" by simp
next
  fix pats :: "string list" and s p :: string
  assume "List.find (\<lambda>p. p \<noteq> [] \<and> prefix p s) pats = Some p"
  then have "p \<noteq> []" and "prefix p s"
    by (auto simp: find_Some_iff)
  then have "s \<noteq> []" by auto
  with \<open>p \<noteq> []\<close> show "((pats, drop (length p) s), (pats, s)) \<in> measure (\<lambda>(pats, s). length s)"
    by simp
qed

declare strip_leading.simps [simp del]

definition trimStart :: "string \<Rightarrow> string" where
  "trimStart s = strip_leading js_whitespace s"

definition trimEnd :: "string \<Rightarrow> string" where
  "trimEnd s = rev (strip_leading (map rev js_whitespace) (rev s))"

definition trim :: "string \<Rightarrow> string" where
  "trim s = trimEnd (trimStart s)"

text \<open>\<open>xs.join(sep)\<close>\<close>

fun join :: "string \<Rightarrow> string list \<Rightarrow> string" where
  "join sep [] = []"
| "join sep [x] = x"
| "join sep (x # y # ys) = x @ sep @ join sep (y # ys)"

text \<open>\<open>s.toLowerCase()\<close>, on the ASCII names it is applied to.\<close>

definition toLowerCase :: "string \<Rightarrow> string" where
  "toLowerCase s =
     map (\<lambda>c. if 65 \<le> (of_char c :: nat) \<and> (of_char c :: nat) \<le> 90
               then char_of ((of_char c :: nat) + 32) else c) s"

subsection \<open>\<open>decodeURIComponent\<close>\<close>

text \<open>
  ECMAScript's \<open>Decode\<close> with an empty reserved set. Every \<open>%\<close> must start an escape
  \<open>%XY\<close> of two hexadecimal digits; an escaped byte below 0x80 is that character, and
  an escaped byte from 0x80 starts a UTF-8 sequence whose continuation bytes must be
  escaped too and which must encode a code point. Anything else throws \<open>URIError\<close>.
  On UTF-8 bytes the decoded sequence is the escaped bytes themselves.
\<close>

definition hex_val :: "char \<Rightarrow> nat option" where
  "hex_val c =
     (let n = (of_char c :: nat) in
      if 48 \<le> n \<and> n \<le> 57 then Some (n - 48)
      else if 65 \<le> n \<and> n \<le> 70 then Some (n - 55)
      else if 97 \<le> n \<and> n \<le> 102 then Some (n - 87)
      else None)"

fun unescape :: "string \<Rightarrow> (char + nat) list option" where
  "unescape [] = Some []"
| "unescape (c # cs) =
     (if c = CHR ''%'' then
        (case cs of
           h1 # h2 # rest \<Rightarrow>
             (case (hex_val h1, hex_val h2) of
                (Some a, Some b) \<Rightarrow> map_option (Cons (Inr (16 * a + b))) (unescape rest)
              | _ \<Rightarrow> None)
         | _ \<Rightarrow> None)
      else map_option (Cons (Inl c)) (unescape cs))"

definition utf8_length :: "nat \<Rightarrow> nat" where
  "utf8_length b =
     (if b < 0xC0 then 1 else if b < 0xE0 then 2 else if b < 0xF0 then 3
      else if b < 0xF8 then 4 else 5)"

definition continuation :: "char + nat \<Rightarrow> nat option" where
  "continuation t =
     (case t of Inl c \<Rightarrow> None
      | Inr b \<Rightarrow> if 0x80 \<le> b \<and> b < 0xC0 then Some b else None)"

definition valid_utf8 :: "nat \<Rightarrow> nat list \<Rightarrow> bool" where
  "valid_utf8 b cs =
     (case cs of
        [c1] \<Rightarrow> 0xC2 \<le> b
      | [c1, c2] \<Rightarrow> (if b = 0xE0 then 0xA0 \<le> c1 else if b = 0xED then c1 < 0xA0 else True)
      | [c1, c2, c3] \<Rightarrow>
          b \<le> 0xF4 \<and> (if b = 0xF0 then 0x90 \<le> c1 else if b = 0xF4 then c1 < 0x90 else True)
      | _ \<Rightarrow> False)"

fun utf8_octets :: "(char + nat) list \<Rightarrow> string option" where
  "utf8_octets [] = Some []"
| "utf8_octets (Inl c # ts) = map_option (Cons c) (utf8_octets ts)"
| "utf8_octets (Inr b # ts) =
     (if b < 0x80 then map_option (Cons (char_of b)) (utf8_octets ts)
      else
        (let n = utf8_length b; conts = map continuation (take (n - 1) ts) in
         if n = 1 \<or> 4 < n \<or> length conts \<noteq> n - 1 \<or> None \<in> set conts
            \<or> \<not> valid_utf8 b (map the conts)
         then None
         else map_option ((@) (map char_of (b # map the conts))) (utf8_octets (drop (n - 1) ts))))"

definition decodeURIComponent :: "string \<Rightarrow> error + string" where
  "decodeURIComponent s =
     (case unescape s of
        None \<Rightarrow> Inl URIError
      | Some ts \<Rightarrow> (case utf8_octets ts of None \<Rightarrow> Inl URIError | Some r \<Rightarrow> Inr r))"

section \<open>The block model (\<open>converter/types.ts\<close>)\<close>

text \<open>
  The numeric enum \<open>BlockType\<close>; a number the enum does not name is \<open>OtherType\<close>.
\<close>

datatype BlockType =
  Page | Text | Heading1 | Heading2 | Heading3 | Heading4 | Heading5 | Heading6
  | Heading7 | Heading8 | Heading9 | Bullet | Ordered | Code | Quote | MentionDoc
  | TodoList | Bitable | Callout | ChatCard | Diagram | Divider | File | Grid
  | GridColumn | Iframe | ImageType | Widget | MindNote | Sheet | Table | TableCell
  | View | QuoteContainer | Board | SyncedBlock | OtherType int

text \<open>
  A field of type \<open>number\<close> is an \<^typ>\<open>int\<close> (the API sends integers); where the code
  only asks whether a number is truthy, \<open>0\<close> also stands for a missing field. An
  optional object is an \<^typ>\<open>'a option\<close>. An array that the code reads only through
  \<open>?.forEach\<close>, \<open>?.length\<close>, \<open>?.some\<close> or \<open>|| []\<close> is a list, \<open>[]\<close> also standing
  for a missing array.

  Names are those of the source, but for a few that Isabelle reserves or that HOL
  already uses: the enum member \<open>Image\<close> is \<open>ImageType\<close>; the fields \<open>done\<close>, \<open>text\<close>,
  \<open>file\<close> and \<open>image\<close> are \<open>done_flag\<close>, \<open>text_block\<close>, \<open>file_block\<close> and \<open>image_block\<close>;
  \<open>Buffer.write\<close> is \<open>write_buf\<close> and the private field \<open>_title\<close> is \<open>doc_title\<close>. The
  two numbers of \<open>grid.column_size\<close> and \<open>grid_column.width_ratio\<close> are the fields
  \<open>grid_column_size\<close> and \<open>grid_column_width_ratio\<close> of the block.
\<close>

record TextStyle =
  done_flag :: bool
  language :: nat

record TextLink =
  url :: string

record TextElementStyle =
  bold :: bool
  italic :: bool
  strikethrough :: bool
  underline :: bool
  inline_code :: bool
  link :: "TextLink option"

record TextRun =
  content :: string
  text_element_style :: "TextElementStyle option"

record MentionDocument =
  token :: string
  title :: string

record TextElement =
  text_run :: "TextRun option"
  equation :: "TextRun option"
  mention_doc :: "MentionDocument option"

record TextBlock =
  style :: "TextStyle option"
  elements :: "TextElement list option"

record ImageBlock =
  width :: int
  height :: int
  image_token :: string
  align :: int

record TableMergeInfo =
  row_span :: int
  col_span :: int

record TableProperty =
  row_size :: int
  column_size :: int
  column_width :: "int list"
  header_column :: bool
  header_row :: bool
  merge_info :: "TableMergeInfo list"

record TableBlock =
  cells :: "string list"
  property :: TableProperty

record CalloutBlock =
  background_color :: int
  border_color :: int
  text_color :: int
  emoji_id :: string

record FileBlock =
  file_name :: string
  file_token :: string

record IframeComponent =
  iframe_url :: string

record IframeBlock =
  component :: "IframeComponent option"

record Block =
  block_id :: string
  parent_id :: string
  children :: "string list"
  block_type :: BlockType
  page :: "TextBlock option"
  text_block :: "TextBlock option"
  heading1 :: "TextBlock option"
  heading2 :: "TextBlock option"
  heading3 :: "TextBlock option"
  heading4 :: "TextBlock option"
  heading5 :: "TextBlock option"
  heading6 :: "TextBlock option"
  heading7 :: "TextBlock option"
  heading8 :: "TextBlock option"
  heading9 :: "TextBlock option"
  bullet :: "TextBlock option"
  ordered :: "TextBlock option"
  code :: "TextBlock option"
  quote :: "TextBlock option"
  todo :: "TextBlock option"
  callout :: "CalloutBlock option"
  file_block :: "FileBlock option"
  grid_column_size :: int
  grid_column_width_ratio :: int
  iframe :: "IframeBlock option"
  image_block :: "ImageBlock option"
  table :: "TableBlock option"
  board :: "ImageBlock option"

datatype FileKind = FileKind | ImageKind | BoardKind

record FileToken =
  ft_token :: string
  ft_type :: FileKind

text \<open>\<open>getAlignStyle\<close>\<close>

definition getAlignStyle :: "int \<Rightarrow> string" where
  "getAlignStyle a =
     (if a = 1 then ''left'' else if a = 2 then ''center'' else if a = 3 then ''right''
      else ''left'')"

text \<open>
  The enum \<open>CodeLanguage\<close> numbers its members from 1 in this order; \<open>CodeLanguage[code]\<close>
  is the member's name, or \<open>undefined\<close> for any other number.
\<close>

definition CodeLanguage_names :: "string list" where
  "CodeLanguage_names =
     [''PlainText'', ''ABAP'', ''Ada'', ''Apache'', ''Apex'', ''AssemblyLanguage'', ''Bash'',
      ''CSharp'', ''CPlusPlus'', ''C'', ''COBOL'', ''CSS'', ''CoffeeScript'', ''D'', ''Dart'',
      ''Delphi'', ''Django'', ''Dockerfile'', ''Erlang'', ''Fortran'', ''FoxPro'', ''Go'',
      ''Groovy'', ''HTML'', ''HTMLBars'', ''HTTP'', ''Haskell'', ''JSON'', ''Java'',
      ''JavaScript'', ''Julia'', ''Kotlin'', ''LateX'', ''Lisp'', ''Logo'', ''Lua'', ''MATLAB'',
      ''Makefile'', ''Markdown'', ''Nginx'', ''ObjectiveC'', ''OpenEdgeABL'', ''PHP'', ''Perl'',
      ''PostScript'', ''PowerShell'', ''Prolog'', ''ProtoBuf'', ''Python'', ''R'', ''RPG'',
      ''Ruby'', ''Rust'', ''SAS'', ''SCSS'', ''SQL'', ''Scala'', ''Scheme'', ''Scratch'',
      ''Shell'', ''Swift'', ''Thrift'', ''TypeScript'', ''VBScript'', ''VisualBasic'', ''XML'',
      ''YAML'', ''CMake'', ''Diff'', ''Gherkin'', ''GraphQL'', ''OpenGLShadingLanguage'',
      ''Properties'', ''Solidity'', ''TOML'']"

definition getCodeLanguage :: "nat \<Rightarrow> string" where
  "getCodeLanguage c =
     (if c = 0 \<or> length CodeLanguage_names < c then []
      else
        (let name = CodeLanguage_names ! (c - 1) in
         if name = ''PlainText'' then ''text''
         else if name = ''AssemblyLanguage'' then ''assembly''
         else if name = ''CPlusPlus'' then ''cpp''
         else if name = ''CSharp'' then ''csharp''
         else if name = ''CoffeeScript'' then ''coffee''
         else if name = ''Dockerfile'' then ''docker''
         else if name = ''FoxPro'' then ''foxpro''
         else if name = ''TypeScript'' then ''typescript''
         else if name = ''JavaScript'' then ''javascript''
         else if name = ''Rust'' then ''rust''
         else if name = ''Python'' then ''python''
         else if name = ''Ruby'' then ''ruby''
         else if name = ''Markdown'' then ''markdown''
         else if name = ''ObjectiveC'' then ''objectivec''
         else if name = ''VisualBasic'' then ''vb''
         else toLowerCase name))"

text \<open>The colour tables; \<open>None\<close> is a key the table does not have.\<close>

definition CalloutBackgroundColorMap :: "int \<Rightarrow> string option" where
  "CalloutBackgroundColorMap n =
     (if 1 \<le> n \<and> n \<le> 14 then
        Some ([''#fef2f2'', ''#fff7ed'', ''#fefce8'', ''#f0fdf4'', ''#eff6ff'', ''#faf5ff'',
               ''#f9fafb'', ''#fecaca'', ''#fed7aa'', ''#fef08a'', ''#bbf7d0'', ''#bfdbfe'',
               ''#e9d5ff'', ''#e5e7eb''] ! nat (n - 1))
      else None)"

definition CalloutBorderColorMap :: "int \<Rightarrow> string option" where
  "CalloutBorderColorMap n =
     (if 1 \<le> n \<and> n \<le> 7 then
        Some ([''#fecaca'', ''#fed7aa'', ''#fef08a'', ''#bbf7d0'', ''#bfdbfe'', ''#e9d5ff'',
               ''#e5e7eb''] ! nat (n - 1))
      else None)"

definition FontColorMap :: "int \<Rightarrow> string option" where
  "FontColorMap n =
     (if 1 \<le> n \<and> n \<le> 7 then
        Some ([''#ef4444'', ''#f97316'', ''#eab308'', ''#22c55e'', ''#3b82f6'', ''#a855f7'',
               ''#6b7280''] ! nat (n - 1))
      else None)"

text \<open>The name of an enum member, \<open>BlockType[block.block_type]\<close>.\<close>

definition BlockType_name :: "BlockType \<Rightarrow> string" where
  "BlockType_name t =
     (case t of
        Page \<Rightarrow> ''Page'' | Text \<Rightarrow> ''Text'' | Heading1 \<Rightarrow> ''Heading1''
      | Heading2 \<Rightarrow> ''Heading2'' | Heading3 \<Rightarrow> ''Heading3'' | Heading4 \<Rightarrow> ''Heading4''
      | Heading5 \<Rightarrow> ''Heading5'' | Heading6 \<Rightarrow> ''Heading6'' | Heading7 \<Rightarrow> ''Heading7''
      | Heading8 \<Rightarrow> ''Heading8'' | Heading9 \<Rightarrow> ''Heading9'' | Bullet \<Rightarrow> ''Bullet''
      | Ordered \<Rightarrow> ''Ordered'' | Code \<Rightarrow> ''Code'' | Quote \<Rightarrow> ''Quote''
      | MentionDoc \<Rightarrow> ''MentionDoc'' | TodoList \<Rightarrow> ''TodoList'' | Bitable \<Rightarrow> ''Bitable''
      | Callout \<Rightarrow> ''Callout'' | ChatCard \<Rightarrow> ''ChatCard'' | Diagram \<Rightarrow> ''Diagram''
      | Divider \<Rightarrow> ''Divider'' | File \<Rightarrow> ''File'' | Grid \<Rightarrow> ''Grid''
      | GridColumn \<Rightarrow> ''GridColumn'' | Iframe \<Rightarrow> ''Iframe'' | ImageType \<Rightarrow> ''Image''
      | Widget \<Rightarrow> ''Widget'' | MindNote \<Rightarrow> ''MindNote'' | Sheet \<Rightarrow> ''Sheet''
      | Table \<Rightarrow> ''Table'' | TableCell \<Rightarrow> ''TableCell'' | View \<Rightarrow> ''View''
      | QuoteContainer \<Rightarrow> ''QuoteContainer'' | Board \<Rightarrow> ''Board''
      | SyncedBlock \<Rightarrow> ''SyncedBlock'' | OtherType n \<Rightarrow> ''undefined'')"

section \<open>The output buffer (\<open>converter/buffer.ts\<close>)\<close>

text \<open>A \<open>Buffer\<close> is its array \<open>parts\<close>.\<close>

type_synonym Buffer = "string list"

definition buf_length :: "Buffer \<Rightarrow> nat" where
  "buf_length parts = fold (\<lambda>p acc. acc + length p) parts 0"

definition write_buf :: "Buffer \<Rightarrow> string \<Rightarrow> Buffer" where
  "write_buf parts str = parts @ [str]"

definition writeln :: "Buffer \<Rightarrow> string \<Rightarrow> Buffer" where
  "writeln parts str = parts @ [str @ [newline]]"

definition writeIndent :: "Buffer \<Rightarrow> nat \<Rightarrow> Buffer" where
  "writeIndent parts n = (if 0 < n then parts @ [concat (replicate n ''   '')] else parts)"

definition toString :: "Buffer \<Rightarrow> string" where
  "toString parts = concat parts"

text \<open>Returns whether the suffix was removed, and the buffer afterwards.\<close>

definition trimLastIfEndsWith :: "Buffer \<Rightarrow> string \<Rightarrow> bool \<times> Buffer" where
  "trimLastIfEndsWith parts suf =
     (if suf = [] \<or> parts = [] then (False, parts)
      else
        (let current = toString parts in
         if endsWith current suf then (True, [take (length current - length suf) current])
         else (False, parts)))"

text \<open>\<open>text.replace(/\n$/, "")\<close>\<close>

definition trimLastNewline :: "string \<Rightarrow> string" where
  "trimLastNewline s = (if s \<noteq> [] \<and> last s = newline then butlast s else s)"

definition escapeHTMLTags :: "string \<Rightarrow> string" where
  "escapeHTMLTags s =
     concat (map (\<lambda>c. if c = CHR ''<'' then ''&lt;'' else if c = CHR ''>'' then ''&gt;'' else [c]) s)"

section \<open>The renderer (\<open>converter/markdown.ts\<close>)\<close>

text \<open>
  The fields of a \<open>MarkdownRenderer\<close>. The methods read and assign them, so every method
  takes the renderer and returns it with its result.
\<close>

record Renderer =
  blockMap :: "string \<rightharpoonup> Block"
  currentBlock :: "Block option"
  nextBlock :: "Block option"
  indent :: nat
  fileTokens :: "FileToken list"
  doc_title :: string
  outputUnsupported :: bool

text \<open>
  What the renderer calls outside this repository's sources: \<open>marked.parse\<close> of the
  library \<open>marked\<close>, \<open>getEmojiChar\<close> of \<open>emoji.ts\<close>, and \<open>JSON.stringify(block, null, 2)\<close>.
\<close>

record Externals =
  marked_parse :: "string \<Rightarrow> string"
  getEmojiChar :: "string \<Rightarrow> string"
  stringify :: "Block \<Rightarrow> string"

text \<open>\<open>new MarkdownRenderer()\<close>\<close>

definition newRenderer :: Renderer where
  "newRenderer =
     \<lparr>blockMap = Map.empty, currentBlock = None, nextBlock = None, indent = 0,
      fileTokens = [], doc_title = [], outputUnsupported = False\<rparr>"

type_synonym rendered = "error + (string \<times> Renderer)"

text \<open>The type of \<open>this.parseBlock\<close>, as the other methods call it.\<close>

type_synonym parser = "Renderer \<Rightarrow> Block \<Rightarrow> nat \<Rightarrow> rendered"

definition addFileToken :: "Renderer \<Rightarrow> FileKind \<Rightarrow> string \<Rightarrow> Renderer" where
  "addFileToken st kind tok =
     (if tok \<noteq> [] then st\<lparr>fileTokens := fileTokens st @ [\<lparr>ft_token = tok, ft_type = kind\<rparr>]\<rparr>
      else st)"

definition markdownToHTML :: "Externals \<Rightarrow> string \<Rightarrow> string" where
  "markdownToHTML ext markdown = marked_parse ext markdown"

subsection \<open>Text runs and text elements\<close>

text \<open>
  The first \<open>if\<close> chain of \<open>parseTextRun\<close>: the wrappers \<open>preWrite\<close> and \<open>postWrite\<close> and
  the flag \<open>escape\<close>, by the first style that is set.
\<close>

definition markdownWrappers :: "TextElementStyle option \<Rightarrow> error + (string \<times> string \<times> bool)" where
  "markdownWrappers st_opt =
     (case st_opt of
        None \<Rightarrow> Inr ([], [], True)
      | Some sty \<Rightarrow>
          if bold sty then Inr (''**'', ''**'', True)
          else if italic sty then Inr (''*'', ''*'', True)
          else if strikethrough sty then Inr (''~~'', ''~~'', True)
          else if underline sty then Inr (''<u>'', ''</u>'', True)
          else if inline_code sty then Inr ([CHR 0x60], [CHR 0x60], False)
          else
            (case link sty of
               Some l \<Rightarrow>
                 bind_res (decodeURIComponent (url l))
                   (\<lambda>unescapeURL. Inr (''['', '']('' @ unescapeURL @ '')'', True))
             | None \<Rightarrow> Inr ([], [], True)))"

text \<open>\<open>plainText.match(/[:\<dots>]$/)\<close>: the text ends in an ASCII or a full-width colon.\<close>

definition endsWithColon :: "string \<Rightarrow> bool" where
  "endsWithColon s = (endsWith s '':'' \<or> endsWith s [CHR 0xEF, CHR 0xBC, CHR 0x9A])"

text \<open>The second \<open>if\<close> chain: HTML tags for bold, italic and strikethrough.\<close>

definition htmlWrappers :: "TextElementStyle option \<Rightarrow> string \<times> string \<Rightarrow> string \<times> string" where
  "htmlWrappers st_opt w =
     (case st_opt of
        None \<Rightarrow> w
      | Some sty \<Rightarrow>
          if bold sty then (''<b>'', ''</b>'')
          else if italic sty then (''<i>'', ''</i>'')
          else if strikethrough sty then (''<s>'', ''</s>'')
          else w)"

definition parseTextRun :: "Renderer \<Rightarrow> Buffer \<Rightarrow> TextRun \<Rightarrow> error + Buffer" where
  "parseTextRun st buf textRun =
     bind_res (markdownWrappers (text_element_style textRun))
       (\<lambda>(preWrite, postWrite, escape).
          let plainText =
                (if escape \<and> map_option block_type (currentBlock st) \<noteq> Some Code
                 then escapeHTMLTags (content textRun) else content textRun);
              (preWrite, postWrite) =
                (if endsWithColon plainText
                 then htmlWrappers (text_element_style textRun) (preWrite, postWrite)
                 else (preWrite, postWrite));
              (trimmed, buf) = trimLastIfEndsWith buf preWrite;
              buf = (if \<not> trimmed then write_buf buf preWrite else buf)
          in Inr (write_buf (write_buf buf plainText) postWrite))"

definition parseTextElement :: "Renderer \<Rightarrow> Buffer \<Rightarrow> TextElement \<Rightarrow> bool \<Rightarrow> error + Buffer" where
  "parseTextElement st buf el inline =
     (case text_run el of
        Some run \<Rightarrow> parseTextRun st buf run
      | None \<Rightarrow>
          (case equation el of
             Some eq \<Rightarrow>
               (let symbol = (if inline then ''$'' else ''$$'')
                in Inr (write_buf (write_buf (write_buf buf symbol) (trimEnd (content eq))) symbol))
           | None \<Rightarrow>
               (case mention_doc el of
                  Some m \<Rightarrow>
                    bind_res (decodeURIComponent (token m))
                      (\<lambda>nodeToken. Inr (write_buf buf (''['' @ title m @ '']('' @ nodeToken @ '')'')))
                | None \<Rightarrow> Inr buf)))"

subsection \<open>Loops over children\<close>

text \<open>
  The loop that most containers run:
  \<open>block.children?.forEach(id => { const child = this.blockMap.get(id);
  if (child) buf.write(f(child)) })\<close>. A child the lookup does not have is skipped.
\<close>

definition eachChild ::
  "(Renderer \<Rightarrow> Block \<Rightarrow> rendered) \<Rightarrow> Buffer \<times> Renderer \<Rightarrow> string list
     \<Rightarrow> error + (Buffer \<times> Renderer)" where
  "eachChild f =
     forEach_res
       (\<lambda>(buf, st) childId.
          case blockMap st childId of
            None \<Rightarrow> Inr (buf, st)
          | Some child \<Rightarrow> bind_res (f st child) (\<lambda>(s, st'). Inr (write_buf buf s, st')))"

definition childrenBlockTypes :: "BlockType list" where
  "childrenBlockTypes =
     [Text, Heading1, Heading2, Heading3, Heading4, Heading5, Heading6, Heading7, Heading8,
      Heading9]"

definition parseTextBlock :: "parser \<Rightarrow> Renderer \<Rightarrow> Block \<Rightarrow> TextBlock option \<Rightarrow> rendered" where
  "parseTextBlock rec st block textBlock =
     (case textBlock of
        None \<Rightarrow> Inr ([], st)
      | Some tb \<Rightarrow>
          (case elements tb of
             None \<Rightarrow> Inr ([], st)
           | Some els \<Rightarrow>
               bind_res (forEach_res (\<lambda>buf el. parseTextElement st buf el (1 < length els)) [] els)
                 (\<lambda>buf.
                    let buf = (if 0 < buf_length buf then write_buf buf [newline] else buf) in
                    if block_type block \<in> set childrenBlockTypes then
                      bind_res
                        (eachChild (\<lambda>st child. rec st child (indent st)) (buf, st) (children block))
                        (\<lambda>(buf, st). Inr (toString buf, st))
                    else Inr (toString buf, st))))"

subsection \<open>Page\<close>

text \<open>
  The callback of \<open>block.children.forEach\<close> in \<open>parsePageBlock\<close>, for the child at
  position \<open>idx\<close> of the children \<open>cs\<close>: the next sibling is recorded, the child is
  rendered at indent 0 and, unless its text is empty, written with a newline after it.
\<close>

definition renderPageChild ::
  "parser \<Rightarrow> string list \<Rightarrow> Buffer \<times> Renderer \<Rightarrow> nat \<times> string \<Rightarrow> error + (Buffer \<times> Renderer)" where
  "renderPageChild rec cs =
     (\<lambda>(buf, st) (idx, childId).
        case blockMap st childId of
          None \<Rightarrow> Inr (buf, st)
        | Some child \<Rightarrow>
            (let st = st\<lparr>nextBlock :=
                   (if idx + 1 < length cs \<and> cs ! (idx + 1) \<noteq> []
                    then blockMap st (cs ! (idx + 1)) else None)\<rparr>
             in bind_res (rec st child 0)
                  (\<lambda>(childText, st).
                     if 0 < length childText
                     then Inr (write_buf (write_buf buf childText) [newline], st)
                     else Inr (buf, st))))"

text \<open>The first step of \<open>parsePageBlock\<close>: the title of the document is kept.\<close>

definition setTitle :: "Renderer \<Rightarrow> Block \<Rightarrow> error + Renderer" where
  "setTitle st block =
     (case page block of
        None \<Rightarrow> Inr st
      | Some pg \<Rightarrow>
          (case elements pg of
             None \<Rightarrow> Inr st
           | Some els \<Rightarrow>
               if 0 < length els then
                 bind_res
                   (forEach_res (\<lambda>titleBuf el. parseTextElement st titleBuf el (1 < length els))
                      [] els)
                   (\<lambda>titleBuf. Inr (st\<lparr>doc_title := trim (toString titleBuf)\<rparr>))
               else Inr st))"

definition parsePageBlock :: "parser \<Rightarrow> Renderer \<Rightarrow> Block \<Rightarrow> rendered" where
  "parsePageBlock rec st block =
     bind_res (setTitle st block)
       (\<lambda>st.
          bind_res (parseTextBlock rec st block (page block))
            (\<lambda>(s, st).
               bind_res
                 (forEach_res (renderPageChild rec (children block))
                    (write_buf (write_buf (write_buf [] ''# '') s) [newline], st)
                    (List.enumerate 0 (children block)))
                 (\<lambda>(buf, st). Inr (toString buf, st))))"

subsection \<open>Lists\<close>

text \<open>
  The condition under which a list item drops its trailing newline: the next sibling has
  the item's type and parent, and the item has no children.
\<close>

definition compactItem :: "Renderer \<Rightarrow> Block \<Rightarrow> bool" where
  "compactItem st block =
     (map_option block_type (nextBlock st) = Some (block_type block)
      \<and> map_option parent_id (nextBlock st) = Some (parent_id block)
      \<and> children block = [])"

definition parseBulletBlock :: "parser \<Rightarrow> Renderer \<Rightarrow> Block \<Rightarrow> nat \<Rightarrow> rendered" where
  "parseBulletBlock rec st block ind =
     bind_res (parseTextBlock rec st block (bullet block))
       (\<lambda>(itemText, st).
          let itemText = (if compactItem st block then trimLastNewline itemText else itemText) in
          bind_res
            (eachChild (\<lambda>st child. rec (st\<lparr>nextBlock := None\<rparr>) child (ind + 1))
               (write_buf (write_buf [] ''- '') itemText, st) (children block))
            (\<lambda>(buf, st). Inr (toString buf, st)))"

text \<open>
  The inner loop of the ordinal: \<open>for (let j = i - 1; j >= 0; j--)\<close>, counting the
  siblings before position \<open>i\<close> that are ordered items, up to the first that is not.
\<close>

fun countOrderedBefore :: "(string \<rightharpoonup> Block) \<Rightarrow> string list \<Rightarrow> nat \<Rightarrow> nat \<Rightarrow> nat" where
  "countOrderedBefore m cs 0 order = order"
| "countOrderedBefore m cs (Suc j) order =
     (if map_option block_type (m (cs ! j)) = Some Ordered
      then countOrderedBefore m cs j (order + 1) else order)"

text \<open>
  The outer loop stops at the first position of the parent's children that holds the
  block's own id.
\<close>

definition orderOf :: "Renderer \<Rightarrow> Block \<Rightarrow> nat" where
  "orderOf st block =
     (case blockMap st (parent_id block) of
        None \<Rightarrow> 1
      | Some parent \<Rightarrow>
          (case List.find (\<lambda>i. children parent ! i = block_id block) [0..<length (children parent)] of
             None \<Rightarrow> 1
           | Some i \<Rightarrow> countOrderedBefore (blockMap st) (children parent) i 1))"

definition parseOrderedBlock :: "parser \<Rightarrow> Renderer \<Rightarrow> Block \<Rightarrow> nat \<Rightarrow> rendered" where
  "parseOrderedBlock rec st block ind =
     (let order = orderOf st block in
      bind_res (parseTextBlock rec st block (ordered block))
        (\<lambda>(itemText, st).
           let itemText = (if compactItem st block then trimLastNewline itemText else itemText) in
           bind_res
             (eachChild (\<lambda>st child. rec (st\<lparr>nextBlock := None\<rparr>) child (ind + 1))
                (write_buf (write_buf [] (show_nat order @ ''. '')) itemText, st) (children block))
             (\<lambda>(buf, st). Inr (toString buf, st))))"

subsection \<open>Images, boards, files, iframes\<close>

text \<open>The attribute list that \<open>parseImage\<close> and \<open>parseBoard\<close> build alike.\<close>

definition imgAttrs :: "ImageBlock \<Rightarrow> string list" where
  "imgAttrs im =
     (let al = getAlignStyle (align im) in
      [''src=\"'' @ image_token im @ ''\"'']
      @ (if width im \<noteq> 0 then [''src-width=\"'' @ show_int (width im) @ ''\"''] else [])
      @ (if height im \<noteq> 0 then [''src-height=\"'' @ show_int (height im) @ ''\"''] else [])
      @ (if al \<noteq> [] \<and> al \<noteq> ''left'' then [''align=\"'' @ al @ ''\"''] else []))"

definition parseImage :: "Renderer \<Rightarrow> ImageBlock option \<Rightarrow> string \<times> Renderer" where
  "parseImage st img =
     (case img of
        None \<Rightarrow> ([], st)
      | Some im \<Rightarrow>
          (toString (write_buf (write_buf [] (''<img '' @ join '' '' (imgAttrs im) @ '' />'')) [newline]),
           addFileToken st ImageKind (image_token im)))"

definition parseBoard :: "Renderer \<Rightarrow> ImageBlock option \<Rightarrow> string \<times> Renderer" where
  "parseBoard st brd =
     (case brd of
        None \<Rightarrow> ([], st)
      | Some im \<Rightarrow>
          (toString (write_buf (write_buf [] (''<img '' @ join '' '' (imgAttrs im) @ '' />'')) [newline]),
           addFileToken st BoardKind (image_token im)))"

definition parseFile :: "Renderer \<Rightarrow> Block \<Rightarrow> string \<times> Renderer" where
  "parseFile st block =
     (case file_block block of
        None \<Rightarrow> ([], st)
      | Some f \<Rightarrow>
          (toString (write_buf (write_buf [] (''['' @ file_name f @ '']('' @ file_token f @ '')'')) [newline]),
           addFileToken st FileKind (file_token f)))"

definition parseIframe :: "Block \<Rightarrow> error + string" where
  "parseIframe block =
     (case iframe block of
        None \<Rightarrow> Inr []
      | Some fr \<Rightarrow>
          (case component fr of
             None \<Rightarrow> Inr []
           | Some c \<Rightarrow>
               if iframe_url c = [] then Inr []
               else
                 bind_res (decodeURIComponent (iframe_url c))
                   (\<lambda>decodedUrl.
                      Inr (toString (write_buf (write_buf [] (''<iframe src=\"'' @ decodedUrl @ ''\"></iframe>''))
                             [newline])))))"

subsection \<open>Tables\<close>

definition isComplexTable :: "TableBlock \<Rightarrow> bool" where
  "isComplexTable tbl =
     (let mergeInfos = merge_info (property tbl);
          hasMerge = list_ex (\<lambda>info. 1 < row_span info \<or> 1 < col_span info) mergeInfos;
          hasColWidth = list_ex (\<lambda>w. 100 < w) (column_width (property tbl))
      in hasMerge \<or> hasColWidth)"

text \<open>
  \<open>Math.floor(idx / column_size)\<close> as an index into \<open>rows\<close>. With a positive
  \<open>column_size\<close> it is the integer quotient. With \<open>column_size = 0\<close> the quotient is
  \<open>NaN\<close> or \<open>Infinity\<close>, and with a negative \<open>column_size\<close> and \<open>idx > 0\<close> it is negative:
  none of them is an index of an array (\<open>None\<close>). \<open>0 / column_size\<close> with a negative
  \<open>column_size\<close> is \<open>-0\<close>, which indexes like \<open>0\<close>.
\<close>

definition rowIndex :: "nat \<Rightarrow> int \<Rightarrow> nat option" where
  "rowIndex idx columnSize =
     (if 0 < columnSize then Some (idx div nat columnSize)
      else if columnSize < 0 \<and> idx = 0 then Some 0
      else None)"

text \<open>
  \<open>if (rows.length < row + 1) rows.push([]); rows[row]!.push(cell)\<close>: one row at most is
  added, and \<open>rows[row]\<close> is \<open>undefined\<close> when \<open>row\<close> is still out of range, so that
  \<open>push\<close> throws a \<open>TypeError\<close>.
\<close>

definition pushCell :: "string list list \<Rightarrow> nat option \<Rightarrow> string \<Rightarrow> error + string list list" where
  "pushCell rows row cell =
     (case row of
        None \<Rightarrow> Inl TypeError
      | Some r \<Rightarrow>
          (let rows = (if length rows < r + 1 then rows @ [[]] else rows) in
           if r < length rows then Inr (rows[r := rows ! r @ [cell]]) else Inl TypeError))"

text \<open>
  The loop \<open>table.cells.forEach((blockId, idx) => ...)\<close> of both table renderings; they
  differ in what they make of the rendered cell (\<open>conv\<close>).
\<close>

definition collectRows ::
  "parser \<Rightarrow> (string \<Rightarrow> string) \<Rightarrow> Renderer \<Rightarrow> TableBlock \<Rightarrow> error + (string list list \<times> Renderer)" where
  "collectRows rec conv st tbl =
     forEach_res
       (\<lambda>(rows, st) (idx, blockId).
          case blockMap st blockId of
            None \<Rightarrow> Inr (rows, st)
          | Some block \<Rightarrow>
              bind_res (rec st block 0)
                (\<lambda>(cellText, st).
                   bind_res (pushCell rows (rowIndex idx (column_size (property tbl))) (conv cellText))
                     (\<lambda>rows. Inr (rows, st))))
       ([[]], st) (List.enumerate 0 (cells tbl))"

text \<open>\<open>rows.shift() || []\<close>: the first row, and the rows that stay.\<close>

definition shiftRow :: "string list list \<Rightarrow> string list \<times> string list list" where
  "shiftRow rows = (case rows of [] \<Rightarrow> ([], []) | r # rs \<Rightarrow> (r, rs))"

text \<open>\<open>xs[i] || d\<close> for an array of strings.\<close>

definition nth_or :: "string list \<Rightarrow> nat \<Rightarrow> string \<Rightarrow> string" where
  "nth_or xs i d = (if i < length xs \<and> xs ! i \<noteq> [] then xs ! i else d)"

text \<open>\<open>trimLastNewline(cellText).replace(/\n/gm, " ")\<close>\<close>

definition flattenCell :: "string \<Rightarrow> string" where
  "flattenCell s = map (\<lambda>c. if c = newline then CHR '' '' else c) (trimLastNewline s)"

definition tableCellAttrHTML :: "TableMergeInfo list \<Rightarrow> nat \<Rightarrow> string" where
  "tableCellAttrHTML mergeInfos idx =
     (if length mergeInfos \<le> idx then []
      else
        (let mergeInfo = mergeInfos ! idx;
             attrs =
               (if 1 < row_span mergeInfo then [''rowspan=\"'' @ show_int (row_span mergeInfo) @ ''\"'']
                else [])
               @ (if 1 < col_span mergeInfo
                  then [''colspan=\"'' @ show_int (col_span mergeInfo) @ ''\"''] else [])
         in if 0 < length attrs then '' '' @ join '' '' attrs else []))"

text \<open>
  \<open>if (targetIdx < cellInfos.length) cellInfos[targetIdx] = 0\<close>. A negative \<open>targetIdx\<close>
  passes the test, and the assignment then leaves the elements as they are.
\<close>

definition clearCell :: "nat list \<Rightarrow> int \<Rightarrow> nat list" where
  "clearCell cellInfos targetIdx =
     (if 0 \<le> targetIdx \<and> targetIdx < int (length cellInfos)
      then cellInfos[nat targetIdx := 0] else cellInfos)"

text \<open>Which cells are written (1) and which a merge covers (0).\<close>

definition computeCellInfos :: "TableMergeInfo list \<Rightarrow> int \<Rightarrow> nat list" where
  "computeCellInfos mergeInfos columnSize =
     fold
       (\<lambda>i cellInfos.
          let info = mergeInfos ! i;
              cellInfos =
                (if 1 < row_span info
                 then fold (\<lambda>j acc. clearCell acc (int i + j * columnSize)) [1..row_span info - 1]
                        cellInfos
                 else cellInfos)
          in if 1 < col_span info
             then fold (\<lambda>j acc. clearCell acc (int i + j)) [1..col_span info - 1] cellInfos
             else cellInfos)
       [0..<length mergeInfos] (map (\<lambda>_. 1) mergeInfos)"

text \<open>The closure \<open>writeCell\<close>; the counter \<open>cellIdx\<close> travels with the buffer.\<close>

definition writeCell ::
  "TableMergeInfo list \<Rightarrow> nat list \<Rightarrow> Buffer \<times> nat \<Rightarrow> string \<Rightarrow> string \<Rightarrow> Buffer \<times> nat" where
  "writeCell mergeInfos cellInfos bc cell tag =
     (let (b, cellIdx) = bc;
          attr = tableCellAttrHTML mergeInfos cellIdx;
          b = (if cellIdx < length cellInfos \<and> cellInfos ! cellIdx = 1
               then write_buf b (''<'' @ tag @ attr @ ''>'' @ cell @ ''</'' @ tag @ ''>'')
               else b)
      in (b, cellIdx + 1))"

text \<open>
  What \<open>parseTableAsHTML\<close> writes once the cells are rendered and collected in \<open>rows\<close>.
\<close>

definition htmlOfRows :: "TableBlock \<Rightarrow> string list list \<Rightarrow> string" where
  "htmlOfRows tbl rows =
     (let prop = property tbl;
          attrs = (if header_column prop then [''header_column=\"1\"''] else [])
                  @ (if header_row prop then [''header_row=\"1\"''] else []);
          attrHTML = (if 0 < length attrs then '' '' @ join '' '' attrs else []);
          buf = writeln [] (''<table'' @ attrHTML @ ''>'');
          buf = writeln buf ''  <colgroup>'';
          buf = fold
                  (\<lambda>i b.
                     let widthAttr =
                           (if i < length (column_width prop) \<and> column_width prop ! i \<noteq> 0
                            then '' width=\"'' @ show_int (column_width prop ! i) @ ''\"''
                            else [])
                     in writeln b (''    <col'' @ widthAttr @ '' />''))
                  [0..<nat (column_size prop)] buf;
          buf = writeln buf ''  </colgroup>'';
          mergeInfos = merge_info prop;
          columnSize = column_size prop;
          cellInfos = computeCellInfos mergeInfos columnSize;
          (buf, cellIdx, rows) =
            (if header_row prop then
               (let (headRow, rows) = shiftRow rows;
                    buf = writeln buf ''  <thead>'';
                    buf = write_buf buf ''    <tr>'';
                    (buf, cellIdx) =
                      fold (\<lambda>i bc. writeCell mergeInfos cellInfos bc (nth_or headRow i []) ''th'')
                        [0..<nat columnSize] (buf, 0);
                    buf = writeln buf ''</tr>'';
                    buf = writeln buf ''  </thead>''
                in (buf, cellIdx, rows))
             else (buf, 0, rows));
          buf = writeln buf ''  <tbody>'';
          (buf, cellIdx) =
            fold
              (\<lambda>row (buf, cellIdx).
                 let buf = write_buf buf ''    <tr>'';
                     (buf, cellIdx) =
                       fold (\<lambda>cell bc. writeCell mergeInfos cellInfos bc cell ''td'') row
                         (buf, cellIdx)
                 in (writeln buf ''</tr>'', cellIdx))
              rows (buf, cellIdx);
          buf = writeln buf ''  </tbody>'';
          buf = writeln buf ''</table>''
      in toString buf)"

definition parseTableAsHTML :: "Externals \<Rightarrow> parser \<Rightarrow> Renderer \<Rightarrow> TableBlock \<Rightarrow> rendered" where
  "parseTableAsHTML ext rec st tbl =
     bind_res (collectRows rec (\<lambda>s. trim (markdownToHTML ext s)) st tbl)
       (\<lambda>(rows, st). Inr (htmlOfRows tbl rows, st))"

text \<open>
  What \<open>parseTable\<close> writes for a table that is not complex, once the cells are rendered
  and collected in \<open>rows\<close>: the header line, the separator line, the body lines.
\<close>

definition gfmOfRows :: "TableBlock \<Rightarrow> string list list \<Rightarrow> string" where
  "gfmOfRows tbl rows =
     (let prop = property tbl;
          (headRow, rows) = (if header_row prop then shiftRow rows else ([], rows));
          buf = write_buf [] ''|'';
          buf = fold (\<lambda>i b. write_buf (write_buf b (nth_or headRow i '' '')) ''|'')
                  [0..<nat (column_size prop)] buf;
          buf = write_buf buf [newline];
          buf = write_buf buf ''|'';
          buf = fold (\<lambda>i b. write_buf b ''---|'') [0..<nat (column_size prop)] buf;
          buf = write_buf buf [newline];
          buf = fold
                  (\<lambda>row b.
                     let b = write_buf b ''|'';
                         b = fold (\<lambda>cell b. write_buf (write_buf b cell) ''|'') row b
                     in write_buf b [newline])
                  rows buf
      in toString buf)"

definition parseTable :: "Externals \<Rightarrow> parser \<Rightarrow> Renderer \<Rightarrow> TableBlock option \<Rightarrow> rendered" where
  "parseTable ext rec st tbl_opt =
     (case tbl_opt of
        None \<Rightarrow> Inr ([], st)
      | Some tbl \<Rightarrow>
          if isComplexTable tbl then parseTableAsHTML ext rec st tbl
          else
            bind_res (collectRows rec flattenCell st tbl)
              (\<lambda>(rows, st). Inr (gfmOfRows tbl rows, st)))"

definition parseTableCell :: "parser \<Rightarrow> Renderer \<Rightarrow> Block \<Rightarrow> rendered" where
  "parseTableCell rec st block =
     bind_res (eachChild (\<lambda>st child. rec st child 0) ([], st) (children block))
       (\<lambda>(buf, st). Inr (toString buf, st))"

subsection \<open>Containers\<close>

text \<open>The callback of \<open>block.children?.forEach\<close> in \<open>parseQuoteContainer\<close>.\<close>

definition quoteChild :: "parser \<Rightarrow> Buffer \<times> Renderer \<Rightarrow> string \<Rightarrow> error + (Buffer \<times> Renderer)" where
  "quoteChild rec =
     (\<lambda>(buf, st) childId.
        case blockMap st childId of
          None \<Rightarrow> Inr (buf, st)
        | Some child \<Rightarrow>
            bind_res (rec st child 0)
              (\<lambda>(s, st'). Inr (write_buf (write_buf buf ''> '') s, st')))"

definition parseQuoteContainer :: "parser \<Rightarrow> Renderer \<Rightarrow> Block \<Rightarrow> rendered" where
  "parseQuoteContainer rec st block =
     bind_res (forEach_res (quoteChild rec) ([], st) (children block))
       (\<lambda>(buf, st). Inr (toString buf, st))"

definition parseView :: "parser \<Rightarrow> Renderer \<Rightarrow> Block \<Rightarrow> rendered" where
  "parseView rec st block =
     bind_res (eachChild (\<lambda>st child. rec st child 0) ([], st) (children block))
       (\<lambda>(buf, st). Inr (toString buf, st))"

definition parseSyncedBlock :: "parser \<Rightarrow> Renderer \<Rightarrow> Block \<Rightarrow> rendered" where
  "parseSyncedBlock rec st block =
     bind_res (eachChild (\<lambda>st child. rec st child 0) ([], st) (children block))
       (\<lambda>(buf, st). Inr (toString buf, st))"

text \<open>
  \<open>block.children?.map(id => { const child = this.blockMap.get(id);
  return child ? this.parseBlock(child, 0) : "" }).join("\n") || ""\<close>: \<open>joinChild\<close> is the
  callback of \<open>map\<close>, collecting the parts in turn.
\<close>

definition joinChild :: "parser \<Rightarrow> string list \<times> Renderer \<Rightarrow> string \<Rightarrow> error + (string list \<times> Renderer)" where
  "joinChild rec =
     (\<lambda>(acc, st) childId.
        case blockMap st childId of
          None \<Rightarrow> Inr (acc @ [[]], st)
        | Some child \<Rightarrow> bind_res (rec st child 0) (\<lambda>(s, st'). Inr (acc @ [s], st')))"

definition joinChildren :: "parser \<Rightarrow> Renderer \<Rightarrow> Block \<Rightarrow> rendered" where
  "joinChildren rec st block =
     bind_res (forEach_res (joinChild rec) ([], st) (children block))
       (\<lambda>(acc, st). Inr (join [newline] acc, st))"

definition parseGridColumn :: "Externals \<Rightarrow> parser \<Rightarrow> Renderer \<Rightarrow> Block \<Rightarrow> rendered" where
  "parseGridColumn ext rec st block =
     (let widthRatio = grid_column_width_ratio block;
          buf = writeln []
                  (''<div class=\"grid-column\" style=\"flex: ''
                   @ show_int (if widthRatio \<noteq> 0 then widthRatio else 1) @ '';\">'')
      in bind_res (joinChildren rec st block)
           (\<lambda>(inner, st).
              Inr (toString (writeln (write_buf buf (markdownToHTML ext inner)) ''</div>''), st)))"

definition parseGrid :: "Externals \<Rightarrow> parser \<Rightarrow> Renderer \<Rightarrow> Block \<Rightarrow> rendered" where
  "parseGrid ext rec st block =
     (let columnSize = (if grid_column_size block \<noteq> 0 then grid_column_size block else 1);
          buf = writeln []
                  (''<div class=\"grid\" style=\"display: grid; grid-template-columns: repeat(''
                   @ show_int columnSize @ '', 1fr); gap: 16px;\">'')
      in bind_res (eachChild (\<lambda>st child. parseGridColumn ext rec st child) (buf, st) (children block))
           (\<lambda>(buf, st). Inr (toString (writeln buf ''</div>''), st)))"

definition parseCallout :: "Externals \<Rightarrow> parser \<Rightarrow> Renderer \<Rightarrow> Block \<Rightarrow> rendered" where
  "parseCallout ext rec st block =
     (let bgc = (case callout block of None \<Rightarrow> 0 | Some c \<Rightarrow> background_color c);
          bdc = (case callout block of None \<Rightarrow> 0 | Some c \<Rightarrow> border_color c);
          txc = (case callout block of None \<Rightarrow> 0 | Some c \<Rightarrow> text_color c);
          emoji = (case callout block of None \<Rightarrow> [] | Some c \<Rightarrow> emoji_id c);
          styleEntries =
            (if bgc \<noteq> 0
             then (case CalloutBackgroundColorMap bgc of
                     Some bg \<Rightarrow> [''background: '' @ bg] | None \<Rightarrow> [])
             else [])
            @ (if bdc \<noteq> 0
               then (case CalloutBorderColorMap bdc of
                       Some border \<Rightarrow> [''border: 1px solid '' @ border] | None \<Rightarrow> [])
               else [])
            @ (if txc \<noteq> 0
               then [''color: '' @ (case FontColorMap txc of Some color \<Rightarrow> color | None \<Rightarrow> ''#222'')]
               else []);
          classNames =
            [''callout'']
            @ (if bgc \<noteq> 0 then [''callout-bg-'' @ show_int bgc] else [])
            @ (if bdc \<noteq> 0 then [''callout-border-'' @ show_int bdc] else [])
            @ (if txc \<noteq> 0 then [''callout-color-'' @ show_int txc] else []);
          styleAttr =
            (if 0 < length styleEntries then '' style=\"'' @ join ''; '' styleEntries @ ''\"'' else []);
          buf = writeln [] (''<div class=\"'' @ join '' '' classNames @ ''\"'' @ styleAttr @ ''>'');
          buf = (if emoji \<noteq> []
                 then writeln (write_buf (write_buf buf ''<span class=\"callout-emoji\">'')
                                 (getEmojiChar ext emoji)) ''</span>''
                 else buf)
      in bind_res (joinChildren rec st block)
           (\<lambda>(innerParts, st).
              Inr (toString (writeln (write_buf buf (markdownToHTML ext innerParts)) ''</div>''), st)))"

definition parseUnsupport :: "Externals \<Rightarrow> Renderer \<Rightarrow> Block \<Rightarrow> string" where
  "parseUnsupport ext st block =
     (if \<not> outputUnsupported st then []
      else
        toString
          (write_buf
             (write_buf
                (write_buf (write_buf [] [CHR 0x60, CHR 0x60, CHR 0x60, newline])
                   (''// [Unsupported] '' @ BlockType_name (block_type block) @ [newline]))
                (stringify ext block))
             [newline, CHR 0x60, CHR 0x60, CHR 0x60, newline]))"

subsection \<open>The dispatch\<close>

text \<open>A heading: the marker, then the text block without its leading white space.\<close>

definition parseHeading :: "parser \<Rightarrow> Renderer \<Rightarrow> Buffer \<Rightarrow> Block \<Rightarrow> string \<Rightarrow> TextBlock option \<Rightarrow> rendered" where
  "parseHeading rec st buf block marker tb =
     bind_res (parseTextBlock rec st block tb)
       (\<lambda>(s, st). Inr (toString (write_buf (write_buf buf marker) (trimStart s)), st))"

text \<open>
  The body of \<open>parseBlock\<close>. \<open>rec\<close> is \<open>this.parseBlock\<close> as the methods called from here
  call it again.
\<close>

definition parseBlock_body :: "Externals \<Rightarrow> parser \<Rightarrow> Renderer \<Rightarrow> Block \<Rightarrow> nat \<Rightarrow> rendered" where
  "parseBlock_body ext rec st0 block ind =
     (let st = st0\<lparr>indent := ind\<rparr>;
          buf = writeIndent [] (indent st);
          st = st\<lparr>currentBlock := Some block\<rparr>;
          put = (\<lambda>r. bind_res r (\<lambda>(s, st). Inr (toString (write_buf buf s), st)))
      in case block_type block of
           Page \<Rightarrow> put (parsePageBlock rec st block)
         | Text \<Rightarrow> put (parseTextBlock rec st block (text_block block))
         | Heading1 \<Rightarrow> parseHeading rec st buf block ''# '' (heading1 block)
         | Heading2 \<Rightarrow> parseHeading rec st buf block ''## '' (heading2 block)
         | Heading3 \<Rightarrow> parseHeading rec st buf block ''### '' (heading3 block)
         | Heading4 \<Rightarrow> parseHeading rec st buf block ''#### '' (heading4 block)
         | Heading5 \<Rightarrow> parseHeading rec st buf block ''##### '' (heading5 block)
         | Heading6 \<Rightarrow> parseHeading rec st buf block ''###### '' (heading6 block)
         | Heading7 \<Rightarrow> parseHeading rec st buf block ''####### '' (heading7 block)
         | Heading8 \<Rightarrow> parseHeading rec st buf block ''######## '' (heading8 block)
         | Heading9 \<Rightarrow> parseHeading rec st buf block ''######### '' (heading9 block)
         | Bullet \<Rightarrow>
             bind_res (parseBulletBlock rec st block ind)
               (\<lambda>(s, st). Inr (toString (write_buf buf (trimStart s)), st))
         | Ordered \<Rightarrow> put (parseOrderedBlock rec st block ind)
         | Code \<Rightarrow>
             bind_res (parseTextBlock rec st block (code block))
               (\<lambda>(s, st).
                  Inr (toString
                         (write_buf
                            (write_buf
                               (write_buf
                                  (write_buf (write_buf buf [CHR 0x60, CHR 0x60, CHR 0x60])
                                     (getCodeLanguage
                                        (case code block of
                                           None \<Rightarrow> 0
                                         | Some tb \<Rightarrow>
                                             (case style tb of None \<Rightarrow> 0 | Some sty \<Rightarrow> language sty))))
                                  [newline])
                               (trim s))
                            [newline, CHR 0x60, CHR 0x60, CHR 0x60, newline]),
                       st))
         | Quote \<Rightarrow>
             bind_res (parseTextBlock rec st block (quote block))
               (\<lambda>(s, st). Inr (toString (write_buf (write_buf buf ''> '') s), st))
         | TodoList \<Rightarrow>
             bind_res (parseTextBlock rec st block (todo block))
               (\<lambda>(s, st).
                  Inr (toString
                         (write_buf
                            (write_buf
                               (write_buf (write_buf buf ''- ['')
                                  (if (case todo block of
                                         None \<Rightarrow> False
                                       | Some tb \<Rightarrow>
                                           (case style tb of None \<Rightarrow> False | Some sty \<Rightarrow> done_flag sty))
                                   then ''x'' else '' ''))
                               ''] '')
                            s),
                       st))
         | Divider \<Rightarrow> Inr (toString (write_buf buf (''---'' @ [newline])), st)
         | ImageType \<Rightarrow> put (Inr (parseImage st (image_block block)))
         | TableCell \<Rightarrow> put (parseTableCell rec st block)
         | Table \<Rightarrow> put (parseTable ext rec st (table block))
         | QuoteContainer \<Rightarrow> put (parseQuoteContainer rec st block)
         | View \<Rightarrow> put (parseView rec st block)
         | File \<Rightarrow> put (Inr (parseFile st block))
         | Grid \<Rightarrow> put (parseGrid ext rec st block)
         | GridColumn \<Rightarrow> Inr (toString buf, st)
         | Callout \<Rightarrow> put (parseCallout ext rec st block)
         | Iframe \<Rightarrow> put (bind_res (parseIframe block) (\<lambda>s. Inr (s, st)))
         | Board \<Rightarrow> put (Inr (parseBoard st (board block)))
         | SyncedBlock \<Rightarrow> put (parseSyncedBlock rec st block)
         | _ \<Rightarrow> put (Inr (parseUnsupport ext st block, st)))"

text \<open>
  \<open>parseBlock\<close> calls itself through the methods above, as deep as the block tree is, and
  without end on a tree that has a cycle, where JavaScript stops with a \<open>RangeError\<close>
  when the call stack is full. The first argument bounds the depth of the calls.
\<close>

primrec parseBlock :: "Externals \<Rightarrow> nat \<Rightarrow> Renderer \<Rightarrow> Block \<Rightarrow> nat \<Rightarrow> rendered" where
  "parseBlock ext 0 st block ind = Inl RangeError"
| "parseBlock ext (Suc depth) st block ind = parseBlock_body ext (parseBlock ext depth) st block ind"

text \<open>
  \<open>parse\<close>: \<open>blockMap.set\<close> for each block in turn (a later block replaces an earlier one
  of the same id), then the first block of type \<open>Page\<close> is rendered.
\<close>

definition parse :: "Externals \<Rightarrow> nat \<Rightarrow> Renderer \<Rightarrow> Block list \<Rightarrow> rendered" where
  "parse ext depth st0 blocks =
     (let st = st0\<lparr>blockMap := fold (\<lambda>b m. m(block_id b \<mapsto> b)) blocks Map.empty,
                   fileTokens := []\<rparr>
      in case List.find (\<lambda>b. block_type b = Page) blocks of
           None \<Rightarrow> Inl NoRootBlock
         | Some rootBlock \<Rightarrow>
             bind_res (parseBlock ext depth st rootBlock 0)
               (\<lambda>(result, st). Inr (trim result @ [newline], st)))"

section \<open>Token substitution (\<open>utils/file.ts\<close>)\<close>

text \<open>
  The replacement text of one match, \<open>GetSubstitution\<close>: after a dollar sign, a
  second dollar sign gives one dollar sign, an ampersand the match, a backquote the text
  preceding the match and an apostrophe the text following it; any other character
  stands for itself.
\<close>

fun getSubstitution :: "string \<Rightarrow> string \<Rightarrow> string \<Rightarrow> string \<Rightarrow> string" where
  "getSubstitution matched preceding following [] = []"
| "getSubstitution matched preceding following [c] = [c]"
| "getSubstitution matched preceding following (c # d # r) =
     (if c = CHR ''$'' \<and> d = CHR ''$'' then CHR ''$'' # getSubstitution matched preceding following r
      else if c = CHR ''$'' \<and> d = CHR ''&'' then matched @ getSubstitution matched preceding following r
      else if c = CHR ''$'' \<and> d = CHR 0x60 then preceding @ getSubstitution matched preceding following r
      else if c = CHR ''$'' \<and> d = CHR 0x27 then following @ getSubstitution matched preceding following r
      else c # getSubstitution matched preceding following (d # r))"

text \<open>
  \<open>s.replaceAll(pat, rep)\<close> for a string \<open>pat\<close>, which here always holds at least the
  characters around the token: the matches are found from left to right without overlap.
  \<open>preceding\<close> is the text already passed.
\<close>

function replaceAllFrom :: "string \<Rightarrow> string \<Rightarrow> string \<Rightarrow> string \<Rightarrow> string" where
  "replaceAllFrom pat rep preceding s =
     (if s = [] \<or> pat = [] then s
      else if prefix pat s
      then getSubstitution pat preceding (drop (length pat) s) rep
           @ replaceAllFrom pat rep (preceding @ pat) (drop (length pat) s)
      else hd s # replaceAllFrom pat rep (preceding @ [hd s]) (tl s))"
  by pat_completeness auto
termination
  by (relation "measure (\<lambda>(pat, rep, preceding, s). length s)") (auto simp: neq_Nil_conv)

declare replaceAllFrom.simps [simp del]

definition replaceAll :: "string \<Rightarrow> string \<Rightarrow> string \<Rightarrow> string" where
  "replaceAll s pat rep = replaceAllFrom pat rep [] s"

text \<open>
  \<open>tokenToPath\<close> is a \<open>Map\<close>, iterated in insertion order: the list of its entries.
\<close>

definition replaceFileTokens :: "string \<Rightarrow> (string \<times> string) list \<Rightarrow> string" where
  "replaceFileTokens markdown tokenToPath =
     fold
       (\<lambda>(tok, localPath) result.
          replaceAll
            (replaceAll result (''src=\"'' @ tok @ ''\"'') (''src=\"'' @ localPath @ ''\"''))
            ('']('' @ tok @ '')'') (''](''  @ localPath @ '')''))
       tokenToPath markdown"

section \<open>Sample documents\<close>

text \<open>
  Concrete inputs on which the theorems below are instantiated. \<open>blankBlock\<close> is a block
  with no payload; \<open>plainText\<close> is a text payload of one unstyled run.
\<close>

definition blankBlock :: Block where
  "blankBlock =
     \<lparr>block_id = [], parent_id = [], children = [], block_type = Text,
      page = None, text_block = None, heading1 = None, heading2 = None, heading3 = None,
      heading4 = None, heading5 = None, heading6 = None, heading7 = None, heading8 = None,
      heading9 = None, bullet = None, ordered = None, code = None, quote = None, todo = None,
      callout = None, file_block = None, grid_column_size = 0, grid_column_width_ratio = 0,
      iframe = None, image_block = None, table = None, board = None\<rparr>"

definition styledRun :: "string \<Rightarrow> TextElementStyle option \<Rightarrow> TextElement" where
  "styledRun s sty =
     \<lparr>text_run = Some \<lparr>content = s, text_element_style = sty\<rparr>, equation = None,
      mention_doc = None\<rparr>"

definition plainText :: "string \<Rightarrow> TextBlock option" where
  "plainText s = Some \<lparr>style = None, elements = Some [styledRun s None]\<rparr>"

definition noStyle :: TextElementStyle where
  "noStyle =
     \<lparr>bold = False, italic = False, strikethrough = False, underline = False,
      inline_code = False, link = None\<rparr>"

text \<open>Stand-ins for the functions of other modules: each returns its argument.\<close>

definition sampleExternals :: Externals where
  "sampleExternals = \<lparr>marked_parse = (\<lambda>s. s), getEmojiChar = (\<lambda>s. s), stringify = (\<lambda>b. [])\<rparr>"

text \<open>The lookup that \<open>parse\<close> builds from a block list, in a new renderer.\<close>

definition rendererOf :: "Block list \<Rightarrow> Renderer" where
  "rendererOf blocks =
     newRenderer\<lparr>blockMap := fold (\<lambda>b m. m(block_id b \<mapsto> b)) blocks Map.empty\<rparr>"

text \<open>
  A page with a table of two rows and two columns. Each cell holds one line of text.
\<close>

definition tableCellBlock :: "string \<Rightarrow> string \<Rightarrow> Block" where
  "tableCellBlock cid tid =
     blankBlock\<lparr>block_id := cid, parent_id := ''t'', block_type := TableCell, children := [tid]\<rparr>"

definition textPara :: "string \<Rightarrow> string \<Rightarrow> string \<Rightarrow> Block" where
  "textPara bid pid s =
     blankBlock\<lparr>block_id := bid, parent_id := pid, block_type := Text, text_block := plainText s\<rparr>"

definition sampleTable :: "bool \<Rightarrow> TableMergeInfo list \<Rightarrow> TableBlock" where
  "sampleTable hdr merges =
     \<lparr>cells = [''c0'', ''c1'', ''c2'', ''c3''],
      property = \<lparr>row_size = 2, column_size = 2, column_width = [100, 100],
                   header_column = False, header_row = hdr, merge_info = merges\<rparr>\<rparr>"

definition noMerge :: "TableMergeInfo list" where
  "noMerge = replicate 4 \<lparr>row_span = 1, col_span = 1\<rparr>"

definition rowSpanMerge :: "TableMergeInfo list" where
  "rowSpanMerge = \<lparr>row_span = 2, col_span = 1\<rparr> # replicate 3 \<lparr>row_span = 1, col_span = 1\<rparr>"

definition tableDoc :: "TableBlock \<Rightarrow> Block list" where
  "tableDoc tbl =
     [blankBlock\<lparr>block_id := ''p'', block_type := Page, page := plainText ''Doc'', children := [''t'']\<rparr>,
      blankBlock\<lparr>block_id := ''t'', parent_id := ''p'', block_type := Table, table := Some tbl,
                 children := [''c0'', ''c1'', ''c2'', ''c3'']\<rparr>,
      tableCellBlock ''c0'' ''x0'', tableCellBlock ''c1'' ''x1'',
      tableCellBlock ''c2'' ''x2'', tableCellBlock ''c3'' ''x3'',
      textPara ''x0'' ''c0'' ''A'', textPara ''x1'' ''c1'' ''B'',
      textPara ''x2'' ''c2'' ''C'', textPara ''x3'' ''c3'' ''D'']"

definition gfmTable :: TableBlock where
  "gfmTable = sampleTable True noMerge"

definition mergedTable :: TableBlock where
  "mergedTable = sampleTable True rowSpanMerge"

definition headerlessTable :: TableBlock where
  "headerlessTable = sampleTable False noMerge"

text \<open>\<open>this.parseBlock\<close> with room for a cell and the text in it.\<close>

definition cellParser :: parser where
  "cellParser = parseBlock sampleExternals 2"

text \<open>The number of lines of a text in which every line ends with a newline.\<close>

definition lineCount :: "string \<Rightarrow> nat" where
  "lineCount s = count_list s newline"

text \<open>
  \<open>s.split(c)\<close>; the lines of a text in which every line ends with a newline; and the
  cells of a line of a pipe table, the texts between one pipe and the next.
\<close>

fun splitOn :: "char \<Rightarrow> string \<Rightarrow> string list" where
  "splitOn c [] = [[]]"
| "splitOn c (x # xs) =
     (if x = c then [] # splitOn c xs
      else (case splitOn c xs of [] \<Rightarrow> [[x]] | p # ps \<Rightarrow> (x # p) # ps))"

definition linesOf :: "string \<Rightarrow> string list" where
  "linesOf s = butlast (splitOn newline s)"

definition cellsOf :: "string \<Rightarrow> string list" where
  "cellsOf line = butlast (tl (splitOn (CHR ''|'') line))"

text \<open>The page with the table again, two of the cells holding text with a pipe in it.\<close>

definition pipeDoc :: "Block list" where
  "pipeDoc =
     [blankBlock\<lparr>block_id := ''p'', block_type := Page, page := plainText ''Doc'', children := [''t'']\<rparr>,
      blankBlock\<lparr>block_id := ''t'', parent_id := ''p'', block_type := Table, table := Some gfmTable,
                 children := [''c0'', ''c1'', ''c2'', ''c3'']\<rparr>,
      tableCellBlock ''c0'' ''x0'', tableCellBlock ''c1'' ''x1'',
      tableCellBlock ''c2'' ''x2'', tableCellBlock ''c3'' ''x3'',
      textPara ''x0'' ''c0'' ''A'', textPara ''x1'' ''c1'' ''B|2'',
      textPara ''x2'' ''c2'' ''C'', textPara ''x3'' ''c3'' ''D|E|F'']"

text \<open>The level of a heading block and the payload its type selects.\<close>

definition headingOf :: "Block \<Rightarrow> (nat \<times> TextBlock option) option" where
  "headingOf block =
     (case block_type block of
        Heading1 \<Rightarrow> Some (1, heading1 block) | Heading2 \<Rightarrow> Some (2, heading2 block)
      | Heading3 \<Rightarrow> Some (3, heading3 block) | Heading4 \<Rightarrow> Some (4, heading4 block)
      | Heading5 \<Rightarrow> Some (5, heading5 block) | Heading6 \<Rightarrow> Some (6, heading6 block)
      | Heading7 \<Rightarrow> Some (7, heading7 block) | Heading8 \<Rightarrow> Some (8, heading8 block)
      | Heading9 \<Rightarrow> Some (9, heading9 block) | _ \<Rightarrow> None)"

text \<open>
  A page with three ordered items, the second of which has a heading as its child, a
  paragraph, one more ordered item, and a heading of level 7.
\<close>

definition orderedItem :: "string \<Rightarrow> string \<Rightarrow> string list \<Rightarrow> Block" where
  "orderedItem bid s cs =
     blankBlock\<lparr>block_id := bid, parent_id := ''p'', block_type := Ordered,
                ordered := plainText s, children := cs\<rparr>"

definition subHeading :: Block where
  "subHeading =
     blankBlock\<lparr>block_id := ''h'', parent_id := ''b'', block_type := Heading1,
                heading1 := plainText ''Sub''\<rparr>"

definition deepHeading :: Block where
  "deepHeading =
     blankBlock\<lparr>block_id := ''d'', parent_id := ''p'', block_type := Heading7,
                heading7 := plainText ''  Deep''\<rparr>"

definition listPage :: Block where
  "listPage =
     blankBlock\<lparr>block_id := ''p'', block_type := Page, page := plainText ''Doc'',
                children := [''a'', ''b'', ''c'', ''t'', ''e'', ''d'']\<rparr>"

definition listDoc :: "Block list" where
  "listDoc =
     [listPage, orderedItem ''a'' ''one'' [], orderedItem ''b'' ''two'' [''h''],
      orderedItem ''c'' ''three'' [], textPara ''t'' ''p'' ''break'',
      orderedItem ''e'' ''again'' [], subHeading, deepHeading]"

text \<open>A paragraph of two adjacent runs \<open>a\<close> and \<open>b\<close> that carry the same style.\<close>

definition twoRuns :: "TextElementStyle \<Rightarrow> Block" where
  "twoRuns sty =
     blankBlock\<lparr>block_id := ''r'', block_type := Text,
                text_block := Some \<lparr>style = None,
                                    elements = Some [styledRun ''a'' (Some sty), styledRun ''b'' (Some sty)]\<rparr>\<rparr>"

text \<open>
  A page whose title is a link with the malformed target \<open>%\<close>, and a page with a table of
  one column whose first two cells are not among the blocks.
\<close>

definition badLinkDoc :: "Block list" where
  "badLinkDoc =
     [blankBlock\<lparr>block_id := ''p'', block_type := Page,
                 page := Some \<lparr>style = None,
                              elements = Some [styledRun ''x'' (Some (noStyle\<lparr>link := Some \<lparr>url = ''%''\<rparr>\<rparr>))]\<rparr>\<rparr>]"

definition sparseTableDoc :: "Block list" where
  "sparseTableDoc =
     [blankBlock\<lparr>block_id := ''p'', block_type := Page, page := plainText ''Doc'', children := [''t'']\<rparr>,
      blankBlock\<lparr>block_id := ''t'', parent_id := ''p'', block_type := Table,
                 table := Some \<lparr>cells = [''m0'', ''m1'', ''c0''],
                                property = \<lparr>row_size = 3, column_size = 1, column_width = [100],
                                             header_column = False, header_row = False,
                                             merge_info = replicate 3 \<lparr>row_span = 1, col_span = 1\<rparr>\<rparr>\<rparr>,
                 children := [''m0'', ''m1'', ''c0'']\<rparr>,
      tableCellBlock ''c0'' ''x0'', textPara ''x0'' ''c0'' ''A'']"

text \<open>
  A page with one image, and a renderer as an earlier use may have left it.
\<close>

definition imageDoc :: "Block list" where
  "imageDoc =
     [blankBlock\<lparr>block_id := ''p'', block_type := Page, page := plainText ''Doc'', children := [''i'']\<rparr>,
      blankBlock\<lparr>block_id := ''i'', parent_id := ''p'', block_type := ImageType,
                 image_block := Some \<lparr>width = 10, height = 20, image_token = ''tok'', align = 1\<rparr>\<rparr>]"

definition usedRenderer :: Renderer where
  "usedRenderer =
     \<lparr>blockMap = [''z'' \<mapsto> deepHeading], currentBlock = Some subHeading,
      nextBlock = Some deepHeading, indent = 3,
      fileTokens = [\<lparr>ft_token = ''old'', ft_type = ImageKind\<rparr>], doc_title = ''Old'',
      outputUnsupported = False\<rparr>"

text \<open>
  A page with a bullet item, a quote container and a callout. Each of the four lists of
  children names \<open>zz\<close>, which is not the id of a block.
\<close>

definition bulletItem :: "string \<Rightarrow> string \<Rightarrow> string list \<Rightarrow> Block" where
  "bulletItem bid s cs =
     blankBlock\<lparr>block_id := bid, parent_id := ''p'', block_type := Bullet,
                bullet := plainText s, children := cs\<rparr>"

definition gapDoc :: "Block list" where
  "gapDoc =
     [blankBlock\<lparr>block_id := ''p'', block_type := Page, page := plainText ''Doc'',
                 children := [''a'', ''zz'', ''q'', ''g'']\<rparr>,
      bulletItem ''a'' ''one'' [''x1'', ''zz'', ''x2''],
      textPara ''x1'' ''a'' ''u'', textPara ''x2'' ''a'' ''v'',
      blankBlock\<lparr>block_id := ''q'', parent_id := ''p'', block_type := QuoteContainer,
                 children := [''y1'', ''zz'', ''y2'']\<rparr>,
      textPara ''y1'' ''q'' ''w'', textPara ''y2'' ''q'' ''x'',
      blankBlock\<lparr>block_id := ''g'', parent_id := ''p'', block_type := Callout,
                 children := [''z1'', ''zz'', ''z2'']\<rparr>,
      textPara ''z1'' ''g'' ''y'', textPara ''z2'' ''g'' ''z'']"

text \<open>What the caller of \<open>parse\<close> sees: the markdown and the file tokens, or the exception.\<close>

definition observable :: "rendered \<Rightarrow> error + (string \<times> FileToken list)" where
  "observable r = map_sum id (\<lambda>(markdown, st). (markdown, fileTokens st)) r"

section \<open>Notions used in the statements\<close>

text \<open>
  An exception that leaves a method is a \<open>URIError\<close>, a \<open>TypeError\<close>, or an exception of a
  nested call of \<open>parseBlock\<close>.
\<close>

definition raisedWithin :: "parser \<Rightarrow> error \<Rightarrow> bool" where
  "raisedWithin rec e \<longleftrightarrow> e = URIError \<or> e = TypeError \<or> (\<exists>st b i. rec st b i = Inl e)"

text \<open>
  Two results are the same up to the title the renderer keeps: the same exception, or the
  same value with renderers that differ in \<open>doc_title\<close> at most. \<open>sameUpToNext\<close> lets the
  renderers differ in \<open>nextBlock\<close> too.
\<close>

definition sameOutput :: "error + ('a \<times> Renderer) \<Rightarrow> error + ('a \<times> Renderer) \<Rightarrow> bool" where
  "sameOutput r1 r2 =
     (case r1 of
        Inl e \<Rightarrow> r2 = Inl e
      | Inr (v, a) \<Rightarrow> (\<exists>x. r2 = Inr (v, a\<lparr>doc_title := x\<rparr>)))"

definition sameUpToNext :: "error + ('a \<times> Renderer) \<Rightarrow> error + ('a \<times> Renderer) \<Rightarrow> bool" where
  "sameUpToNext r1 r2 =
     (case r1 of
        Inl e \<Rightarrow> r2 = Inl e
      | Inr (v, a) \<Rightarrow> (\<exists>x n. r2 = Inr (v, a\<lparr>doc_title := x, nextBlock := n\<rparr>)))"

text \<open>A parser whose result does not depend on the title the renderer holds.\<close>

definition titleBlind :: "parser \<Rightarrow> bool" where
  "titleBlind rec = (\<forall>a x b i. sameOutput (rec a b i) (rec (a\<lparr>doc_title := x\<rparr>) b i))"

text \<open>
  A renderer that holds the lookup \<open>m\<close>; a result whose renderer, if there is one, holds
  \<open>m\<close>; and a parser that leaves the lookup as it finds it.
\<close>

definition hasLookup :: "(string \<rightharpoonup> Block) \<Rightarrow> Renderer \<Rightarrow> bool" where
  "hasLookup m st \<longleftrightarrow> blockMap st = m"

definition keepsLookup :: "(string \<rightharpoonup> Block) \<Rightarrow> error + ('a \<times> Renderer) \<Rightarrow> bool" where
  "keepsLookup m r = (case r of Inl e \<Rightarrow> True | Inr (v, st) \<Rightarrow> hasLookup m st)"

definition lookupKeeping :: "parser \<Rightarrow> bool" where
  "lookupKeeping rec = (\<forall>st b i. keepsLookup (blockMap st) (rec st b i))"

section \<open>Basic facts\<close>

lemma bind_res_Inr [simp]: "bind_res (Inr x) f = f x"
  by (simp add: bind_res_def)

lemma bind_res_Inl [simp]: "bind_res (Inl e) f = Inl e"
  by (simp add: bind_res_def)

lemma bind_res_eq_Inr:
  "bind_res m f = Inr y \<longleftrightarrow> (\<exists>x. m = Inr x \<and> f x = Inr y)"
  by (cases m) simp_all

lemma bind_res_eq_Inl:
  "bind_res m f = Inl e \<longleftrightarrow> m = Inl e \<or> (\<exists>x. m = Inr x \<and> f x = Inl e)"
  by (cases m) simp_all

lemma toString_append [simp]: "toString (b @ c) = toString b @ toString c"
  by (simp add: toString_def)

lemma toString_write_buf [simp]: "toString (write_buf b s) = toString b @ s"
  by (simp add: toString_def write_buf_def)

lemma toString_writeln [simp]: "toString (writeln b s) = toString b @ s @ [newline]"
  by (simp add: toString_def writeln_def)

lemma toString_Nil [simp]: "toString [] = []"
  by (simp add: toString_def)

text \<open>A loop that only writes to the buffer appends what each round writes.\<close>

lemma toString_fold_step:
  assumes "\<And>x b. toString (f x b) = toString b @ g x"
  shows "toString (fold f xs b) = toString b @ concat (map g xs)"
  using assms by (induction xs arbitrary: b) simp_all

section \<open>Token substitution with an empty map\<close>

text \<open>
  Claim C9. With an empty token-to-path map \<open>replaceFileTokens\<close> returns the markdown it
  was given, unchanged: the loop over the entries has no round.
\<close>

theorem replaceFileTokens_empty_map: "replaceFileTokens markdown [] = markdown"
  by (simp add: replaceFileTokens_def)

section \<open>Tables\<close>

subsection \<open>What the two renderings write\<close>

lemma show_int_2 [simp]: "show_int 2 = ''2''"
  by code_simp

text \<open>Four cells that are all found and rendered fill two rows of two.\<close>

lemma collectRows_2x2:
  assumes "cells tbl = [a, b, c, d]" and "column_size (property tbl) = 2"
    and "blockMap st a = Some ba" and "rec st ba 0 = Inr (sa, st1)"
    and "blockMap st1 b = Some bb" and "rec st1 bb 0 = Inr (sb, st2)"
    and "blockMap st2 c = Some bc" and "rec st2 bc 0 = Inr (sc, st3)"
    and "blockMap st3 d = Some bd" and "rec st3 bd 0 = Inr (sd, st4)"
  shows "collectRows rec conv st tbl = Inr ([[conv sa, conv sb], [conv sc, conv sd]], st4)"
  using assms
  by (simp add: collectRows_def enumerate_eq_zip upt_rec pushCell_def rowIndex_def)

lemma gfmOfRows_eq:
  "gfmOfRows tbl rows =
     ''|''
     @ concat (map (\<lambda>i. nth_or (fst (if header_row (property tbl) then shiftRow rows else ([], rows))) i '' '' @ ''|'')
                 [0..<nat (column_size (property tbl))])
     @ [newline] @ ''|''
     @ concat (map (\<lambda>i. ''---|'') [0..<nat (column_size (property tbl))])
     @ [newline]
     @ concat (map (\<lambda>row. ''|'' @ concat (map (\<lambda>cell. cell @ ''|'') row) @ [newline])
                 (snd (if header_row (property tbl) then shiftRow rows else ([], rows))))"
proof -
  have cells: "toString (fold (\<lambda>cell b. write_buf (write_buf b cell) ''|'') row b)
                 = toString b @ concat (map (\<lambda>cell. cell @ ''|'') row)" for row b
    by (rule toString_fold_step) simp
  have body: "toString (fold (\<lambda>row b. write_buf (fold (\<lambda>cell b. write_buf (write_buf b cell) ''|'') row (write_buf b ''|'')) [newline]) rs b)
                = toString b @ concat (map (\<lambda>row. ''|'' @ concat (map (\<lambda>cell. cell @ ''|'') row) @ [newline]) rs)" for rs b
    by (rule toString_fold_step) (simp add: cells)
  have head: "toString (fold (\<lambda>i b. write_buf (write_buf b (nth_or h i '' '')) ''|'') is b)
                = toString b @ concat (map (\<lambda>i. nth_or h i '' '' @ ''|'') is)" for h "is" b
    by (rule toString_fold_step) simp
  have sep: "toString (fold (\<lambda>i b. write_buf b ''---|'') is b)
                = toString b @ concat (map (\<lambda>i. ''---|'') is)" for "is" :: "nat list" and b
    by (rule toString_fold_step) simp
  show ?thesis
    by (simp add: gfmOfRows_def Let_def split_def body head sep)
qed

lemma newline_notin_flattenCell: "newline \<notin> set (flattenCell s)"
  by (auto simp: flattenCell_def newline_def)

lemma count_newline_flattenCell [simp]: "count_list (flattenCell s) newline = 0"
  using newline_notin_flattenCell by (simp add: count_list_0_iff)

text \<open>Whatever is written to a buffer stays behind what the buffer held.\<close>

lemma prefix_write_buf: "prefix p (toString b) \<Longrightarrow> prefix p (toString (write_buf b s))"
  by (simp add: prefix_def) auto

lemma prefix_writeln: "prefix p (toString b) \<Longrightarrow> prefix p (toString (writeln b s))"
  by (simp add: prefix_def) auto

lemma prefix_fold:
  assumes "\<And>x b. prefix p (toString b) \<Longrightarrow> prefix p (toString (f x b))"
    and "prefix p (toString b)"
  shows "prefix p (toString (fold f xs b))"
  using assms(2) by (induction xs arbitrary: b) (simp_all add: assms(1))

lemma prefix_fold_pair:
  assumes "\<And>x b i. prefix p (toString b) \<Longrightarrow> prefix p (toString (fst (f x (b, i))))"
    and "prefix p (toString b)"
  shows "prefix p (toString (fst (fold f xs (b, i))))"
  using assms(2)
proof (induction xs arbitrary: b i)
  case Nil
  then show ?case by simp
next
  case (Cons x xs)
  obtain b' i' where step: "f x (b, i) = (b', i')" by (cases "f x (b, i)")
  with assms(1) [of b x i] Cons.prems have "prefix p (toString b')" by simp
  from Cons.IH [OF this] step show ?case by simp
qed

lemma prefix_writeCell:
  "prefix p (toString b) \<Longrightarrow> prefix p (toString (fst (writeCell ms cis (b, i) cell tag)))"
  by (simp add: writeCell_def Let_def prefix_write_buf)

lemma htmlOfRows_prefix: "prefix ''<table'' (htmlOfRows tbl rows)"
proof -
  define P where "P b \<longleftrightarrow> prefix ''<table'' (toString b)" for b
  have start: "P (writeln [] (''<table'' @ s))" for s
    by (simp add: P_def)
  have wl: "P b \<Longrightarrow> P (writeln b s)" for b s
    unfolding P_def by (rule prefix_writeln)
  have wb: "P b \<Longrightarrow> P (write_buf b s)" for b s
    unfolding P_def by (rule prefix_write_buf)
  have fo: "(\<And>x b. P b \<Longrightarrow> P (f x b)) \<Longrightarrow> P b \<Longrightarrow> P (fold f xs b)" for f xs b
    unfolding P_def by (rule prefix_fold)
  have fp: "(\<And>x b i. P b \<Longrightarrow> P (fst (f x (b, i)))) \<Longrightarrow> P b \<Longrightarrow> P (fst (fold f xs (b, i)))"
    for f xs b and i :: nat
    unfolding P_def by (rule prefix_fold_pair)
  have wc: "P b \<Longrightarrow> P (fst (writeCell ms cis (b, i) cell tag))" for b ms cis i cell tag
    unfolding P_def by (rule prefix_writeCell)
  have "\<exists>b. htmlOfRows tbl rows = toString b \<and> P b"
    unfolding htmlOfRows_def Let_def split_def
    apply (rule exI)
    apply (rule conjI)
     apply (rule refl)
    apply (cases "header_row (property tbl)")
    apply ((rule start | rule wl wb fo fp wc | simp only: fst_conv snd_conv if_True if_False)+)
    done
  then show ?thesis by (auto simp: P_def)
qed

subsection \<open>The sample tables\<close>

lemma rendered_caseE:
  assumes "case r of Inl e \<Rightarrow> False | Inr (s, st) \<Rightarrow> P s st"
  obtains s st where "r = Inr (s, st)" and "P s st"
  using assms by (cases r) auto

lemma mergedTable_cells:
  "case cellParser (rendererOf (tableDoc mergedTable)) (tableCellBlock ''c0'' ''x0'') 0 of
     Inl e \<Rightarrow> False
   | Inr (sa, st1) \<Rightarrow>
       sa = ''A\<newline>'' \<and> blockMap st1 ''c1'' = Some (tableCellBlock ''c1'' ''x1'') \<and>
       (case cellParser st1 (tableCellBlock ''c1'' ''x1'') 0 of
          Inl e \<Rightarrow> False
        | Inr (sb, st2) \<Rightarrow>
            sb = ''B\<newline>'' \<and> blockMap st2 ''c2'' = Some (tableCellBlock ''c2'' ''x2'') \<and>
            (case cellParser st2 (tableCellBlock ''c2'' ''x2'') 0 of
               Inl e \<Rightarrow> False
             | Inr (sc, st3) \<Rightarrow>
                 sc = ''C\<newline>'' \<and> blockMap st3 ''c3'' = Some (tableCellBlock ''c3'' ''x3'') \<and>
                 (case cellParser st3 (tableCellBlock ''c3'' ''x3'') 0 of
                    Inl e \<Rightarrow> False
                  | Inr (sd, st4) \<Rightarrow> sd = ''D\<newline>'')))"
  by code_simp

lemma gfmTable_cells:
  "case cellParser (rendererOf (tableDoc gfmTable)) (tableCellBlock ''c0'' ''x0'') 0 of
     Inl e \<Rightarrow> False
   | Inr (sa, st1) \<Rightarrow>
       sa = ''A\<newline>'' \<and> blockMap st1 ''c1'' = Some (tableCellBlock ''c1'' ''x1'') \<and>
       (case cellParser st1 (tableCellBlock ''c1'' ''x1'') 0 of
          Inl e \<Rightarrow> False
        | Inr (sb, st2) \<Rightarrow>
            sb = ''B\<newline>'' \<and> blockMap st2 ''c2'' = Some (tableCellBlock ''c2'' ''x2'') \<and>
            (case cellParser st2 (tableCellBlock ''c2'' ''x2'') 0 of
               Inl e \<Rightarrow> False
             | Inr (sc, st3) \<Rightarrow>
                 sc = ''C\<newline>'' \<and> blockMap st3 ''c3'' = Some (tableCellBlock ''c3'' ''x3'') \<and>
                 (case cellParser st3 (tableCellBlock ''c3'' ''x3'') 0 of
                    Inl e \<Rightarrow> False
                  | Inr (sd, st4) \<Rightarrow> sd = ''D\<newline>'')))"
  by code_simp

lemma headerlessTable_cells:
  "case cellParser (rendererOf (tableDoc headerlessTable)) (tableCellBlock ''c0'' ''x0'') 0 of
     Inl e \<Rightarrow> False
   | Inr (sa, st1) \<Rightarrow>
       sa = ''A\<newline>'' \<and> blockMap st1 ''c1'' = Some (tableCellBlock ''c1'' ''x1'') \<and>
       (case cellParser st1 (tableCellBlock ''c1'' ''x1'') 0 of
          Inl e \<Rightarrow> False
        | Inr (sb, st2) \<Rightarrow>
            sb = ''B\<newline>'' \<and> blockMap st2 ''c2'' = Some (tableCellBlock ''c2'' ''x2'') \<and>
            (case cellParser st2 (tableCellBlock ''c2'' ''x2'') 0 of
               Inl e \<Rightarrow> False
             | Inr (sc, st3) \<Rightarrow>
                 sc = ''C\<newline>'' \<and> blockMap st3 ''c3'' = Some (tableCellBlock ''c3'' ''x3'') \<and>
                 (case cellParser st3 (tableCellBlock ''c3'' ''x3'') 0 of
                    Inl e \<Rightarrow> False
                  | Inr (sd, st4) \<Rightarrow> sd = ''D\<newline>'')))"
  by code_simp

lemma sample_first_cell:
  "blockMap (rendererOf (tableDoc mergedTable)) ''c0'' = Some (tableCellBlock ''c0'' ''x0'')"
  "blockMap (rendererOf (tableDoc gfmTable)) ''c0'' = Some (tableCellBlock ''c0'' ''x0'')"
  "blockMap (rendererOf (tableDoc headerlessTable)) ''c0'' = Some (tableCellBlock ''c0'' ''x0'')"
  by code_simp+

lemma sample_cells:
  "cells mergedTable = [''c0'', ''c1'', ''c2'', ''c3'']"
  "cells gfmTable = [''c0'', ''c1'', ''c2'', ''c3'']"
  "cells headerlessTable = [''c0'', ''c1'', ''c2'', ''c3'']"
  by (simp_all add: mergedTable_def gfmTable_def headerlessTable_def sampleTable_def)

lemma sample_flatten:
  "flattenCell ''A\<newline>'' = ''A''" "flattenCell ''B\<newline>'' = ''B''"
  "flattenCell ''C\<newline>'' = ''C''" "flattenCell ''D\<newline>'' = ''D''"
  by code_simp+

lemma sample_not_complex: "\<not> isComplexTable gfmTable" "\<not> isComplexTable headerlessTable"
  by code_simp+

text \<open>Splitting a text at a character that a piece does not hold.\<close>

lemma splitOn_notin: "c \<notin> set a \<Longrightarrow> splitOn c a = [a]"
  by (induction a) auto

lemma splitOn_append: "c \<notin> set a \<Longrightarrow> splitOn c (a @ c # r) = a # splitOn c r"
  by (induction a) auto

lemma splitOn_Cons_same: "splitOn c (c # r) = [] # splitOn c r"
  by simp

lemma set_flattenCell: "set (flattenCell s) \<subseteq> insert (CHR '' '') (set s)"
  by (auto simp: flattenCell_def trimLastNewline_def dest: in_set_butlastD split: if_splits)

lemma pipe_notin_flattenCell: "CHR ''|'' \<notin> set s \<Longrightarrow> CHR ''|'' \<notin> set (flattenCell s)"
  using set_flattenCell [of s] by auto

lemma linesOf_three:
  assumes "newline \<notin> set l1" and "newline \<notin> set l2" and "newline \<notin> set l3"
  shows "linesOf (l1 @ newline # l2 @ newline # l3 @ [newline]) = [l1, l2, l3]"
  using assms by (simp add: linesOf_def splitOn_append)

lemma cellsOf_two:
  assumes "CHR ''|'' \<notin> set x" and "CHR ''|'' \<notin> set y"
  shows "cellsOf (CHR ''|'' # x @ CHR ''|'' # y @ ''|'') = [x, y]"
  using assms by (simp add: cellsOf_def splitOn_append)

subsection \<open>Claim C3\<close>

text \<open>
  Claim C3. Whenever \<open>parseTable\<close> returns for a table block, its output is the HTML
  rendering, which begins with \<open><table\<close>, if and only if some entry of \<open>merge_info\<close> has a
  \<open>row_span\<close> or a \<open>col_span\<close> above 1 or some entry of \<open>column_width\<close> is above 100; in
  every other case it is the pipe-delimited rendering, which begins with \<open>|\<close>.
\<close>

theorem parseTable_html_iff_complex:
  assumes "parseTable ext rec st (Some tbl) = Inr (out, st')"
  shows "(prefix ''<table'' out \<longleftrightarrow>
            (\<exists>info \<in> set (merge_info (property tbl)). 1 < row_span info \<or> 1 < col_span info)
            \<or> (\<exists>w \<in> set (column_width (property tbl)). 100 < w))
         \<and> (prefix ''|'' out \<longleftrightarrow>
            \<not> ((\<exists>info \<in> set (merge_info (property tbl)). 1 < row_span info \<or> 1 < col_span info)
               \<or> (\<exists>w \<in> set (column_width (property tbl)). 100 < w)))
         \<and> (\<exists>rows. out = (if isComplexTable tbl then htmlOfRows tbl rows else gfmOfRows tbl rows))"
proof (cases "isComplexTable tbl")
  case True
  with assms obtain rows where out: "out = htmlOfRows tbl rows"
    by (auto simp: parseTable_def parseTableAsHTML_def bind_res_eq_Inr)
  have "prefix ''<table'' out"
    unfolding out by (rule htmlOfRows_prefix)
  moreover from this have "\<not> prefix ''|'' out"
    by (auto simp: prefix_def)
  ultimately show ?thesis
    using True out by (auto simp: isComplexTable_def list_ex_iff)
next
  case False
  with assms obtain rows where out: "out = gfmOfRows tbl rows"
    by (auto simp: parseTable_def bind_res_eq_Inr)
  have "prefix ''|'' out"
    unfolding out gfmOfRows_eq by simp
  moreover from this have "\<not> prefix ''<table'' out"
    by (auto simp: prefix_def)
  ultimately show ?thesis
    using False out by (auto simp: isComplexTable_def list_ex_iff)
qed

lemma sample_tables_render:
  "case parseTable sampleExternals cellParser (rendererOf (tableDoc mergedTable)) (Some mergedTable) of
     Inl e \<Rightarrow> False | Inr (out, st) \<Rightarrow> True"
  "case parseTable sampleExternals cellParser (rendererOf (tableDoc gfmTable)) (Some gfmTable) of
     Inl e \<Rightarrow> False | Inr (out, st) \<Rightarrow> True"
  by code_simp+

theorem parseTable_html_iff_complex_witness:
  "(\<exists>out st'. parseTable sampleExternals cellParser (rendererOf (tableDoc mergedTable))
                 (Some mergedTable) = Inr (out, st') \<and> prefix ''<table'' out)
   \<and> (\<exists>out st'. parseTable sampleExternals cellParser (rendererOf (tableDoc gfmTable))
                 (Some gfmTable) = Inr (out, st') \<and> prefix ''|'' out)"
proof
  from sample_tables_render(1) obtain out st'
    where r: "parseTable sampleExternals cellParser (rendererOf (tableDoc mergedTable))
                (Some mergedTable) = Inr (out, st')"
    by (rule rendered_caseE)
  have "\<exists>info \<in> set (merge_info (property mergedTable)). 1 < row_span info \<or> 1 < col_span info"
    by (simp add: mergedTable_def sampleTable_def rowSpanMerge_def)
  with parseTable_html_iff_complex [OF r] have "prefix ''<table'' out"
    by blast
  with r show "\<exists>out st'. parseTable sampleExternals cellParser (rendererOf (tableDoc mergedTable))
                 (Some mergedTable) = Inr (out, st') \<and> prefix ''<table'' out"
    by blast
next
  from sample_tables_render(2) obtain out st'
    where r: "parseTable sampleExternals cellParser (rendererOf (tableDoc gfmTable))
                (Some gfmTable) = Inr (out, st')"
    by (rule rendered_caseE)
  have "\<not> ((\<exists>info \<in> set (merge_info (property gfmTable)). 1 < row_span info \<or> 1 < col_span info)
          \<or> (\<exists>w \<in> set (column_width (property gfmTable)). 100 < w))"
    by (simp add: gfmTable_def sampleTable_def noMerge_def)
  with parseTable_html_iff_complex [OF r] have "prefix ''|'' out"
    by blast
  with r show "\<exists>out st'. parseTable sampleExternals cellParser (rendererOf (tableDoc gfmTable))
                 (Some gfmTable) = Inr (out, st') \<and> prefix ''|'' out"
    by blast
qed

subsection \<open>Claim C4\<close>

text \<open>
  Claim C4. A table of two rows and two columns with \<open>header_row\<close> set, whose first cell
  has \<open>row_span = 2\<close> and whose other spans are 1, and whose four cells are found and
  rendered, is written as the HTML table below: the cell (0,0) is a \<open>th\<close> element with the
  attribute \<open>rowspan="2"\<close>, and the only body row holds one \<open>td\<close> element, for the cell
  (1,1); nothing at all is written for the covered cell (1,0).
\<close>

theorem parseTable_rowspan_2x2:
  assumes "cells tbl = [a, b, c, d]"
    and "property tbl =
           \<lparr>row_size = 2, column_size = 2, column_width = ws, header_column = hc,
            header_row = True,
            merge_info = [\<lparr>row_span = 2, col_span = 1\<rparr>, \<lparr>row_span = 1, col_span = 1\<rparr>,
                          \<lparr>row_span = 1, col_span = 1\<rparr>, \<lparr>row_span = 1, col_span = 1\<rparr>]\<rparr>"
    and "blockMap st a = Some ba" and "rec st ba 0 = Inr (sa, st1)"
    and "blockMap st1 b = Some bb" and "rec st1 bb 0 = Inr (sb, st2)"
    and "blockMap st2 c = Some bc" and "rec st2 bc 0 = Inr (sc, st3)"
    and "blockMap st3 d = Some bd" and "rec st3 bd 0 = Inr (sd, st4)"
  shows "parseTable ext rec st (Some tbl) =
           Inr (''<table'' @ (if hc then '' header_column=\"1\"'' else []) @ '' header_row=\"1\">'' @ [newline]
                @ ''  <colgroup>'' @ [newline]
                @ ''    <col''
                @ (if 0 < length ws \<and> ws ! 0 \<noteq> 0 then '' width=\"'' @ show_int (ws ! 0) @ ''\"'' else [])
                @ '' />'' @ [newline]
                @ ''    <col''
                @ (if 1 < length ws \<and> ws ! 1 \<noteq> 0 then '' width=\"'' @ show_int (ws ! 1) @ ''\"'' else [])
                @ '' />'' @ [newline]
                @ ''  </colgroup>'' @ [newline]
                @ ''  <thead>'' @ [newline]
                @ ''    <tr><th rowspan=\"2\">'' @ trim (markdownToHTML ext sa) @ ''</th>''
                @ ''<th>'' @ trim (markdownToHTML ext sb) @ ''</th></tr>'' @ [newline]
                @ ''  </thead>'' @ [newline]
                @ ''  <tbody>'' @ [newline]
                @ ''    <tr><td>'' @ trim (markdownToHTML ext sd) @ ''</td></tr>'' @ [newline]
                @ ''  </tbody>'' @ [newline]
                @ ''</table>'' @ [newline],
                st4)"
proof -
  let ?conv = "\<lambda>s. trim (markdownToHTML ext s)"
  have rows: "collectRows rec ?conv st tbl = Inr ([[?conv sa, ?conv sb], [?conv sc, ?conv sd]], st4)"
    using assms by (intro collectRows_2x2) simp_all
  have two: "[0..<2] = [0, Suc 0]" and four: "[0..<4] = [0, Suc 0, 2, 3]"
    by (simp_all add: upt_rec)
  have infos: "computeCellInfos (merge_info (property tbl)) 2 = [1, 1, 0, 1]"
    by (simp add: assms(2) computeCellInfos_def four clearCell_def Let_def)
  have "isComplexTable tbl"
    by (simp add: isComplexTable_def assms(2))
  then show ?thesis
    by (simp add: parseTable_def parseTableAsHTML_def rows htmlOfRows_def Let_def assms(2)
          infos [unfolded assms(2), simplified] two shiftRow_def nth_or_def writeCell_def
          tableCellAttrHTML_def)
qed

theorem parseTable_rowspan_2x2_witness:
  "\<exists>st'. parseTable sampleExternals cellParser (rendererOf (tableDoc mergedTable)) (Some mergedTable) =
     Inr (''<table header_row=\"1\">\<newline>  <colgroup>\<newline>    <col width=\"100\" />\<newline>    <col width=\"100\" />\<newline>  </colgroup>\<newline>  <thead>\<newline>    <tr><th rowspan=\"2\">A</th><th>B</th></tr>\<newline>  </thead>\<newline>  <tbody>\<newline>    <tr><td>D</td></tr>\<newline>  </tbody>\<newline></table>\<newline>'', st')"
proof -
  let ?st = "rendererOf (tableDoc mergedTable)"
  from mergedTable_cells obtain st1 st2 st3 st4
    where c0: "cellParser ?st (tableCellBlock ''c0'' ''x0'') 0 = Inr (''A\<newline>'', st1)"
      and m1: "blockMap st1 ''c1'' = Some (tableCellBlock ''c1'' ''x1'')"
      and c1: "cellParser st1 (tableCellBlock ''c1'' ''x1'') 0 = Inr (''B\<newline>'', st2)"
      and m2: "blockMap st2 ''c2'' = Some (tableCellBlock ''c2'' ''x2'')"
      and c2: "cellParser st2 (tableCellBlock ''c2'' ''x2'') 0 = Inr (''C\<newline>'', st3)"
      and m3: "blockMap st3 ''c3'' = Some (tableCellBlock ''c3'' ''x3'')"
      and c3: "cellParser st3 (tableCellBlock ''c3'' ''x3'') 0 = Inr (''D\<newline>'', st4)"
    by (elim rendered_caseE conjE) auto
  have tprop: "property mergedTable =
           \<lparr>row_size = 2, column_size = 2, column_width = [100, 100], header_column = False,
            header_row = True,
            merge_info = [\<lparr>row_span = 2, col_span = 1\<rparr>, \<lparr>row_span = 1, col_span = 1\<rparr>,
                          \<lparr>row_span = 1, col_span = 1\<rparr>, \<lparr>row_span = 1, col_span = 1\<rparr>]\<rparr>"
    by (simp add: mergedTable_def sampleTable_def rowSpanMerge_def numeral_3_eq_3)
  have trims: "trim (markdownToHTML sampleExternals ''A\<newline>'') = ''A''"
    "trim (markdownToHTML sampleExternals ''B\<newline>'') = ''B''"
    "trim (markdownToHTML sampleExternals ''D\<newline>'') = ''D''"
    by code_simp+
  have w: "show_int 100 = ''100''"
    by code_simp
  show ?thesis
    using parseTable_rowspan_2x2 [where rec = cellParser and ext = sampleExternals,
        OF sample_cells(1) tprop sample_first_cell(1) c0 m1 c1 m2 c2 m3 c3]
    by (simp add: trims w newline_def)
qed

subsection \<open>Claim C5\<close>

text \<open>
  Claim C5, as the code has it. A table of two rows and two columns with \<open>header_row\<close>
  set that is not complex, and whose four cells are found and rendered, is written as a
  pipe table of three lines: the header line with the first row (a blank for an empty
  cell), the separator line \<open>|---|---|\<close>, and one body line with the second row. The text
  of a cell is written as it is, so a line has exactly two cells between its pipes when
  no cell holds a pipe.
\<close>

theorem parseTable_gfm_2x2:
  assumes "cells tbl = [a, b, c, d]" and "column_size (property tbl) = 2"
    and "header_row (property tbl)" and "\<not> isComplexTable tbl"
    and "blockMap st a = Some ba" and "rec st ba 0 = Inr (sa, st1)"
    and "blockMap st1 b = Some bb" and "rec st1 bb 0 = Inr (sb, st2)"
    and "blockMap st2 c = Some bc" and "rec st2 bc 0 = Inr (sc, st3)"
    and "blockMap st3 d = Some bd" and "rec st3 bd 0 = Inr (sd, st4)"
  shows "\<exists>out. parseTable ext rec st (Some tbl) = Inr (out, st4)
           \<and> out = ''|'' @ (if flattenCell sa = [] then '' '' else flattenCell sa)
                   @ ''|'' @ (if flattenCell sb = [] then '' '' else flattenCell sb)
                   @ ''|'' @ [newline]
                   @ ''|---|---|'' @ [newline]
                   @ ''|'' @ flattenCell sc @ ''|'' @ flattenCell sd @ ''|'' @ [newline]
           \<and> lineCount out = 3
           \<and> (CHR ''|'' \<notin> set (sa @ sb @ sc @ sd) \<longrightarrow>
                map cellsOf (linesOf out)
                  = [[if flattenCell sa = [] then '' '' else flattenCell sa,
                      if flattenCell sb = [] then '' '' else flattenCell sb],
                     [''---'', ''---''],
                     [flattenCell sc, flattenCell sd]])"
proof -
  define ha where "ha = (if flattenCell sa = [] then '' '' else flattenCell sa)"
  define hb where "hb = (if flattenCell sb = [] then '' '' else flattenCell sb)"
  define l1 where "l1 = CHR ''|'' # ha @ CHR ''|'' # hb @ ''|''"
  define l3 where "l3 = CHR ''|'' # flattenCell sc @ CHR ''|'' # flattenCell sd @ ''|''"
  define out where "out = l1 @ newline # ''|---|---|'' @ newline # l3 @ [newline]"
  have rows: "collectRows rec flattenCell st tbl
                = Inr ([[flattenCell sa, flattenCell sb], [flattenCell sc, flattenCell sd]], st4)"
    using assms by (intro collectRows_2x2) simp_all
  have two: "[0..<2] = [0, Suc 0]"
    by (simp add: upt_rec)
  have res: "parseTable ext rec st (Some tbl) = Inr (out, st4)"
    using assms(2-4)
    by (simp add: parseTable_def rows gfmOfRows_eq shiftRow_def nth_or_def two
          out_def l1_def l3_def ha_def hb_def)
  have nl: "newline \<notin> set l1" "newline \<notin> set ''|---|---|''" "newline \<notin> set l3"
    using newline_notin_flattenCell [of sa] newline_notin_flattenCell [of sb]
      newline_notin_flattenCell [of sc] newline_notin_flattenCell [of sd]
    by (auto simp: l1_def l3_def ha_def hb_def newline_def)
  have cnt: "lineCount out = 3"
    using nl(1,3) by (simp add: lineCount_def out_def count_list_0_iff) (simp add: newline_def)
  have lns: "linesOf out = [l1, ''|---|---|'', l3]"
    unfolding out_def using nl by (rule linesOf_three)
  have cls: "map cellsOf (linesOf out) = [[ha, hb], [''---'', ''---''], [flattenCell sc, flattenCell sd]]"
    if "CHR ''|'' \<notin> set (sa @ sb @ sc @ sd)"
  proof -
    from that have np: "CHR ''|'' \<notin> set ha" "CHR ''|'' \<notin> set hb"
      "CHR ''|'' \<notin> set (flattenCell sc)" "CHR ''|'' \<notin> set (flattenCell sd)"
      by (simp_all add: ha_def hb_def pipe_notin_flattenCell)
    have "cellsOf l1 = [ha, hb]"
      unfolding l1_def using np(1,2) by (rule cellsOf_two)
    moreover have "cellsOf l3 = [flattenCell sc, flattenCell sd]"
      unfolding l3_def using np(3,4) by (rule cellsOf_two)
    moreover have "cellsOf ''|---|---|'' = [''---'', ''---'']"
      by (simp add: cellsOf_def)
    ultimately show ?thesis
      by (simp add: lns)
  qed
  have eq: "out = ''|'' @ ha @ ''|'' @ hb @ ''|'' @ [newline] @ ''|---|---|'' @ [newline]
                @ ''|'' @ flattenCell sc @ ''|'' @ flattenCell sd @ ''|'' @ [newline]"
    by (simp add: out_def l1_def l3_def)
  show ?thesis
  proof (intro exI conjI impI)
    show "parseTable ext rec st (Some tbl) = Inr (out, st4)"
      by (rule res)
    show "out = ''|'' @ (if flattenCell sa = [] then '' '' else flattenCell sa)
                @ ''|'' @ (if flattenCell sb = [] then '' '' else flattenCell sb)
                @ ''|'' @ [newline]
                @ ''|---|---|'' @ [newline]
                @ ''|'' @ flattenCell sc @ ''|'' @ flattenCell sd @ ''|'' @ [newline]"
      using eq unfolding ha_def hb_def .
    show "lineCount out = 3"
      by (rule cnt)
    show "map cellsOf (linesOf out)
            = [[if flattenCell sa = [] then '' '' else flattenCell sa,
                if flattenCell sb = [] then '' '' else flattenCell sb],
               [''---'', ''---''],
               [flattenCell sc, flattenCell sd]]"
      if "CHR ''|'' \<notin> set (sa @ sb @ sc @ sd)"
      using cls [OF that] unfolding ha_def hb_def .
  qed
qed

theorem parseTable_gfm_2x2_witness:
  "\<exists>st'. parseTable sampleExternals cellParser (rendererOf (tableDoc gfmTable)) (Some gfmTable) =
          Inr (''|A|B|\<newline>|---|---|\<newline>|C|D|\<newline>'', st')
        \<and> lineCount ''|A|B|\<newline>|---|---|\<newline>|C|D|\<newline>'' = 3
        \<and> map cellsOf (linesOf ''|A|B|\<newline>|---|---|\<newline>|C|D|\<newline>'')
            = [[''A'', ''B''], [''---'', ''---''], [''C'', ''D'']]"
proof -
  let ?st = "rendererOf (tableDoc gfmTable)"
  from gfmTable_cells obtain st1 st2 st3 st4
    where c0: "cellParser ?st (tableCellBlock ''c0'' ''x0'') 0 = Inr (''A\<newline>'', st1)"
      and m1: "blockMap st1 ''c1'' = Some (tableCellBlock ''c1'' ''x1'')"
      and c1: "cellParser st1 (tableCellBlock ''c1'' ''x1'') 0 = Inr (''B\<newline>'', st2)"
      and m2: "blockMap st2 ''c2'' = Some (tableCellBlock ''c2'' ''x2'')"
      and c2: "cellParser st2 (tableCellBlock ''c2'' ''x2'') 0 = Inr (''C\<newline>'', st3)"
      and m3: "blockMap st3 ''c3'' = Some (tableCellBlock ''c3'' ''x3'')"
      and c3: "cellParser st3 (tableCellBlock ''c3'' ''x3'') 0 = Inr (''D\<newline>'', st4)"
    by (elim rendered_caseE conjE) auto
  have cs: "column_size (property gfmTable) = 2" and hr: "header_row (property gfmTable)"
    by (simp_all add: gfmTable_def sampleTable_def)
  have np: "CHR ''|'' \<notin> set (''A\<newline>'' @ ''B\<newline>'' @ ''C\<newline>'' @ ''D\<newline>'')"
    by simp
  show ?thesis
    using parseTable_gfm_2x2 [where rec = cellParser and ext = sampleExternals,
        OF sample_cells(2) cs hr sample_not_complex(1) sample_first_cell(2) c0 m1 c1 m2 c2 m3 c3]
      np
    by (auto simp: sample_flatten newline_def)
qed

text \<open>
  The claim as it was stated asks for four lines of two cells. The sample table with a
  header row is written in three lines; with the cell texts \<open>B|2\<close> and \<open>D|E|F\<close> the header
  line has three cells and the body line four.
\<close>

lemma pipeDoc_renders:
  "map_sum id fst (parseTable sampleExternals cellParser (rendererOf pipeDoc) (Some gfmTable))
     = Inr ''|A|B|2|\<newline>|---|---|\<newline>|C|D|E|F|\<newline>''"
  by code_simp

lemma pipeDoc_cells:
  "map cellsOf (linesOf ''|A|B|2|\<newline>|---|---|\<newline>|C|D|E|F|\<newline>'')
     = [[''A'', ''B'', ''2''], [''---'', ''---''], [''C'', ''D'', ''E'', ''F'']]"
  by code_simp

lemma gfmTable_renders:
  "map_sum id fst (parseTable sampleExternals cellParser (rendererOf (tableDoc gfmTable)) (Some gfmTable))
     = Inr ''|A|B|\<newline>|---|---|\<newline>|C|D|\<newline>''"
  by code_simp

lemma gfmTable_lines:
  "lineCount ''|A|B|\<newline>|---|---|\<newline>|C|D|\<newline>'' = 3"
  by code_simp

theorem gfm_2x2_three_lines_open_pipes:
  "map_sum id fst (parseTable sampleExternals cellParser (rendererOf (tableDoc gfmTable)) (Some gfmTable))
     = Inr ''|A|B|\<newline>|---|---|\<newline>|C|D|\<newline>''
   \<and> lineCount ''|A|B|\<newline>|---|---|\<newline>|C|D|\<newline>'' = 3
   \<and> lineCount ''|A|B|\<newline>|---|---|\<newline>|C|D|\<newline>'' \<noteq> 4
   \<and> map_sum id fst (parseTable sampleExternals cellParser (rendererOf pipeDoc) (Some gfmTable))
     = Inr ''|A|B|2|\<newline>|---|---|\<newline>|C|D|E|F|\<newline>''
   \<and> map cellsOf (linesOf ''|A|B|2|\<newline>|---|---|\<newline>|C|D|E|F|\<newline>'')
     = [[''A'', ''B'', ''2''], [''---'', ''---''], [''C'', ''D'', ''E'', ''F'']]"
  using gfmTable_renders gfmTable_lines pipeDoc_renders pipeDoc_cells
  by simp

subsection \<open>Claim C10\<close>

text \<open>
  Claim C10. A table that is not complex and whose \<open>header_row\<close> flag is not set is
  written with a header line of \<open>column_size\<close> blank cells, then the separator line, then
  one body line for every row of cells: no row is taken as the header.
\<close>

theorem parseTable_header_row_false:
  assumes "\<not> isComplexTable tbl" and "\<not> header_row (property tbl)"
    and "collectRows rec flattenCell st tbl = Inr (rows, st')"
  shows "parseTable ext rec st (Some tbl) =
           Inr (''|'' @ concat (replicate (nat (column_size (property tbl))) '' |'') @ [newline]
                @ ''|'' @ concat (replicate (nat (column_size (property tbl))) ''---|'') @ [newline]
                @ concat (map (\<lambda>row. ''|'' @ concat (map (\<lambda>cell. cell @ ''|'') row) @ [newline]) rows),
                st')"
  using assms
  by (simp add: parseTable_def gfmOfRows_eq nth_or_def map_replicate_const)

theorem parseTable_header_row_false_witness:
  "\<exists>st'. parseTable sampleExternals cellParser (rendererOf (tableDoc headerlessTable))
            (Some headerlessTable)
          = Inr (''| | |\<newline>|---|---|\<newline>|A|B|\<newline>|C|D|\<newline>'', st')"
proof -
  let ?st = "rendererOf (tableDoc headerlessTable)"
  from headerlessTable_cells obtain st1 st2 st3 st4
    where c0: "cellParser ?st (tableCellBlock ''c0'' ''x0'') 0 = Inr (''A\<newline>'', st1)"
      and m1: "blockMap st1 ''c1'' = Some (tableCellBlock ''c1'' ''x1'')"
      and c1: "cellParser st1 (tableCellBlock ''c1'' ''x1'') 0 = Inr (''B\<newline>'', st2)"
      and m2: "blockMap st2 ''c2'' = Some (tableCellBlock ''c2'' ''x2'')"
      and c2: "cellParser st2 (tableCellBlock ''c2'' ''x2'') 0 = Inr (''C\<newline>'', st3)"
      and m3: "blockMap st3 ''c3'' = Some (tableCellBlock ''c3'' ''x3'')"
      and c3: "cellParser st3 (tableCellBlock ''c3'' ''x3'') 0 = Inr (''D\<newline>'', st4)"
    by (elim rendered_caseE conjE) auto
  have cs: "column_size (property headerlessTable) = 2"
    and hr: "\<not> header_row (property headerlessTable)"
    by (simp_all add: headerlessTable_def sampleTable_def)
  have rows: "collectRows cellParser flattenCell ?st headerlessTable
                = Inr ([[''A'', ''B''], [''C'', ''D'']], st4)"
    using collectRows_2x2 [where rec = cellParser and conv = flattenCell,
        OF sample_cells(3) cs sample_first_cell(3) c0 m1 c1 m2 c2 m3 c3]
    by (simp add: sample_flatten)
  show ?thesis
    using parseTable_header_row_false [where ext = sampleExternals,
        OF sample_not_complex(2) hr rows]
    by (simp add: cs numeral_2_eq_2 newline_def)
qed

section \<open>Headings\<close>

lemma strip_leading_no_prefix:
  "p \<in> set pats \<Longrightarrow> p \<noteq> [] \<Longrightarrow> \<not> prefix p (strip_leading pats s)"
proof (induction pats s rule: strip_leading.induct)
  case (1 pats s)
  show ?case
  proof (cases "List.find (\<lambda>p. p \<noteq> [] \<and> prefix p s) pats")
    case None
    then have "\<not> (p \<noteq> [] \<and> prefix p s)"
      using "1.prems"(1) by (auto simp: find_None_iff)
    with "1.prems" None show ?thesis
      by (subst strip_leading.simps) simp
  next
    case (Some q)
    with "1.IH" [OF Some] "1.prems" show ?thesis
      by (subst strip_leading.simps) simp
  qed
qed

lemma trimStart_no_space: "\<not> prefix '' '' (trimStart s)"
  unfolding trimStart_def
  by (rule strip_leading_no_prefix) (simp_all add: js_whitespace_def)

lemma writeIndent_Nil: "toString (writeIndent [] n) = concat (replicate n ''   '')"
  by (simp add: writeIndent_def toString_def)

text \<open>
  Claim C7, as the code has it. The fragment that \<open>parseBlock\<close> returns for a heading
  block of level 1 to 9 is the indentation of the call (three spaces for each level of
  \<open>indent\<close>, nothing at \<open>indent = 0\<close>), then exactly \<open>level\<close> characters \<open>#\<close>, one space, and
  the rendered text block without its leading white space (so no second space follows);
  levels 7 to 9 write 7 to 9 characters \<open>#\<close>.
\<close>

theorem parseBlock_heading:
  assumes "headingOf block = Some (level, tb)"
  shows "parseBlock ext (Suc depth) st block ind =
           bind_res
             (parseTextBlock (parseBlock ext depth) (st\<lparr>indent := ind, currentBlock := Some block\<rparr>)
                block tb)
             (\<lambda>(s, st').
                Inr (concat (replicate ind ''   '') @ replicate level (CHR ''#'') @ '' '' @ trimStart s,
                     st'))
         \<and> 1 \<le> level \<and> level \<le> 9
         \<and> (\<forall>s. \<not> prefix '' '' (trimStart s))"
  using assms
  by (auto simp: headingOf_def parseBlock_body_def parseHeading_def Let_def writeIndent_Nil
        trimStart_no_space numeral_eq_Suc
      split: BlockType.splits intro!: arg_cong2 [where f = bind_res] ext)


theorem parseBlock_heading_witness:
  "map_sum id fst (parseBlock sampleExternals 1 (rendererOf listDoc) deepHeading 0)
     = Inr ''####### Deep\<newline>''
   \<and> map_sum id fst (parseBlock sampleExternals 1 (rendererOf listDoc) subHeading 1)
     = Inr ''   # Sub\<newline>''"
proof -
  have h7: "headingOf deepHeading = Some (7, plainText ''  Deep'')"
    and h1: "headingOf subHeading = Some (1, plainText ''Sub'')"
    by (simp_all add: headingOf_def deepHeading_def subHeading_def blankBlock_def)
  have e7: "map_sum id fst
              (bind_res
                 (parseTextBlock (parseBlock sampleExternals 0)
                    ((rendererOf listDoc)\<lparr>indent := 0, currentBlock := Some deepHeading\<rparr>)
                    deepHeading (plainText ''  Deep''))
                 (\<lambda>(s, st').
                    Inr (concat (replicate 0 ''   '') @ replicate 7 (CHR ''#'') @ '' '' @ trimStart s, st')))
            = Inr ''####### Deep\<newline>''"
    by code_simp
  have e1: "map_sum id fst
              (bind_res
                 (parseTextBlock (parseBlock sampleExternals 0)
                    ((rendererOf listDoc)\<lparr>indent := 1, currentBlock := Some subHeading\<rparr>)
                    subHeading (plainText ''Sub''))
                 (\<lambda>(s, st').
                    Inr (concat (replicate 1 ''   '') @ replicate 1 (CHR ''#'') @ '' '' @ trimStart s, st')))
            = Inr ''   # Sub\<newline>''"
    by code_simp
  from parseBlock_heading [OF h7, of sampleExternals 0 "rendererOf listDoc" 0]
  have "parseBlock sampleExternals 1 (rendererOf listDoc) deepHeading 0 =
          bind_res
            (parseTextBlock (parseBlock sampleExternals 0)
               ((rendererOf listDoc)\<lparr>indent := 0, currentBlock := Some deepHeading\<rparr>)
               deepHeading (plainText ''  Deep''))
            (\<lambda>(s, st').
               Inr (concat (replicate 0 ''   '') @ replicate 7 (CHR ''#'') @ '' '' @ trimStart s, st'))"
    by simp
  moreover
  from parseBlock_heading [OF h1, of sampleExternals 0 "rendererOf listDoc" 1]
  have "parseBlock sampleExternals 1 (rendererOf listDoc) subHeading 1 =
          bind_res
            (parseTextBlock (parseBlock sampleExternals 0)
               ((rendererOf listDoc)\<lparr>indent := 1, currentBlock := Some subHeading\<rparr>)
               subHeading (plainText ''Sub''))
            (\<lambda>(s, st').
               Inr (concat (replicate 1 ''   '') @ replicate 1 (CHR ''#'') @ '' '' @ trimStart s, st'))"
    by simp
  ultimately show ?thesis
    using e7 e1 by simp
qed

text \<open>
  The claim as it was stated lets every heading fragment begin with \<open>#\<close>. A heading that
  is the child of a list item is rendered with \<open>indent = 1\<close>, and its fragment begins
  with three spaces.
\<close>

theorem nested_heading_begins_with_spaces:
  "map_sum id fst (parse sampleExternals 3 newRenderer listDoc)
     = Inr ''# Doc\<newline>\<newline>1. one\<newline>2. two\<newline>   # Sub\<newline>\<newline>3. three\<newline>\<newline>break\<newline>\<newline>1. again\<newline>\<newline>####### Deep\<newline>''
   \<and> map_sum id fst (parseBlock sampleExternals 1 (rendererOf listDoc) subHeading 1)
     = Inr ''   # Sub\<newline>''
   \<and> \<not> prefix ''#'' ''   # Sub\<newline>''"
  by code_simp

section \<open>Ordered lists\<close>

lemma find_upt_first:
  assumes "k < n" and "P k" and "\<And>j. j < k \<Longrightarrow> \<not> P j"
  shows "List.find P [0..<n] = Some k"
  unfolding find_Some_iff
  using assms by (intro exI [where x = k]) simp

lemma find_first_index:
  assumes "x \<notin> set pre" and "cs = pre @ x # post"
  shows "List.find (\<lambda>i. cs ! i = x) [0..<length cs] = Some (length pre)"
proof (rule find_upt_first)
  show "length pre < length cs" by (simp add: assms(2))
  show "cs ! length pre = x" by (simp add: assms(2))
  show "cs ! j \<noteq> x" if "j < length pre" for j
    using that assms by (auto simp: nth_append)
qed

lemma countOrderedBefore_takeWhile:
  "i \<le> length cs \<Longrightarrow>
   countOrderedBefore m cs i order =
     order + length (takeWhile (\<lambda>c. map_option block_type (m c) = Some Ordered) (rev (take i cs)))"
proof (induction i arbitrary: order)
  case 0
  show ?case by simp
next
  case (Suc j)
  then have "j < length cs" by simp
  then have "rev (take (Suc j) cs) = cs ! j # rev (take j cs)"
    by (simp add: take_Suc_conv_app_nth)
  with Suc show ?case by simp
qed

lemma orderOf_takeWhile:
  assumes "blockMap st (parent_id block) = Some parent"
    and "children parent = pre @ block_id block # post"
    and "block_id block \<notin> set pre"
  shows "orderOf st block =
           Suc (length (takeWhile (\<lambda>c. map_option block_type (blockMap st c) = Some Ordered) (rev pre)))"
  using assms find_first_index [OF assms(3,2)]
  by (simp add: orderOf_def countOrderedBefore_takeWhile)

lemma eachChild_extends:
  "eachChild f (buf, st) cs = Inr (buf', st') \<Longrightarrow> \<exists>ys. buf' = buf @ ys"
proof (induction cs arbitrary: buf st)
  case Nil
  then show ?case by (simp add: eachChild_def)
next
  case (Cons c cs)
  show ?case
  proof (cases "blockMap st c")
    case None
    with Cons.prems have "eachChild f (buf, st) cs = Inr (buf', st')"
      by (simp add: eachChild_def)
    then show ?thesis by (rule Cons.IH)
  next
    case (Some child)
    with Cons.prems obtain s st1
      where "f st child = Inr (s, st1)"
        and "eachChild f (write_buf buf s, st1) cs = Inr (buf', st')"
      by (auto simp: eachChild_def bind_res_def split: sum.splits)
    from Cons.IH [OF this(2)] show ?thesis
      by (auto simp: write_buf_def)
  qed
qed

lemma takeWhile_run:
  assumes "\<forall>c \<in> set run. P c" and "before = [] \<or> \<not> P (last before)"
  shows "takeWhile P (rev (before @ run)) = rev run"
proof -
  have "takeWhile P (rev before) = []"
    using assms(2) by (cases before rule: rev_cases) auto
  with assms(1) takeWhile_append2 [of "rev run" P "rev before"] show ?thesis
    by simp
qed

text \<open>
  Claim C1. Let an ordered item be rendered by \<open>parseOrderedBlock\<close>, let its parent be in
  the lookup, and let \<open>pre\<close> be the parent's children before the first position that
  holds the item's id. Then the ordinal is one plus the number of ordered items at the
  end of \<open>pre\<close>, counted backwards up to the first sibling that is not an ordered item
  (or is missing from the lookup), and the output begins with this ordinal, a dot and a
  space. So an item that follows a run of \<open>n\<close> ordered siblings, the run starting at the
  beginning of the children or after a sibling that is not an ordered item, has the
  ordinal \<open>n + 1\<close>: a run is numbered 1, 2, 3, ... and the numbering starts again at 1
  after an interruption. Nothing but the parent's children and the types of the
  blocks enters the ordinal.
\<close>

theorem parseOrderedBlock_ordinal:
  assumes "blockMap st (parent_id block) = Some parent"
    and "children parent = pre @ block_id block # post"
    and "block_id block \<notin> set pre"
    and "parseOrderedBlock rec st block ind = Inr (out, st')"
  shows "orderOf st block =
           Suc (length (takeWhile (\<lambda>c. map_option block_type (blockMap st c) = Some Ordered) (rev pre)))
         \<and> prefix (show_nat (orderOf st block) @ ''. '') out
         \<and> (\<forall>before run.
               pre = before @ run
               \<and> (\<forall>c \<in> set run. map_option block_type (blockMap st c) = Some Ordered)
               \<and> (before = [] \<or> map_option block_type (blockMap st (last before)) \<noteq> Some Ordered)
               \<longrightarrow> orderOf st block = Suc (length run))"
proof (intro conjI allI impI)
  show ord: "orderOf st block =
           Suc (length (takeWhile (\<lambda>c. map_option block_type (blockMap st c) = Some Ordered) (rev pre)))"
    using assms(1-3) by (rule orderOf_takeWhile)
  from assms(4) obtain buf' itemText st1 where out: "out = toString buf'"
      and "eachChild (\<lambda>st child. rec (st\<lparr>nextBlock := None\<rparr>) child (ind + 1))
             (write_buf (write_buf [] (show_nat (orderOf st block) @ ''. '')) itemText, st1)
             (children block) = Inr (buf', st')"
    by (auto simp: parseOrderedBlock_def Let_def bind_res_eq_Inr)
  from eachChild_extends [OF this(2)] obtain ys
    where "buf' = write_buf (write_buf [] (show_nat (orderOf st block) @ ''. '')) itemText @ ys" ..
  then show "prefix (show_nat (orderOf st block) @ ''. '') out"
    by (simp add: out)
  fix before run
  assume "pre = before @ run
               \<and> (\<forall>c \<in> set run. map_option block_type (blockMap st c) = Some Ordered)
               \<and> (before = [] \<or> map_option block_type (blockMap st (last before)) \<noteq> Some Ordered)"
  then show "orderOf st block = Suc (length run)"
    using takeWhile_run [of run "\<lambda>c. map_option block_type (blockMap st c) = Some Ordered" before]
    by (simp add: ord)
qed


lemma listDoc_items_render:
  "case parseOrderedBlock (parseBlock sampleExternals 2) (rendererOf listDoc)
          (orderedItem ''c'' ''three'' []) 0 of
     Inl e \<Rightarrow> False | Inr (out, st) \<Rightarrow> True"
  "case parseOrderedBlock (parseBlock sampleExternals 2) (rendererOf listDoc)
          (orderedItem ''e'' ''again'' []) 0 of
     Inl e \<Rightarrow> False | Inr (out, st) \<Rightarrow> True"
  by code_simp+

lemma listDoc_lookup:
  "blockMap (rendererOf listDoc) ''p'' = Some listPage"
  "\<forall>c \<in> set [''a'', ''b'']. map_option block_type (blockMap (rendererOf listDoc) c) = Some Ordered"
  "map_option block_type (blockMap (rendererOf listDoc) ''t'') \<noteq> Some Ordered"
  by code_simp+

theorem parseOrderedBlock_ordinal_witness:
  "(\<exists>out st'. parseOrderedBlock (parseBlock sampleExternals 2) (rendererOf listDoc)
                 (orderedItem ''c'' ''three'' []) 0 = Inr (out, st') \<and> prefix ''3. '' out)
   \<and> (\<exists>out st'. parseOrderedBlock (parseBlock sampleExternals 2) (rendererOf listDoc)
                 (orderedItem ''e'' ''again'' []) 0 = Inr (out, st') \<and> prefix ''1. '' out)"
proof
  let ?c = "orderedItem ''c'' ''three'' []"
  from listDoc_items_render(1) obtain out st'
    where r: "parseOrderedBlock (parseBlock sampleExternals 2) (rendererOf listDoc) ?c 0 = Inr (out, st')"
    by (rule rendered_caseE)
  have p: "blockMap (rendererOf listDoc) (parent_id ?c) = Some listPage"
    using listDoc_lookup(1) by (simp add: orderedItem_def)
  have cs: "children listPage = [''a'', ''b''] @ block_id ?c # [''t'', ''e'', ''d'']"
    by (simp add: listPage_def orderedItem_def)
  have n: "block_id ?c \<notin> set [''a'', ''b'']"
    by (simp add: orderedItem_def)
  from parseOrderedBlock_ordinal [OF p cs n r] listDoc_lookup(2)
  have "orderOf (rendererOf listDoc) ?c = Suc (length [''a'', ''b''])"
    and "prefix (show_nat (orderOf (rendererOf listDoc) ?c) @ ''. '') out"
    by (metis append_Nil)+
  moreover have "show_nat 3 = ''3''" by code_simp
  ultimately have "prefix ''3. '' out" by (simp add: numeral_3_eq_3)
  with r show "\<exists>out st'. parseOrderedBlock (parseBlock sampleExternals 2) (rendererOf listDoc) ?c 0
                 = Inr (out, st') \<and> prefix ''3. '' out"
    by blast
next
  let ?e = "orderedItem ''e'' ''again'' []"
  from listDoc_items_render(2) obtain out st'
    where r: "parseOrderedBlock (parseBlock sampleExternals 2) (rendererOf listDoc) ?e 0 = Inr (out, st')"
    by (rule rendered_caseE)
  have p: "blockMap (rendererOf listDoc) (parent_id ?e) = Some listPage"
    using listDoc_lookup(1) by (simp add: orderedItem_def)
  have cs: "children listPage = [''a'', ''b'', ''c'', ''t''] @ block_id ?e # [''d'']"
    by (simp add: listPage_def orderedItem_def)
  have n: "block_id ?e \<notin> set [''a'', ''b'', ''c'', ''t'']"
    by (simp add: orderedItem_def)
  have l: "map_option block_type (blockMap (rendererOf listDoc) (last [''a'', ''b'', ''c'', ''t'']))
             \<noteq> Some Ordered"
    using listDoc_lookup(3) by simp
  from parseOrderedBlock_ordinal [OF p cs n r] l
  have "orderOf (rendererOf listDoc) ?e = Suc (length ([] :: string list))"
    and "prefix (show_nat (orderOf (rendererOf listDoc) ?e) @ ''. '') out"
    by (metis append_Nil2 empty_iff list.set(1))+
  moreover have "show_nat 1 = ''1''" by code_simp
  ultimately have "prefix ''1. '' out" by simp
  with r show "\<exists>out st'. parseOrderedBlock (parseBlock sampleExternals 2) (rendererOf listDoc) ?e 0
                 = Inr (out, st') \<and> prefix ''1. '' out"
    by blast
qed

section \<open>Adjacent text runs\<close>

text \<open>
  Two adjacent runs whose wrappers are the same string before and after the text (bold,
  italic, strikethrough and inline code, when the text does not end in a colon) are
  merged: the second run finds its opening wrapper at the end of the buffer, where the
  first run left its closing wrapper, and removes it.
\<close>

lemma trimLastIfEndsWith_hit:
  assumes "suf \<noteq> []" and "parts \<noteq> []" and "toString parts = s @ suf"
  shows "trimLastIfEndsWith parts suf = (True, [s])"
  using assms by (simp add: trimLastIfEndsWith_def endsWith_def Let_def suffix_def)

lemma equal_wrappers_merge:
  assumes "markdownWrappers sty = Inr (w, w, esc)" and "w \<noteq> []"
    and "t1 = (if esc \<and> map_option block_type (currentBlock st) \<noteq> Some Code
               then escapeHTMLTags c1 else c1)"
    and "t2 = (if esc \<and> map_option block_type (currentBlock st) \<noteq> Some Code
               then escapeHTMLTags c2 else c2)"
    and "\<not> endsWithColon t1" and "\<not> endsWithColon t2"
  shows "\<exists>buf. forEach_res (\<lambda>buf el. parseTextElement st buf el True) []
                 [styledRun c1 sty, styledRun c2 sty] = Inr buf
               \<and> toString buf = w @ t1 @ t2 @ w"
proof -
  have first: "parseTextRun st [] \<lparr>content = c1, text_element_style = sty\<rparr> = Inr [w, t1, w]"
    using assms
    by (cases esc; cases "map_option block_type (currentBlock st) = Some Code")
       (simp_all add: parseTextRun_def Let_def trimLastIfEndsWith_def write_buf_def)
  have "trimLastIfEndsWith [w, t1, w] w = (True, [w @ t1])"
    using assms(2) by (intro trimLastIfEndsWith_hit) (simp_all add: toString_def)
  then have second: "parseTextRun st [w, t1, w] \<lparr>content = c2, text_element_style = sty\<rparr>
                       = Inr [w @ t1, t2, w]"
    using assms
    by (cases esc; cases "map_option block_type (currentBlock st) = Some Code")
       (simp_all add: parseTextRun_def Let_def write_buf_def)
  show ?thesis
    by (simp add: parseTextElement_def styledRun_def first second toString_def)
qed

text \<open>
  Claim C2. For two adjacent underlined runs the code writes two spans, one after the
  other: the buffer ends with \<open></u>\<close>, not with the opening wrapper \<open><u>\<close> that
  \<open>trimLastIfEndsWith\<close> looks for. Two bold runs are merged.
\<close>

theorem underline_runs_are_not_merged:
  "map_sum id fst (parseBlock sampleExternals 1 newRenderer (twoRuns (noStyle\<lparr>underline := True\<rparr>)) 0)
     = Inr ''<u>a</u><u>b</u>\<newline>''
   \<and> map_sum id fst (parseBlock sampleExternals 1 newRenderer (twoRuns (noStyle\<lparr>bold := True\<rparr>)) 0)
     = Inr ''**ab**\<newline>''"
  by code_simp


section \<open>Exceptions\<close>

lemma raisedWithin_rec: "rec st b i = Inl e \<Longrightarrow> raisedWithin rec e"
  by (auto simp: raisedWithin_def)

lemma raisedWithin_URIError [simp]: "raisedWithin rec URIError"
  by (simp add: raisedWithin_def)

lemma raisedWithin_TypeError [simp]: "raisedWithin rec TypeError"
  by (simp add: raisedWithin_def)

lemma forEach_res_Inl:
  "forEach_res f s xs = Inl e \<Longrightarrow> \<exists>s' x. f s' x = Inl e"
  by (induction xs arbitrary: s) (auto split: sum.splits)

lemma decodeURIComponent_Inl: "decodeURIComponent s = Inl e \<Longrightarrow> e = URIError"
  by (auto simp: decodeURIComponent_def split: option.splits)

lemma markdownWrappers_Inl: "markdownWrappers sty = Inl e \<Longrightarrow> e = URIError"
  by (auto simp: markdownWrappers_def bind_res_eq_Inl split: option.splits if_splits
      dest: decodeURIComponent_Inl)

lemma parseTextRun_Inl: "parseTextRun st buf run = Inl e \<Longrightarrow> e = URIError"
  by (auto simp: parseTextRun_def bind_res_eq_Inl Let_def split_def
      dest: markdownWrappers_Inl)

lemma parseTextElement_Inl: "parseTextElement st buf el inl = Inl e \<Longrightarrow> e = URIError"
  by (auto simp: parseTextElement_def bind_res_eq_Inl Let_def split: option.splits
      dest: parseTextRun_Inl decodeURIComponent_Inl)

lemma eachChild_Inl:
  assumes "eachChild f (buf, st) cs = Inl e"
  shows "\<exists>st' b. f st' b = Inl e"
  using assms unfolding eachChild_def
  by (fastforce dest!: forEach_res_Inl simp: bind_res_eq_Inl split: option.splits)

lemma parseTextBlock_Inl:
  "parseTextBlock rec st block tb = Inl e \<Longrightarrow> raisedWithin rec e"
  by (auto simp: parseTextBlock_def bind_res_eq_Inl Let_def
      split: option.splits if_splits
      dest!: forEach_res_Inl eachChild_Inl parseTextElement_Inl intro: raisedWithin_rec)


lemma parsePageBlock_Inl:
  "parsePageBlock rec st block = Inl e \<Longrightarrow> raisedWithin rec e"
  by (auto simp: parsePageBlock_def setTitle_def renderPageChild_def bind_res_eq_Inl Let_def
      split: option.splits if_splits
      dest!: forEach_res_Inl parseTextElement_Inl parseTextBlock_Inl intro: raisedWithin_rec)

lemma parseBulletBlock_Inl:
  "parseBulletBlock rec st block ind = Inl e \<Longrightarrow> raisedWithin rec e"
  by (auto simp: parseBulletBlock_def bind_res_eq_Inl Let_def
      dest!: eachChild_Inl parseTextBlock_Inl intro: raisedWithin_rec)

lemma parseOrderedBlock_Inl:
  "parseOrderedBlock rec st block ind = Inl e \<Longrightarrow> raisedWithin rec e"
  by (auto simp: parseOrderedBlock_def bind_res_eq_Inl Let_def
      dest!: eachChild_Inl parseTextBlock_Inl intro: raisedWithin_rec)

lemma parseIframe_Inl: "parseIframe block = Inl e \<Longrightarrow> e = URIError"
  by (auto simp: parseIframe_def bind_res_eq_Inl split: option.splits if_splits
      dest: decodeURIComponent_Inl)

lemma pushCell_Inl: "pushCell rows row cell = Inl e \<Longrightarrow> e = TypeError"
  by (auto simp: pushCell_def Let_def split: option.splits if_splits)

lemma collectRows_Inl:
  "collectRows rec conv st tbl = Inl e \<Longrightarrow> raisedWithin rec e"
  unfolding collectRows_def
  by (auto simp: bind_res_eq_Inl split: option.splits
      dest!: forEach_res_Inl pushCell_Inl intro: raisedWithin_rec)

lemma parseTable_Inl:
  "parseTable ext rec st tbl = Inl e \<Longrightarrow> raisedWithin rec e"
  by (auto simp: parseTable_def parseTableAsHTML_def bind_res_eq_Inl
      split: option.splits if_splits dest!: collectRows_Inl)

lemma parseTableCell_Inl:
  "parseTableCell rec st block = Inl e \<Longrightarrow> raisedWithin rec e"
  by (auto simp: parseTableCell_def bind_res_eq_Inl dest!: eachChild_Inl intro: raisedWithin_rec)

lemma parseView_Inl:
  "parseView rec st block = Inl e \<Longrightarrow> raisedWithin rec e"
  by (auto simp: parseView_def bind_res_eq_Inl dest!: eachChild_Inl intro: raisedWithin_rec)

lemma parseSyncedBlock_Inl:
  "parseSyncedBlock rec st block = Inl e \<Longrightarrow> raisedWithin rec e"
  by (auto simp: parseSyncedBlock_def bind_res_eq_Inl dest!: eachChild_Inl intro: raisedWithin_rec)

lemma parseQuoteContainer_Inl:
  "parseQuoteContainer rec st block = Inl e \<Longrightarrow> raisedWithin rec e"
  by (auto simp: parseQuoteContainer_def quoteChild_def bind_res_eq_Inl split: option.splits
      dest!: forEach_res_Inl intro: raisedWithin_rec)

lemma joinChildren_Inl:
  "joinChildren rec st block = Inl e \<Longrightarrow> raisedWithin rec e"
  by (auto simp: joinChildren_def joinChild_def bind_res_eq_Inl split: option.splits
      dest!: forEach_res_Inl intro: raisedWithin_rec)

lemma parseGridColumn_Inl:
  "parseGridColumn ext rec st block = Inl e \<Longrightarrow> raisedWithin rec e"
  by (auto simp: parseGridColumn_def bind_res_eq_Inl Let_def dest!: joinChildren_Inl)

lemma parseGrid_Inl:
  "parseGrid ext rec st block = Inl e \<Longrightarrow> raisedWithin rec e"
  by (auto simp: parseGrid_def bind_res_eq_Inl Let_def dest!: eachChild_Inl parseGridColumn_Inl)

lemma parseCallout_Inl:
  "parseCallout ext rec st block = Inl e \<Longrightarrow> raisedWithin rec e"
  by (auto simp: parseCallout_def bind_res_eq_Inl Let_def dest!: joinChildren_Inl)

lemma parseHeading_Inl:
  "parseHeading rec st buf block marker tb = Inl e \<Longrightarrow> raisedWithin rec e"
  by (auto simp: parseHeading_def bind_res_eq_Inl dest!: parseTextBlock_Inl)

lemmas method_Inl =
  parsePageBlock_Inl parseTextBlock_Inl parseHeading_Inl parseBulletBlock_Inl
  parseOrderedBlock_Inl parseTableCell_Inl parseTable_Inl parseQuoteContainer_Inl
  parseView_Inl parseGrid_Inl parseCallout_Inl parseSyncedBlock_Inl

lemma parseBlock_body_Inl:
  "parseBlock_body ext rec st block ind = Inl e \<Longrightarrow> raisedWithin rec e"
  unfolding parseBlock_body_def Let_def
  by (cases "block_type block")
     (auto simp: bind_res_eq_Inl split_def dest!: method_Inl parseIframe_Inl)

lemma parseBlock_Inl:
  "parseBlock ext depth st block ind = Inl e \<Longrightarrow> e = URIError \<or> e = TypeError \<or> e = RangeError"
proof (induction depth arbitrary: st block ind)
  case 0
  then show ?case by simp
next
  case (Suc depth)
  then have "raisedWithin (parseBlock ext depth) e"
    by (auto dest: parseBlock_body_Inl)
  with Suc.IH show ?case
    by (auto simp: raisedWithin_def)
qed

subsection \<open>A page whose first child is missing\<close>

text \<open>
  When the first child id of a page has no block, the page is written as the page
  without that id. At a later position this need not hold: the item before the gap
  finds no next sibling, and keeps the newline it would drop before a sibling of its kind.
\<close>

lemma parseTextBlock_Page:
  assumes "block_type block = Page"
  shows "parseTextBlock rec st (block\<lparr>children := cs\<rparr>) tb = parseTextBlock rec st block tb"
    and "parseTextBlock rec st block tb = Inr (s, st') \<Longrightarrow> st' = st"
  using assms
  by (auto simp: parseTextBlock_def childrenBlockTypes_def Let_def bind_res_eq_Inr
      split: option.splits)

lemma bind_res_cong_Inr:
  "(\<And>x. m = Inr x \<Longrightarrow> f x = g x) \<Longrightarrow> bind_res m f = bind_res m g"
  by (cases m) simp_all

lemma renderPageChild_shift:
  "renderPageChild rec (c # cs) s (Suc n, x) = renderPageChild rec cs s (n, x)"
  by (cases s) (auto simp: renderPageChild_def Let_def split: option.splits)

lemma page_loop_shift:
  "forEach_res (renderPageChild rec (c # cs)) s (List.enumerate (Suc n) xs)
     = forEach_res (renderPageChild rec cs) s (List.enumerate n xs)"
  by (induction xs arbitrary: n s) (simp_all add: renderPageChild_shift split: sum.splits)

lemma parsePageBlock_skips_missing:
  assumes "block_type block = Page" and "blockMap st c = None"
  shows "parsePageBlock rec st (block\<lparr>children := c # cs\<rparr>)
           = parsePageBlock rec st (block\<lparr>children := cs\<rparr>)"
proof -
  have skip: "forEach_res (renderPageChild rec (c # cs)) (buf, st2) (List.enumerate 0 (c # cs))
                = forEach_res (renderPageChild rec cs) (buf, st2) (List.enumerate 0 cs)"
    if "blockMap st2 c = None" for buf st2
    using that page_loop_shift [of rec c cs "(buf, st2)" 0 cs]
    by (simp add: renderPageChild_def)
  have loops: "bind_res (parseTextBlock rec st1 block (page block))
                (\<lambda>(s, st).
                   bind_res
                     (forEach_res (renderPageChild rec (c # cs))
                        (write_buf (write_buf (write_buf [] ''# '') s) [newline], st)
                        (List.enumerate 0 (c # cs)))
                     (\<lambda>(buf, st). Inr (toString buf, st)))
              = bind_res (parseTextBlock rec st1 block (page block))
                (\<lambda>(s, st).
                   bind_res
                     (forEach_res (renderPageChild rec cs)
                        (write_buf (write_buf (write_buf [] ''# '') s) [newline], st)
                        (List.enumerate 0 cs))
                     (\<lambda>(buf, st). Inr (toString buf, st)))"
    if "blockMap st1 c = None" for st1
  proof (cases "parseTextBlock rec st1 block (page block)")
    case (Inl e)
    then show ?thesis by simp
  next
    case (Inr r)
    obtain s st2 where r: "r = (s, st2)" by (cases r)
    with Inr parseTextBlock_Page(2) [OF assms(1)] have "st2 = st1" by blast
    with that have m: "blockMap st2 c = None" by simp
    show ?thesis
      unfolding Inr r bind_res_Inr prod.case skip [OF m] by (rule refl)
  qed
  have sel: "page (block\<lparr>children := X\<rparr>) = page block" "children (block\<lparr>children := X\<rparr>) = X"
    "setTitle st (block\<lparr>children := X\<rparr>) = setTitle st block"
    for X by (simp_all add: setTitle_def)
  show ?thesis
    unfolding parsePageBlock_def
  proof (simp only: sel parseTextBlock_Page(1) [OF assms(1)], rule bind_res_cong_Inr)
    fix st1
    assume "setTitle st block = Inr st1"
    then have "blockMap st1 = blockMap st"
      by (auto simp: setTitle_def bind_res_eq_Inr split: option.splits if_splits)
    with assms(2) have "blockMap st1 c = None" by simp
    then show "bind_res (parseTextBlock rec st1 block (page block))
                (\<lambda>(s, st).
                   bind_res
                     (forEach_res (renderPageChild rec (c # cs))
                        (write_buf (write_buf (write_buf [] ''# '') s) [newline], st)
                        (List.enumerate 0 (c # cs)))
                     (\<lambda>(buf, st). Inr (toString buf, st)))
              = bind_res (parseTextBlock rec st1 block (page block))
                (\<lambda>(s, st).
                   bind_res
                     (forEach_res (renderPageChild rec cs)
                        (write_buf (write_buf (write_buf [] ''# '') s) [newline], st)
                        (List.enumerate 0 cs))
                     (\<lambda>(buf, st). Inr (toString buf, st)))"
      by (rule loops)
  qed
qed

subsection \<open>A child that the lookup does not have\<close>

text \<open>
  Every loop over \<open>block.children\<close> looks the child up first. When the lookup has no
  block for the id, the round ends at once, and the loop goes on from the same buffer
  and renderer; the round of \<open>map\<close> in a grid column or a callout gives the empty text.
\<close>

lemma forEach_res_append:
  "forEach_res f s (xs @ ys) = bind_res (forEach_res f s xs) (\<lambda>s'. forEach_res f s' ys)"
  by (induction xs arbitrary: s) (simp_all split: sum.splits)

lemma forEach_res_skip:
  assumes "forEach_res f s xs = Inr s'" and "f s' x = Inr s''"
  shows "forEach_res f s (xs @ x # ys) = forEach_res f s'' ys"
  using assms by (simp add: forEach_res_append)

lemma page_loop_skips:
  assumes "forEach_res (renderPageChild rec cs) acc (List.enumerate 0 pre) = Inr (buf, st)"
    and "blockMap st c = None"
  shows "forEach_res (renderPageChild rec cs) acc (List.enumerate 0 (pre @ c # post))
           = forEach_res (renderPageChild rec cs) (buf, st) (List.enumerate (Suc (length pre)) post)"
proof -
  have "renderPageChild rec cs (buf, st) (length pre, c) = Inr (buf, st)"
    using assms(2) by (simp add: renderPageChild_def)
  with assms(1) show ?thesis
    by (simp add: enumerate_append_eq forEach_res_skip)
qed

lemma eachChild_skips:
  assumes "eachChild f acc pre = Inr (buf, st)" and "blockMap st c = None"
  shows "eachChild f acc (pre @ c # post) = eachChild f (buf, st) post"
  using assms unfolding eachChild_def
  by (intro forEach_res_skip [where s' = "(buf, st)"]) simp_all

lemma quote_loop_skips:
  assumes "forEach_res (quoteChild rec) acc pre = Inr (buf, st)" and "blockMap st c = None"
  shows "forEach_res (quoteChild rec) acc (pre @ c # post) = forEach_res (quoteChild rec) (buf, st) post"
  using assms by (intro forEach_res_skip [where s' = "(buf, st)"]) (simp_all add: quoteChild_def)

lemma join_loop_skips:
  assumes "forEach_res (joinChild rec) acc pre = Inr (parts, st)" and "blockMap st c = None"
  shows "forEach_res (joinChild rec) acc (pre @ c # post)
           = forEach_res (joinChild rec) (parts @ [[]], st) post"
  using assms by (intro forEach_res_skip [where s' = "(parts, st)"]) (simp_all add: joinChild_def)

subsection \<open>The lookup stays as \<open>parse\<close> built it\<close>

lemma hasLookup_self [simp]: "hasLookup (blockMap st) st"
  by (simp add: hasLookup_def)

lemma hasLookup_update [simp]:
  "hasLookup m (st\<lparr>nextBlock := n\<rparr>) = hasLookup m st"
  "hasLookup m (st\<lparr>indent := i\<rparr>) = hasLookup m st"
  "hasLookup m (st\<lparr>currentBlock := b\<rparr>) = hasLookup m st"
  "hasLookup m (st\<lparr>doc_title := t\<rparr>) = hasLookup m st"
  "hasLookup m (st\<lparr>fileTokens := ts\<rparr>) = hasLookup m st"
  by (simp_all add: hasLookup_def)

lemma hasLookup_lookup: "hasLookup m st \<Longrightarrow> blockMap st = m"
  by (simp add: hasLookup_def)

lemma keepsLookup_Inr [simp]: "keepsLookup m (Inr (v, st)) \<longleftrightarrow> hasLookup m st"
  by (simp add: keepsLookup_def)

lemma keepsLookup_Inl [simp]: "keepsLookup m (Inl e)"
  by (simp add: keepsLookup_def)

lemma keepsLookup_bind:
  assumes "keepsLookup m r"
    and "\<And>v st. hasLookup m st \<Longrightarrow> keepsLookup m (k (v, st))"
  shows "keepsLookup m (bind_res r k)"
  using assms by (cases r) (auto simp: keepsLookup_def)

lemma keepsLookup_bind_buf:
  fixes r :: "error + string list"
  assumes "\<And>v. keepsLookup m (k v)"
  shows "keepsLookup m (bind_res r k)"
  using assms by (cases r) simp_all

lemma keepsLookup_bind_rows:
  fixes r :: "error + string list list"
  assumes "\<And>v. keepsLookup m (k v)"
  shows "keepsLookup m (bind_res r k)"
  using assms by (cases r) simp_all

lemma keepsLookup_bind_string:
  fixes r :: "error + string"
  assumes "\<And>v. keepsLookup m (k v)"
  shows "keepsLookup m (bind_res r k)"
  using assms by (cases r) simp_all

lemma keepsLookup_forEach:
  assumes "\<And>acc st x. hasLookup m st \<Longrightarrow> keepsLookup m (step (acc, st) x)"
    and "hasLookup m st"
  shows "keepsLookup m (forEach_res step (acc, st) xs)"
  using assms(2)
proof (induction xs arbitrary: acc st)
  case Nil
  then show ?case by simp
next
  case (Cons x xs)
  from assms(1) [OF Cons.prems, of acc x] show ?case
    by (cases "step (acc, st) x") (auto simp: Cons.IH)
qed

lemma lookupKeepingD:
  "lookupKeeping rec \<Longrightarrow> hasLookup m st \<Longrightarrow> keepsLookup m (rec st b i)"
  by (auto simp: lookupKeeping_def hasLookup_def)

lemma eachChild_keeps:
  assumes "\<And>st child. hasLookup m st \<Longrightarrow> keepsLookup m (f st child)"
    and "hasLookup m st"
  shows "keepsLookup m (eachChild f (buf, st) cs)"
  unfolding eachChild_def
  by (rule keepsLookup_forEach [OF _ assms(2)])
     (auto split: option.splits intro!: keepsLookup_bind assms(1))

lemma parseTextBlock_keeps:
  assumes "lookupKeeping rec" and "hasLookup m st"
  shows "keepsLookup m (parseTextBlock rec st block tb)"
  unfolding parseTextBlock_def Let_def
  by (auto split: option.splits simp: assms(2)
      intro!: keepsLookup_bind_buf keepsLookup_bind eachChild_keeps lookupKeepingD [OF assms(1)])

lemma setTitle_keeps: "setTitle st block = Inr st' \<Longrightarrow> hasLookup m st \<Longrightarrow> hasLookup m st'"
  by (auto simp: setTitle_def bind_res_eq_Inr split: option.splits if_splits)

lemma renderPageChild_keeps:
  assumes "lookupKeeping rec" and "hasLookup m st"
  shows "keepsLookup m (renderPageChild rec cs (buf, st) el)"
  unfolding renderPageChild_def Let_def
  by (cases el)
     (auto split: option.splits simp: assms(2)
        intro!: keepsLookup_bind lookupKeepingD [OF assms(1)])

lemma parsePageBlock_keeps:
  assumes "lookupKeeping rec" and "hasLookup m st"
  shows "keepsLookup m (parsePageBlock rec st block)"
proof (cases "setTitle st block")
  case (Inl e)
  then show ?thesis by (simp add: parsePageBlock_def)
next
  case (Inr st1)
  then have "hasLookup m st1"
    using assms(2) by (rule setTitle_keeps)
  then show ?thesis
    unfolding parsePageBlock_def Inr
    by (auto intro!: keepsLookup_bind parseTextBlock_keeps keepsLookup_forEach
          renderPageChild_keeps assms(1))
qed

lemma parseBulletBlock_keeps:
  assumes "lookupKeeping rec" and "hasLookup m st"
  shows "keepsLookup m (parseBulletBlock rec st block ind)"
  unfolding parseBulletBlock_def Let_def
  by (auto simp: assms(2)
      intro!: keepsLookup_bind eachChild_keeps parseTextBlock_keeps assms(1)
        lookupKeepingD [OF assms(1)])

lemma parseOrderedBlock_keeps:
  assumes "lookupKeeping rec" and "hasLookup m st"
  shows "keepsLookup m (parseOrderedBlock rec st block ind)"
  unfolding parseOrderedBlock_def Let_def
  by (auto simp: assms(2)
      intro!: keepsLookup_bind eachChild_keeps parseTextBlock_keeps assms(1)
        lookupKeepingD [OF assms(1)])

lemma addFileToken_keeps [simp]: "hasLookup m (addFileToken st kind tok) = hasLookup m st"
  by (simp add: addFileToken_def)

lemma parseImage_keeps [simp]: "hasLookup m (snd (parseImage st img)) = hasLookup m st"
  by (simp add: parseImage_def split: option.splits)

lemma parseBoard_keeps [simp]: "hasLookup m (snd (parseBoard st img)) = hasLookup m st"
  by (simp add: parseBoard_def split: option.splits)

lemma parseFile_keeps [simp]: "hasLookup m (snd (parseFile st block)) = hasLookup m st"
  by (simp add: parseFile_def split: option.splits)

lemma collectRows_keeps:
  assumes "lookupKeeping rec" and "hasLookup m st"
  shows "keepsLookup m (collectRows rec conv st tbl)"
  unfolding collectRows_def
  by (rule keepsLookup_forEach [OF _ assms(2)])
     (auto split: option.splits prod.splits
        intro!: keepsLookup_bind keepsLookup_bind_rows lookupKeepingD [OF assms(1)])

lemma parseTable_keeps:
  assumes "lookupKeeping rec" and "hasLookup m st"
  shows "keepsLookup m (parseTable ext rec st tbl)"
  unfolding parseTable_def parseTableAsHTML_def
  by (auto split: option.splits simp: assms(2)
      intro!: keepsLookup_bind collectRows_keeps assms(1))

lemma parseTableCell_keeps:
  assumes "lookupKeeping rec" and "hasLookup m st"
  shows "keepsLookup m (parseTableCell rec st block)"
  unfolding parseTableCell_def
  by (auto simp: assms(2) intro!: keepsLookup_bind eachChild_keeps lookupKeepingD [OF assms(1)])

lemma parseView_keeps:
  assumes "lookupKeeping rec" and "hasLookup m st"
  shows "keepsLookup m (parseView rec st block)"
  unfolding parseView_def
  by (auto simp: assms(2) intro!: keepsLookup_bind eachChild_keeps lookupKeepingD [OF assms(1)])

lemma parseSyncedBlock_keeps:
  assumes "lookupKeeping rec" and "hasLookup m st"
  shows "keepsLookup m (parseSyncedBlock rec st block)"
  unfolding parseSyncedBlock_def
  by (auto simp: assms(2) intro!: keepsLookup_bind eachChild_keeps lookupKeepingD [OF assms(1)])

lemma parseQuoteContainer_keeps:
  assumes "lookupKeeping rec" and "hasLookup m st"
  shows "keepsLookup m (parseQuoteContainer rec st block)"
  unfolding parseQuoteContainer_def quoteChild_def
  by (auto split: option.splits simp: assms(2)
      intro!: keepsLookup_bind keepsLookup_forEach lookupKeepingD [OF assms(1)])

lemma joinChildren_keeps:
  assumes "lookupKeeping rec" and "hasLookup m st"
  shows "keepsLookup m (joinChildren rec st block)"
  unfolding joinChildren_def joinChild_def
  by (auto split: option.splits simp: assms(2)
      intro!: keepsLookup_bind keepsLookup_forEach lookupKeepingD [OF assms(1)])

lemma parseGridColumn_keeps:
  assumes "lookupKeeping rec" and "hasLookup m st"
  shows "keepsLookup m (parseGridColumn ext rec st block)"
  unfolding parseGridColumn_def Let_def
  by (auto intro!: keepsLookup_bind joinChildren_keeps assms)

lemma parseGrid_keeps:
  assumes "lookupKeeping rec" and "hasLookup m st"
  shows "keepsLookup m (parseGrid ext rec st block)"
  unfolding parseGrid_def Let_def
  by (auto simp: assms(2) intro!: keepsLookup_bind eachChild_keeps parseGridColumn_keeps assms(1))

lemma parseCallout_keeps:
  assumes "lookupKeeping rec" and "hasLookup m st"
  shows "keepsLookup m (parseCallout ext rec st block)"
  unfolding parseCallout_def Let_def
  by (auto intro!: keepsLookup_bind joinChildren_keeps assms)

lemma parseHeading_keeps:
  assumes "lookupKeeping rec" and "hasLookup m st"
  shows "keepsLookup m (parseHeading rec st buf block marker tb)"
  unfolding parseHeading_def
  by (auto intro!: keepsLookup_bind parseTextBlock_keeps assms)

lemmas method_keeps =
  parsePageBlock_keeps parseTextBlock_keeps parseHeading_keeps parseBulletBlock_keeps
  parseOrderedBlock_keeps parseTableCell_keeps parseTable_keeps parseQuoteContainer_keeps
  parseView_keeps parseGrid_keeps parseCallout_keeps parseSyncedBlock_keeps

lemma parseBlock_body_keeps:
  assumes "lookupKeeping rec"
  shows "keepsLookup (blockMap st) (parseBlock_body ext rec st block ind)"
  unfolding parseBlock_body_def Let_def
  by (cases "block_type block")
     (auto simp: split_def intro!: keepsLookup_bind keepsLookup_bind_string method_keeps assms)

lemma parseBlock_lookupKeeping: "lookupKeeping (parseBlock ext depth)"
proof (induction depth)
  case 0
  show ?case by (simp add: lookupKeeping_def)
next
  case (Suc depth)
  then show ?case
    using parseBlock_body_keeps [of "parseBlock ext depth" _ ext]
    by (simp add: lookupKeeping_def)
qed

lemma parseBlock_keeps_blockMap:
  "parseBlock ext depth st b i = Inr (s, st') \<Longrightarrow> blockMap st' = blockMap st"
  using parseBlock_lookupKeeping [of ext depth]
  by (auto simp: lookupKeeping_def keepsLookup_def hasLookup_def split: sum.splits
      dest!: spec [where x = st])

subsection \<open>Claim C6\<close>

text \<open>
  Claim C6, as the code has it. \<open>parse\<close> throws its own error, that no root was found, if
  and only if no block of the list has the type \<open>Page\<close>; with a \<open>Page\<close> block in the list
  it can still throw, but not that error. A child id that the lookup does not have
  throws nothing and writes nothing, at any position of the children: once the siblings
  before it are rendered, each loop over \<open>block.children\<close> goes on with the siblings
  after it, from the buffer and the renderer it had reached.
  These loops are the loop of the page (\<open>renderPageChild\<close>), the loop \<open>eachChild\<close> of
  text blocks, list items, table cells, views, synced blocks and grids, the loop of the
  quote container (\<open>quoteChild\<close>), and the \<open>map\<close> of grid columns and callouts
  (\<open>joinChild\<close>), where the missing child is an empty part of the join. The lookup is
  the one \<open>parse\<close> built: \<open>parseBlock\<close> returns the renderer with the lookup it was given.
\<close>

theorem parse_throws:
  "(parse ext depth st0 blocks = Inl NoRootBlock \<longleftrightarrow> \<not> list_ex (\<lambda>b. block_type b = Page) blocks)
   \<and> (forEach_res (renderPageChild rec cs) acc (List.enumerate 0 pre) = Inr (buf, st)
        \<and> blockMap st c = None
        \<longrightarrow> forEach_res (renderPageChild rec cs) acc (List.enumerate 0 (pre @ c # post))
            = forEach_res (renderPageChild rec cs) (buf, st) (List.enumerate (Suc (length pre)) post))
   \<and> (eachChild f acc pre = Inr (buf, st) \<and> blockMap st c = None
        \<longrightarrow> eachChild f acc (pre @ c # post) = eachChild f (buf, st) post)
   \<and> (forEach_res (quoteChild rec) acc pre = Inr (buf, st) \<and> blockMap st c = None
        \<longrightarrow> forEach_res (quoteChild rec) acc (pre @ c # post)
            = forEach_res (quoteChild rec) (buf, st) post)
   \<and> (forEach_res (joinChild rec) acc pre = Inr (buf, st) \<and> blockMap st c = None
        \<longrightarrow> forEach_res (joinChild rec) acc (pre @ c # post)
            = forEach_res (joinChild rec) (buf @ [[]], st) post)
   \<and> (parseBlock ext depth st b ind = Inr (s, st') \<longrightarrow> blockMap st' = blockMap st)"
proof (intro conjI impI)
  show "parse ext depth st0 blocks = Inl NoRootBlock \<longleftrightarrow> \<not> list_ex (\<lambda>b. block_type b = Page) blocks"
  proof (cases "List.find (\<lambda>b. block_type b = Page) blocks")
    case None
    then have "\<not> list_ex (\<lambda>b. block_type b = Page) blocks"
      by (simp add: find_None_iff list_ex_iff)
    then show ?thesis
      by (simp add: parse_def Let_def None)
  next
    case (Some rootBlock)
    then have "list_ex (\<lambda>b. block_type b = Page) blocks"
      by (auto simp: find_Some_iff list_ex_iff)
    moreover have "parse ext depth st0 blocks \<noteq> Inl NoRootBlock"
      using Some by (auto simp: parse_def Let_def bind_res_eq_Inl dest: parseBlock_Inl)
    ultimately show ?thesis by simp
  qed
next
  assume "forEach_res (renderPageChild rec cs) acc (List.enumerate 0 pre) = Inr (buf, st)
            \<and> blockMap st c = None"
  then show "forEach_res (renderPageChild rec cs) acc (List.enumerate 0 (pre @ c # post))
               = forEach_res (renderPageChild rec cs) (buf, st) (List.enumerate (Suc (length pre)) post)"
    by (simp add: page_loop_skips)
next
  assume "eachChild f acc pre = Inr (buf, st) \<and> blockMap st c = None"
  then show "eachChild f acc (pre @ c # post) = eachChild f (buf, st) post"
    by (simp add: eachChild_skips)
next
  assume "forEach_res (quoteChild rec) acc pre = Inr (buf, st) \<and> blockMap st c = None"
  then show "forEach_res (quoteChild rec) acc (pre @ c # post)
               = forEach_res (quoteChild rec) (buf, st) post"
    by (simp add: quote_loop_skips)
next
  assume "forEach_res (joinChild rec) acc pre = Inr (buf, st) \<and> blockMap st c = None"
  then show "forEach_res (joinChild rec) acc (pre @ c # post)
               = forEach_res (joinChild rec) (buf @ [[]], st) post"
    by (simp add: join_loop_skips)
next
  assume "parseBlock ext depth st b ind = Inr (s, st')"
  then show "blockMap st' = blockMap st"
    by (rule parseBlock_keeps_blockMap)
qed

text \<open>
  The page \<open>gapDoc\<close> is rendered, each of its four loops passing the id \<open>zz\<close>.
\<close>

lemma gapDoc_page_loop:
  "case forEach_res (renderPageChild (parseBlock sampleExternals 3) [''a'', ''zz'', ''q'', ''g''])
          ([], rendererOf gapDoc) (List.enumerate 0 [''a'']) of
     Inl e \<Rightarrow> False | Inr (buf, st) \<Rightarrow> blockMap st ''zz'' = None"
  by code_simp

lemma gapDoc_eachChild:
  "case eachChild (\<lambda>st child. parseBlock sampleExternals 2 st child 1) ([], rendererOf gapDoc) [''x1''] of
     Inl e \<Rightarrow> False | Inr (buf, st) \<Rightarrow> blockMap st ''zz'' = None"
  by code_simp

lemma gapDoc_quote_loop:
  "case forEach_res (quoteChild (parseBlock sampleExternals 2)) ([], rendererOf gapDoc) [''y1''] of
     Inl e \<Rightarrow> False | Inr (buf, st) \<Rightarrow> blockMap st ''zz'' = None"
  by code_simp

lemma gapDoc_join_loop:
  "case forEach_res (joinChild (parseBlock sampleExternals 2)) ([], rendererOf gapDoc) [''z1''] of
     Inl e \<Rightarrow> False | Inr (buf, st) \<Rightarrow> blockMap st ''zz'' = None"
  by code_simp

lemma gapDoc_text:
  "case parseBlock sampleExternals 2 (rendererOf gapDoc) (textPara ''x1'' ''a'' ''u'') 1 of
     Inl e \<Rightarrow> False | Inr (s, st) \<Rightarrow> s = ''   u\<newline>''"
  by code_simp

lemma gapDoc_has_page: "list_ex (\<lambda>b. block_type b = Page) gapDoc"
  by code_simp

lemma gapDoc_renders:
  "observable (parse sampleExternals 4 newRenderer gapDoc)
     = Inr (''# Doc\<newline>\<newline>- one\<newline>   u\<newline>   v\<newline>\<newline>> w\<newline>> x\<newline>\<newline>''
            @ ''<div class=\"callout\">\<newline>y\<newline>\<newline>\<newline>z\<newline></div>\<newline>'', [])"
  by code_simp

theorem parse_throws_witness:
  "parse sampleExternals 4 newRenderer [] = Inl NoRootBlock
   \<and> parse sampleExternals 4 newRenderer gapDoc \<noteq> Inl NoRootBlock
   \<and> (\<exists>buf st.
         forEach_res (renderPageChild (parseBlock sampleExternals 3) [''a'', ''zz'', ''q'', ''g''])
           ([], rendererOf gapDoc) (List.enumerate 0 [''a'']) = Inr (buf, st)
         \<and> blockMap st ''zz'' = None
         \<and> forEach_res (renderPageChild (parseBlock sampleExternals 3) [''a'', ''zz'', ''q'', ''g''])
             ([], rendererOf gapDoc) (List.enumerate 0 ([''a''] @ ''zz'' # [''q'', ''g'']))
           = forEach_res (renderPageChild (parseBlock sampleExternals 3) [''a'', ''zz'', ''q'', ''g''])
               (buf, st) (List.enumerate (Suc (length [''a''])) [''q'', ''g'']))
   \<and> (\<exists>buf st.
         eachChild (\<lambda>st child. parseBlock sampleExternals 2 st child 1) ([], rendererOf gapDoc) [''x1'']
           = Inr (buf, st)
         \<and> blockMap st ''zz'' = None
         \<and> eachChild (\<lambda>st child. parseBlock sampleExternals 2 st child 1) ([], rendererOf gapDoc)
             ([''x1''] @ ''zz'' # [''x2''])
           = eachChild (\<lambda>st child. parseBlock sampleExternals 2 st child 1) (buf, st) [''x2''])
   \<and> (\<exists>buf st.
         forEach_res (quoteChild (parseBlock sampleExternals 2)) ([], rendererOf gapDoc) [''y1'']
           = Inr (buf, st)
         \<and> blockMap st ''zz'' = None
         \<and> forEach_res (quoteChild (parseBlock sampleExternals 2)) ([], rendererOf gapDoc)
             ([''y1''] @ ''zz'' # [''y2''])
           = forEach_res (quoteChild (parseBlock sampleExternals 2)) (buf, st) [''y2''])
   \<and> (\<exists>parts st.
         forEach_res (joinChild (parseBlock sampleExternals 2)) ([], rendererOf gapDoc) [''z1'']
           = Inr (parts, st)
         \<and> blockMap st ''zz'' = None
         \<and> forEach_res (joinChild (parseBlock sampleExternals 2)) ([], rendererOf gapDoc)
             ([''z1''] @ ''zz'' # [''z2''])
           = forEach_res (joinChild (parseBlock sampleExternals 2)) (parts @ [[]], st) [''z2''])
   \<and> (\<exists>s st'.
         parseBlock sampleExternals 2 (rendererOf gapDoc) (textPara ''x1'' ''a'' ''u'') 1 = Inr (s, st')
         \<and> blockMap st' = blockMap (rendererOf gapDoc))"
proof (intro conjI)
  show "parse sampleExternals 4 newRenderer [] = Inl NoRootBlock"
    using parse_throws [where ext = sampleExternals and depth = 4 and ?st0.0 = newRenderer
        and blocks = "[]"]
    by simp
  show "parse sampleExternals 4 newRenderer gapDoc \<noteq> Inl NoRootBlock"
    using parse_throws [where ext = sampleExternals and depth = 4 and ?st0.0 = newRenderer
        and blocks = gapDoc] gapDoc_has_page
    by simp
next
  from gapDoc_page_loop obtain buf st
    where r: "forEach_res (renderPageChild (parseBlock sampleExternals 3) [''a'', ''zz'', ''q'', ''g''])
                ([], rendererOf gapDoc) (List.enumerate 0 [''a'']) = Inr (buf, st)"
      and m: "blockMap st ''zz'' = None"
    by (rule rendered_caseE)
  with parse_throws [where rec = "parseBlock sampleExternals 3" and cs = "[''a'', ''zz'', ''q'', ''g'']"
      and acc = "([], rendererOf gapDoc)" and pre = "[''a'']" and buf = buf and st = st
      and c = "''zz''" and post = "[''q'', ''g'']"]
  show "\<exists>buf st.
         forEach_res (renderPageChild (parseBlock sampleExternals 3) [''a'', ''zz'', ''q'', ''g''])
           ([], rendererOf gapDoc) (List.enumerate 0 [''a'']) = Inr (buf, st)
         \<and> blockMap st ''zz'' = None
         \<and> forEach_res (renderPageChild (parseBlock sampleExternals 3) [''a'', ''zz'', ''q'', ''g''])
             ([], rendererOf gapDoc) (List.enumerate 0 ([''a''] @ ''zz'' # [''q'', ''g'']))
           = forEach_res (renderPageChild (parseBlock sampleExternals 3) [''a'', ''zz'', ''q'', ''g''])
               (buf, st) (List.enumerate (Suc (length [''a''])) [''q'', ''g''])"
    by blast
next
  from gapDoc_eachChild obtain buf st
    where r: "eachChild (\<lambda>st child. parseBlock sampleExternals 2 st child 1) ([], rendererOf gapDoc) [''x1'']
                = Inr (buf, st)"
      and m: "blockMap st ''zz'' = None"
    by (rule rendered_caseE)
  with parse_throws [where f = "\<lambda>st child. parseBlock sampleExternals 2 st child 1"
      and acc = "([], rendererOf gapDoc)" and pre = "[''x1'']" and buf = buf and st = st
      and c = "''zz''" and post = "[''x2'']"]
  show "\<exists>buf st.
         eachChild (\<lambda>st child. parseBlock sampleExternals 2 st child 1) ([], rendererOf gapDoc) [''x1'']
           = Inr (buf, st)
         \<and> blockMap st ''zz'' = None
         \<and> eachChild (\<lambda>st child. parseBlock sampleExternals 2 st child 1) ([], rendererOf gapDoc)
             ([''x1''] @ ''zz'' # [''x2''])
           = eachChild (\<lambda>st child. parseBlock sampleExternals 2 st child 1) (buf, st) [''x2'']"
    by blast
next
  from gapDoc_quote_loop obtain buf st
    where r: "forEach_res (quoteChild (parseBlock sampleExternals 2)) ([], rendererOf gapDoc) [''y1'']
                = Inr (buf, st)"
      and m: "blockMap st ''zz'' = None"
    by (rule rendered_caseE)
  with parse_throws [where rec = "parseBlock sampleExternals 2"
      and acc = "([], rendererOf gapDoc)" and pre = "[''y1'']" and buf = buf and st = st
      and c = "''zz''" and post = "[''y2'']"]
  show "\<exists>buf st.
         forEach_res (quoteChild (parseBlock sampleExternals 2)) ([], rendererOf gapDoc) [''y1'']
           = Inr (buf, st)
         \<and> blockMap st ''zz'' = None
         \<and> forEach_res (quoteChild (parseBlock sampleExternals 2)) ([], rendererOf gapDoc)
             ([''y1''] @ ''zz'' # [''y2''])
           = forEach_res (quoteChild (parseBlock sampleExternals 2)) (buf, st) [''y2'']"
    by blast
next
  from gapDoc_join_loop obtain parts st
    where r: "forEach_res (joinChild (parseBlock sampleExternals 2)) ([], rendererOf gapDoc) [''z1'']
                = Inr (parts, st)"
      and m: "blockMap st ''zz'' = None"
    by (rule rendered_caseE)
  with parse_throws [where rec = "parseBlock sampleExternals 2"
      and acc = "([], rendererOf gapDoc)" and pre = "[''z1'']" and buf = parts and st = st
      and c = "''zz''" and post = "[''z2'']"]
  show "\<exists>parts st.
         forEach_res (joinChild (parseBlock sampleExternals 2)) ([], rendererOf gapDoc) [''z1'']
           = Inr (parts, st)
         \<and> blockMap st ''zz'' = None
         \<and> forEach_res (joinChild (parseBlock sampleExternals 2)) ([], rendererOf gapDoc)
             ([''z1''] @ ''zz'' # [''z2''])
           = forEach_res (joinChild (parseBlock sampleExternals 2)) (parts @ [[]], st) [''z2'']"
    by blast
next
  from gapDoc_text obtain s st'
    where r: "parseBlock sampleExternals 2 (rendererOf gapDoc) (textPara ''x1'' ''a'' ''u'') 1 = Inr (s, st')"
    by (rule rendered_caseE)
  with parse_throws [where ext = sampleExternals and depth = 2 and st = "rendererOf gapDoc"
      and b = "textPara ''x1'' ''a'' ''u''" and ind = 1 and s = s and st' = st']
  show "\<exists>s st'.
         parseBlock sampleExternals 2 (rendererOf gapDoc) (textPara ''x1'' ''a'' ''u'') 1 = Inr (s, st')
         \<and> blockMap st' = blockMap (rendererOf gapDoc)"
    by blast
qed

text \<open>
  The claim as it was stated lets \<open>parse\<close> throw only when the page is missing. A page
  whose title is a link to \<open>%\<close> makes \<open>decodeURIComponent\<close> throw a \<open>URIError\<close>.
\<close>

theorem malformed_link_throws_with_page:
  "list_ex (\<lambda>b. block_type b = Page) badLinkDoc
   \<and> map_sum id fst (parse sampleExternals 3 newRenderer badLinkDoc) = Inl URIError"
  by code_simp

text \<open>
  In the loop over the cells of a table a missing cell is skipped too, but the row of a
  later cell is computed from its position among all cells: after two missing cells in
  a table of one column the row of the third does not exist yet, and \<open>push\<close> throws.
\<close>

lemma missing_cells_throw:
  "list_ex (\<lambda>b. block_type b = Page) sparseTableDoc
   \<and> map_sum id fst (parse sampleExternals 4 newRenderer sparseTableDoc) = Inl TypeError"
  by code_simp

section \<open>Independence of the state a renderer is left in\<close>

text \<open>
  \<open>parse\<close> replaces the lookup and the token list, and \<open>parseBlock\<close> sets \<open>indent\<close> and
  \<open>currentBlock\<close> on entry. What is left of an earlier use is the title and \<open>nextBlock\<close>.
  The title is written and never read; \<open>nextBlock\<close> is read by the list items only, after
  the loop of the page or of the parent has set it. The lemmas below carry this through
  every method: first for the title, for any block, then for both fields, for the page.
\<close>

subsection \<open>Results that agree up to the title\<close>

lemma sameOutput_Inr [simp]: "sameOutput (Inr (v, a)) (Inr (v, a\<lparr>doc_title := x\<rparr>))"
  by (auto simp: sameOutput_def)

lemma sameOutput_Inr_same [simp]: "sameOutput (Inr (v, a)) (Inr (v, a))"
  using sameOutput_Inr [of v a "doc_title a"] by simp

lemma sameOutput_Inl [simp]: "sameOutput (Inl e) (Inl e)"
  by (simp add: sameOutput_def)

lemma sameOutputE:
  assumes "sameOutput r1 r2"
  obtains e where "r1 = Inl e" and "r2 = Inl e"
  | v a x where "r1 = Inr (v, a)" and "r2 = Inr (v, a\<lparr>doc_title := x\<rparr>)"
  using assms by (auto simp: sameOutput_def split: sum.splits)

lemma sameOutput_bind:
  assumes "sameOutput m1 m2"
    and "\<And>v a x. sameOutput (k1 (v, a)) (k2 (v, a\<lparr>doc_title := x\<rparr>))"
  shows "sameOutput (bind_res m1 k1) (bind_res m2 k2)"
  using assms(1) by (rule sameOutputE) (simp_all add: assms(2))

lemma sameOutput_bind_pure:
  assumes "m1 = m2" and "\<And>v. sameOutput (k1 v) (k2 v)"
  shows "sameOutput (bind_res m1 k1) (bind_res m2 k2)"
  using assms by (cases m2) simp_all

lemma sameOutput_forEach:
  assumes "\<And>acc a x el. sameOutput (body (acc, a) el) (body (acc, a\<lparr>doc_title := x\<rparr>) el)"
  shows "sameOutput (forEach_res body (acc, a) xs) (forEach_res body (acc, a\<lparr>doc_title := x\<rparr>) xs)"
proof (induction xs arbitrary: acc a x)
  case Nil
  show ?case by simp
next
  case (Cons el xs)
  from assms [of acc a el x] show ?case
    by (rule sameOutputE) (simp_all add: Cons.IH)
qed

lemma titleBlindD: "titleBlind rec \<Longrightarrow> sameOutput (rec a b i) (rec (a\<lparr>doc_title := x\<rparr>) b i)"
  by (simp add: titleBlind_def)

lemma parseTextRun_title [simp]:
  "parseTextRun (a\<lparr>doc_title := x\<rparr>) buf run = parseTextRun a buf run"
  by (simp add: parseTextRun_def)

lemma parseTextElement_title [simp]:
  "parseTextElement (a\<lparr>doc_title := x\<rparr>) buf el inl = parseTextElement a buf el inl"
  by (simp add: parseTextElement_def cong: option.case_cong)

lemma eachChild_title:
  assumes "\<And>a x child. sameOutput (f a child) (f (a\<lparr>doc_title := x\<rparr>) child)"
  shows "sameOutput (eachChild f (buf, a) cs) (eachChild f (buf, a\<lparr>doc_title := x\<rparr>) cs)"
  unfolding eachChild_def
  by (rule sameOutput_forEach)
     (auto split: option.splits intro!: sameOutput_bind assms)

lemma parseTextBlock_title:
  assumes "titleBlind rec"
  shows "sameOutput (parseTextBlock rec a block tb) (parseTextBlock rec (a\<lparr>doc_title := x\<rparr>) block tb)"
  unfolding parseTextBlock_def Let_def
  by (auto split: option.splits
      intro!: sameOutput_bind_pure sameOutput_bind eachChild_title titleBlindD [OF assms, simplified])

subsection \<open>The methods do not read the title\<close>

lemma compactItem_title [simp]: "compactItem (a\<lparr>doc_title := x\<rparr>) block = compactItem a block"
  by (simp add: compactItem_def)

lemma orderOf_title [simp]: "orderOf (a\<lparr>doc_title := x\<rparr>) block = orderOf a block"
  by (simp add: orderOf_def cong: option.case_cong)

lemma parseUnsupport_title [simp]:
  "parseUnsupport ext (a\<lparr>doc_title := x\<rparr>) block = parseUnsupport ext a block"
  by (simp add: parseUnsupport_def)

lemma addFileToken_title:
  "addFileToken (a\<lparr>doc_title := x\<rparr>) kind tok = (addFileToken a kind tok)\<lparr>doc_title := x\<rparr>"
  by (simp add: addFileToken_def)

lemma parseImage_title:
  "parseImage (a\<lparr>doc_title := x\<rparr>) img
     = (fst (parseImage a img), (snd (parseImage a img))\<lparr>doc_title := x\<rparr>)"
  by (simp add: parseImage_def addFileToken_title split: option.splits)

lemma parseBoard_title:
  "parseBoard (a\<lparr>doc_title := x\<rparr>) img
     = (fst (parseBoard a img), (snd (parseBoard a img))\<lparr>doc_title := x\<rparr>)"
  by (simp add: parseBoard_def addFileToken_title split: option.splits)

lemma parseFile_title:
  "parseFile (a\<lparr>doc_title := x\<rparr>) block
     = (fst (parseFile a block), (snd (parseFile a block))\<lparr>doc_title := x\<rparr>)"
  by (simp add: parseFile_def addFileToken_title split: option.splits)

lemma title_next_commute:
  "a\<lparr>doc_title := x, nextBlock := n\<rparr> = a\<lparr>nextBlock := n, doc_title := x\<rparr>"
  by (cases a) simp

lemma titleBlind_next:
  "titleBlind rec \<Longrightarrow>
   sameOutput (rec (a\<lparr>nextBlock := n\<rparr>) b i) (rec (a\<lparr>doc_title := x, nextBlock := n\<rparr>) b i)"
  using titleBlindD [of rec "a\<lparr>nextBlock := n\<rparr>" b i x] by (simp add: title_next_commute)

lemma parseBulletBlock_title:
  assumes "titleBlind rec"
  shows "sameOutput (parseBulletBlock rec a block ind)
           (parseBulletBlock rec (a\<lparr>doc_title := x\<rparr>) block ind)"
  unfolding parseBulletBlock_def Let_def
  by (auto intro!: sameOutput_bind eachChild_title parseTextBlock_title assms
        titleBlind_next [OF assms])

lemma parseOrderedBlock_title:
  assumes "titleBlind rec"
  shows "sameOutput (parseOrderedBlock rec a block ind)
           (parseOrderedBlock rec (a\<lparr>doc_title := x\<rparr>) block ind)"
  unfolding parseOrderedBlock_def Let_def
  by (auto intro!: sameOutput_bind eachChild_title parseTextBlock_title assms
        titleBlind_next [OF assms])

lemma renderPageChild_title:
  assumes "titleBlind rec"
  shows "sameOutput (renderPageChild rec cs (buf, a) el)
           (renderPageChild rec cs (buf, a\<lparr>doc_title := x\<rparr>) el)"
  unfolding renderPageChild_def Let_def
  by (cases el)
     (auto split: option.splits intro!: sameOutput_bind titleBlind_next [OF assms])

lemma parseTextRun_cong:
  fixes a b :: Renderer
  shows "currentBlock b = currentBlock a \<Longrightarrow> parseTextRun b buf run = parseTextRun a buf run"
  by (simp add: parseTextRun_def)

lemma parseTextElement_cong:
  fixes a b :: Renderer
  assumes "currentBlock b = currentBlock a"
  shows "parseTextElement b = parseTextElement a"
proof (intro ext)
  fix buf el inl
  show "parseTextElement b buf el inl = parseTextElement a buf el inl"
    using parseTextRun_cong [OF assms]
    by (simp add: parseTextElement_def split: option.splits)
qed

lemma setTitle_cases:
  fixes a :: Renderer
  obtains (keep) "\<And>b. currentBlock b = currentBlock a \<Longrightarrow> setTitle b block = Inr b"
  | (change) t where "\<And>b. currentBlock b = currentBlock a \<Longrightarrow> setTitle b block = Inr (b\<lparr>doc_title := t\<rparr>)"
  | (fail) e where "\<And>b. currentBlock b = currentBlock a \<Longrightarrow> setTitle b block = Inl e"
proof (cases "page block")
  case None
  then have "setTitle b block = Inr b" for b
    by (simp add: setTitle_def)
  then show ?thesis by (rule keep)
next
  case (Some pg)
  show ?thesis
  proof (cases "elements pg")
    case None
    with Some have "setTitle b block = Inr b" for b
      by (simp add: setTitle_def)
    then show ?thesis by (rule keep)
  next
    case els: (Some els)
    show ?thesis
    proof (cases "0 < length els")
      case False
      with Some els have "setTitle b block = Inr b" for b
        by (simp add: setTitle_def)
      then show ?thesis by (rule keep)
    next
      case True
      show ?thesis
      proof (cases "forEach_res (\<lambda>titleBuf el. parseTextElement a titleBuf el (1 < length els)) [] els")
        case (Inl e)
        have "setTitle b block = Inl e" if "currentBlock b = currentBlock a" for b
          using Some els True Inl parseTextElement_cong [OF that]
          by (simp add: setTitle_def)
        then show ?thesis by (rule fail)
      next
        case (Inr titleBuf)
        have "setTitle b block = Inr (b\<lparr>doc_title := trim (toString titleBuf)\<rparr>)"
          if "currentBlock b = currentBlock a" for b
          using Some els True Inr parseTextElement_cong [OF that]
          by (simp add: setTitle_def)
        then show ?thesis by (rule change)
      qed
    qed
  qed
qed

lemma setTitle_title:
  "(\<exists>e. setTitle a block = Inl e \<and> setTitle (a\<lparr>doc_title := x\<rparr>) block = Inl e)
   \<or> (\<exists>a1 y. setTitle a block = Inr a1 \<and> setTitle (a\<lparr>doc_title := x\<rparr>) block = Inr (a1\<lparr>doc_title := y\<rparr>))"
proof (cases a block rule: setTitle_cases)
  case keep
  from keep [of a] keep [of "a\<lparr>doc_title := x\<rparr>"] show ?thesis
    by auto
next
  case (change t)
  have "a\<lparr>doc_title := x, doc_title := t\<rparr> = a\<lparr>doc_title := t, doc_title := t\<rparr>"
    by simp
  with change [of a] change [of "a\<lparr>doc_title := x\<rparr>"] show ?thesis
    by auto
next
  case (fail e)
  from fail [of a] fail [of "a\<lparr>doc_title := x\<rparr>"] show ?thesis
    by simp
qed

lemma parsePageBlock_title:
  assumes "titleBlind rec"
  shows "sameOutput (parsePageBlock rec a block) (parsePageBlock rec (a\<lparr>doc_title := x\<rparr>) block)"
proof -
  have rest: "sameOutput
       (bind_res (parseTextBlock rec a1 block (page block))
          (\<lambda>(s, st).
             bind_res
               (forEach_res (renderPageChild rec (children block))
                  (write_buf (write_buf (write_buf [] ''# '') s) [newline], st)
                  (List.enumerate 0 (children block)))
               (\<lambda>(buf, st). Inr (toString buf, st))))
       (bind_res (parseTextBlock rec (a1\<lparr>doc_title := y\<rparr>) block (page block))
          (\<lambda>(s, st).
             bind_res
               (forEach_res (renderPageChild rec (children block))
                  (write_buf (write_buf (write_buf [] ''# '') s) [newline], st)
                  (List.enumerate 0 (children block)))
               (\<lambda>(buf, st). Inr (toString buf, st))))" for a1 y
    by (auto intro!: sameOutput_bind parseTextBlock_title sameOutput_forEach
          renderPageChild_title assms)
  from setTitle_title [of a block x] show ?thesis
    unfolding parsePageBlock_def
    by (elim disjE exE conjE) (simp_all add: rest)
qed


lemma collectRows_title:
  assumes "titleBlind rec"
  shows "sameOutput (collectRows rec conv a tbl) (collectRows rec conv (a\<lparr>doc_title := x\<rparr>) tbl)"
  unfolding collectRows_def
proof (rule sameOutput_forEach)
  fix acc a x and el :: "nat \<times> string"
  obtain idx blockId where el: "el = (idx, blockId)" by (cases el)
  show "sameOutput
          ((case (acc, a) of
             (rows, st) \<Rightarrow>
               \<lambda>(idx, blockId).
                 case blockMap st blockId of
                   None \<Rightarrow> Inr (rows, st)
                 | Some block \<Rightarrow>
                     bind_res (rec st block 0)
                       (\<lambda>(cellText, st).
                          bind_res (pushCell rows (rowIndex idx (column_size (property tbl))) (conv cellText))
                            (\<lambda>rows. Inr (rows, st)))) el)
          ((case (acc, a\<lparr>doc_title := x\<rparr>) of
             (rows, st) \<Rightarrow>
               \<lambda>(idx, blockId).
                 case blockMap st blockId of
                   None \<Rightarrow> Inr (rows, st)
                 | Some block \<Rightarrow>
                     bind_res (rec st block 0)
                       (\<lambda>(cellText, st).
                          bind_res (pushCell rows (rowIndex idx (column_size (property tbl))) (conv cellText))
                            (\<lambda>rows. Inr (rows, st)))) el)"
    by (auto simp: el split: option.splits
        intro!: sameOutput_bind titleBlindD [OF assms] intro: sameOutput_bind_pure)
qed

lemma parseTable_title:
  assumes "titleBlind rec"
  shows "sameOutput (parseTable ext rec a tbl) (parseTable ext rec (a\<lparr>doc_title := x\<rparr>) tbl)"
  unfolding parseTable_def parseTableAsHTML_def
  by (auto split: option.splits intro!: sameOutput_bind collectRows_title assms)

lemma parseTableCell_title:
  assumes "titleBlind rec"
  shows "sameOutput (parseTableCell rec a block) (parseTableCell rec (a\<lparr>doc_title := x\<rparr>) block)"
  unfolding parseTableCell_def
  by (auto intro!: sameOutput_bind eachChild_title titleBlindD [OF assms])

lemma parseView_title:
  assumes "titleBlind rec"
  shows "sameOutput (parseView rec a block) (parseView rec (a\<lparr>doc_title := x\<rparr>) block)"
  unfolding parseView_def
  by (auto intro!: sameOutput_bind eachChild_title titleBlindD [OF assms])

lemma parseSyncedBlock_title:
  assumes "titleBlind rec"
  shows "sameOutput (parseSyncedBlock rec a block) (parseSyncedBlock rec (a\<lparr>doc_title := x\<rparr>) block)"
  unfolding parseSyncedBlock_def
  by (auto intro!: sameOutput_bind eachChild_title titleBlindD [OF assms])

lemma parseQuoteContainer_title:
  assumes "titleBlind rec"
  shows "sameOutput (parseQuoteContainer rec a block)
           (parseQuoteContainer rec (a\<lparr>doc_title := x\<rparr>) block)"
  unfolding parseQuoteContainer_def quoteChild_def
  by (auto split: option.splits
      intro!: sameOutput_bind sameOutput_forEach titleBlindD [OF assms])

lemma joinChildren_title:
  assumes "titleBlind rec"
  shows "sameOutput (joinChildren rec a block) (joinChildren rec (a\<lparr>doc_title := x\<rparr>) block)"
  unfolding joinChildren_def joinChild_def
  by (auto split: option.splits
      intro!: sameOutput_bind sameOutput_forEach titleBlindD [OF assms])

lemma parseGridColumn_title:
  assumes "titleBlind rec"
  shows "sameOutput (parseGridColumn ext rec a block)
           (parseGridColumn ext rec (a\<lparr>doc_title := x\<rparr>) block)"
  unfolding parseGridColumn_def Let_def
  by (auto intro!: sameOutput_bind joinChildren_title assms)

lemma parseGrid_title:
  assumes "titleBlind rec"
  shows "sameOutput (parseGrid ext rec a block) (parseGrid ext rec (a\<lparr>doc_title := x\<rparr>) block)"
  unfolding parseGrid_def Let_def
  by (auto intro!: sameOutput_bind eachChild_title parseGridColumn_title assms)

lemma parseCallout_title:
  assumes "titleBlind rec"
  shows "sameOutput (parseCallout ext rec a block) (parseCallout ext rec (a\<lparr>doc_title := x\<rparr>) block)"
  unfolding parseCallout_def Let_def
  by (auto intro!: sameOutput_bind joinChildren_title assms)

lemma parseHeading_title:
  assumes "titleBlind rec"
  shows "sameOutput (parseHeading rec a buf block marker tb)
           (parseHeading rec (a\<lparr>doc_title := x\<rparr>) buf block marker tb)"
  unfolding parseHeading_def
  by (auto intro!: sameOutput_bind parseTextBlock_title assms)


lemma title_enter_commute:
  "a\<lparr>doc_title := x, indent := i, currentBlock := c\<rparr> = a\<lparr>indent := i, currentBlock := c, doc_title := x\<rparr>"
  by (cases a) simp

lemmas method_title =
  parsePageBlock_title parseTextBlock_title parseHeading_title parseBulletBlock_title
  parseOrderedBlock_title parseTableCell_title parseTable_title parseQuoteContainer_title
  parseView_title parseGrid_title parseCallout_title parseSyncedBlock_title

lemma parseBlock_body_title:
  assumes "titleBlind rec"
  shows "sameOutput (parseBlock_body ext rec a block ind)
           (parseBlock_body ext rec (a\<lparr>doc_title := x\<rparr>) block ind)"
  unfolding parseBlock_body_def Let_def title_enter_commute
  by (cases "block_type block")
     (auto simp: split_def parseImage_title parseBoard_title parseFile_title
       intro!: sameOutput_bind method_title [OF assms] intro: sameOutput_bind_pure)

lemma parseBlock_titleBlind: "titleBlind (parseBlock ext depth)"
proof (induction depth)
  case 0
  show ?case by (simp add: titleBlind_def)
next
  case (Suc depth)
  then show ?case
    using parseBlock_body_title [of "parseBlock ext depth" ext]
    by (simp add: titleBlind_def)
qed

subsection \<open>The page does not read \<open>nextBlock\<close> before it is set\<close>

lemma sameUpToNext_Inr [simp]:
  "sameUpToNext (Inr (v, a)) (Inr (v, a\<lparr>doc_title := x, nextBlock := n\<rparr>))"
  by (auto simp: sameUpToNext_def)

lemma sameUpToNext_Inl [simp]: "sameUpToNext (Inl e) (Inl e)"
  by (simp add: sameUpToNext_def)

lemma sameOutput_sameUpToNext:
  "sameOutput r1 r2 \<Longrightarrow> sameUpToNext r1 r2"
proof (erule sameOutputE)
  fix v a x
  assume "r1 = Inr (v, a)" and "r2 = Inr (v, a\<lparr>doc_title := x\<rparr>)"
  moreover have "a\<lparr>doc_title := x\<rparr> = a\<lparr>doc_title := x, nextBlock := nextBlock a\<rparr>"
    by simp
  ultimately show ?thesis
    using sameUpToNext_Inr [where v = v and a = a and x = x and n = "nextBlock a"] by simp
qed simp

lemma sameUpToNextE:
  assumes "sameUpToNext r1 r2"
  obtains e where "r1 = Inl e" and "r2 = Inl e"
  | v a x n where "r1 = Inr (v, a)" and "r2 = Inr (v, a\<lparr>doc_title := x, nextBlock := n\<rparr>)"
  using assms by (auto simp: sameUpToNext_def split: sum.splits)

lemma sameUpToNext_bind:
  assumes "sameUpToNext m1 m2"
    and "\<And>v a x n. sameUpToNext (k1 (v, a)) (k2 (v, a\<lparr>doc_title := x, nextBlock := n\<rparr>))"
  shows "sameUpToNext (bind_res m1 k1) (bind_res m2 k2)"
  using assms(1) by (rule sameUpToNextE) (simp_all add: assms(2))

lemma parseTextElement_next [simp]:
  "parseTextElement (a\<lparr>doc_title := x, nextBlock := n\<rparr>) = parseTextElement a"
  by (rule parseTextElement_cong) simp

lemma renderPageChild_next:
  assumes "titleBlind rec"
  shows "sameUpToNext (renderPageChild rec cs (buf, a) el)
           (renderPageChild rec cs (buf, a\<lparr>doc_title := x, nextBlock := n\<rparr>) el)"
proof -
  obtain idx childId where el: "el = (idx, childId)" by (cases el)
  show ?thesis
  proof (cases "blockMap a childId")
    case None
    then show ?thesis by (simp add: renderPageChild_def el)
  next
    case (Some child)
    have "sameOutput
            (bind_res (rec (a\<lparr>nextBlock := v\<rparr>) child 0)
               (\<lambda>(childText, st).
                  if 0 < length childText
                  then Inr (write_buf (write_buf buf childText) [newline], st)
                  else Inr (buf, st)))
            (bind_res (rec (a\<lparr>doc_title := x, nextBlock := v\<rparr>) child 0)
               (\<lambda>(childText, st).
                  if 0 < length childText
                  then Inr (write_buf (write_buf buf childText) [newline], st)
                  else Inr (buf, st)))" for v
      by (auto intro!: sameOutput_bind titleBlind_next [OF assms])
    then show ?thesis
      by (simp add: renderPageChild_def el Some Let_def sameOutput_sameUpToNext)
  qed
qed

lemma page_loop_next:
  assumes "titleBlind rec"
  shows "sameUpToNext (forEach_res (renderPageChild rec cs) (buf, a) xs)
           (forEach_res (renderPageChild rec cs) (buf, a\<lparr>doc_title := x, nextBlock := n\<rparr>) xs)"
proof (induction xs arbitrary: buf a x n)
  case Nil
  show ?case by simp
next
  case (Cons el xs)
  from renderPageChild_next [OF assms, where cs = cs and buf = buf and a = a and el = el and x = x and n = n]
  show ?case
    by (rule sameUpToNextE) (simp_all add: Cons.IH)
qed

lemma parseTextBlock_Page_next:
  assumes "block_type block = Page"
  shows "sameUpToNext (parseTextBlock rec a block tb)
           (parseTextBlock rec (a\<lparr>doc_title := x, nextBlock := n\<rparr>) block tb)"
  using assms
  by (auto simp: parseTextBlock_def childrenBlockTypes_def Let_def bind_res_def
      split: option.splits sum.splits)

lemma setTitle_next:
  "(\<exists>e. setTitle a block = Inl e \<and> setTitle (a\<lparr>doc_title := x, nextBlock := n\<rparr>) block = Inl e)
   \<or> (\<exists>a1 y. setTitle a block = Inr a1
          \<and> setTitle (a\<lparr>doc_title := x, nextBlock := n\<rparr>) block = Inr (a1\<lparr>doc_title := y, nextBlock := n\<rparr>))"
proof (cases a block rule: setTitle_cases)
  case keep
  from keep [of a] keep [of "a\<lparr>doc_title := x, nextBlock := n\<rparr>"] show ?thesis
    by auto
next
  case (change t)
  have "a\<lparr>doc_title := x, nextBlock := n, doc_title := t\<rparr>
          = a\<lparr>doc_title := t, doc_title := t, nextBlock := n\<rparr>"
    by (cases a) simp
  with change [of a] change [of "a\<lparr>doc_title := x, nextBlock := n\<rparr>"] show ?thesis
    by auto
next
  case (fail e)
  from fail [of a] fail [of "a\<lparr>doc_title := x, nextBlock := n\<rparr>"] show ?thesis
    by simp
qed

lemma parsePageBlock_next:
  assumes "block_type block = Page" and "titleBlind rec"
  shows "sameUpToNext (parsePageBlock rec a block)
           (parsePageBlock rec (a\<lparr>doc_title := x, nextBlock := n\<rparr>) block)"
proof -
  have rest: "sameUpToNext
       (bind_res (parseTextBlock rec a1 block (page block))
          (\<lambda>(s, st).
             bind_res
               (forEach_res (renderPageChild rec (children block))
                  (write_buf (write_buf (write_buf [] ''# '') s) [newline], st)
                  (List.enumerate 0 (children block)))
               (\<lambda>(buf, st). Inr (toString buf, st))))
       (bind_res (parseTextBlock rec (a1\<lparr>doc_title := y, nextBlock := n\<rparr>) block (page block))
          (\<lambda>(s, st).
             bind_res
               (forEach_res (renderPageChild rec (children block))
                  (write_buf (write_buf (write_buf [] ''# '') s) [newline], st)
                  (List.enumerate 0 (children block)))
               (\<lambda>(buf, st). Inr (toString buf, st))))" for a1 y
    by (auto intro!: sameUpToNext_bind parseTextBlock_Page_next page_loop_next assms)
  from setTitle_next [where a = a and block = block and x = x and n = n] show ?thesis
    unfolding parsePageBlock_def
    by (elim disjE exE conjE) (simp_all add: rest)
qed


lemma observable_sameUpToNext:
  "sameUpToNext r1 r2 \<Longrightarrow> observable r1 = observable r2"
  by (erule sameUpToNextE) (simp_all add: observable_def)

lemma enter_root:
  fixes s1 s2 :: Renderer
  assumes "outputUnsupported s1 = outputUnsupported s2"
  shows "s2\<lparr>blockMap := m, fileTokens := [], indent := 0, currentBlock := Some b\<rparr>
         = s1\<lparr>blockMap := m, fileTokens := [], indent := 0, currentBlock := Some b,
               doc_title := doc_title s2, nextBlock := nextBlock s2\<rparr>"
  using assms by (cases s1; cases s2) simp

lemma parseBlock_root:
  assumes "block_type root = Page" and "outputUnsupported s1 = outputUnsupported s2"
  shows "sameUpToNext
           (parseBlock ext depth (s1\<lparr>blockMap := m, fileTokens := []\<rparr>) root 0)
           (parseBlock ext depth (s2\<lparr>blockMap := m, fileTokens := []\<rparr>) root 0)"
proof (cases depth)
  case 0
  then show ?thesis by simp
next
  case (Suc d)
  have "sameUpToNext
          (bind_res (parsePageBlock (parseBlock ext d) a root)
             (\<lambda>(s, st). Inr (toString (write_buf (writeIndent [] 0) s), st)))
          (bind_res (parsePageBlock (parseBlock ext d) (a\<lparr>doc_title := x, nextBlock := n\<rparr>) root)
             (\<lambda>(s, st). Inr (toString (write_buf (writeIndent [] 0) s), st)))" for a x n
    by (auto intro!: sameUpToNext_bind parsePageBlock_next assms(1) parseBlock_titleBlind)
  then show ?thesis
    using assms(1) enter_root [OF assms(2), where m = m and b = root]
    by (simp add: Suc parseBlock_body_def Let_def)
qed

text \<open>
  Claim C8. Rendering is a function of the block list: \<open>parse\<close> on the same list gives the
  same markdown and the same list of file tokens, or the same exception, from any two
  renderers, whatever an earlier use has left in them (every renderer of the source has
  \<open>outputUnsupported = false\<close>). The functions of other modules, \<open>ext\<close>, are taken to be
  functions of their arguments.
\<close>

theorem parse_deterministic:
  assumes "outputUnsupported s1 = outputUnsupported s2"
  shows "observable (parse ext depth s1 blocks) = observable (parse ext depth s2 blocks)"
proof (cases "List.find (\<lambda>b. block_type b = Page) blocks")
  case None
  then show ?thesis by (simp add: parse_def)
next
  case (Some root)
  then have "block_type root = Page"
    by (auto simp: find_Some_iff)
  then have "sameUpToNext
      (bind_res (parseBlock ext depth (s1\<lparr>blockMap := m, fileTokens := []\<rparr>) root 0)
         (\<lambda>(result, st). Inr (trim result @ [newline], st)))
      (bind_res (parseBlock ext depth (s2\<lparr>blockMap := m, fileTokens := []\<rparr>) root 0)
         (\<lambda>(result, st). Inr (trim result @ [newline], st)))" for m
    by (auto intro!: sameUpToNext_bind parseBlock_root assms)
  then show ?thesis
    by (simp add: parse_def Some Let_def observable_sameUpToNext)
qed

text \<open>
  On a page with one image, a renderer that has been used gives what a new one gives.
\<close>

theorem parse_deterministic_witness:
  "outputUnsupported newRenderer = outputUnsupported usedRenderer
   \<and> observable (parse sampleExternals 4 usedRenderer imageDoc)
     = observable (parse sampleExternals 4 newRenderer imageDoc)"
  using parse_deterministic [of newRenderer usedRenderer sampleExternals 4 imageDoc]
  by (simp add: newRenderer_def usedRenderer_def)

end
